theory Spec2Isabelle
  imports Main
begin

section \<open>The rule \<open>no-array-for-each\<close>: syntax tree, tokens, scopes\<close>

text \<open>
  The rule lives in \<^verbatim>\<open>rules/no-array-for-each.js\<close>. It reads a syntax tree built by
  the host linter, whose nodes are objects compared by identity (\<^verbatim>\<open>===\<close>). A node is
  modelled with a numeric identity; \<^verbatim>\<open>a === b\<close> on nodes is equality of identities.
  A position range \<^verbatim>\<open>[start, end]\<close> is a pair of naturals.
\<close>

type_synonym range = "nat \<times> nat"

record token =
  tok_type :: string
  tok_value :: string
  tok_range :: range

text \<open>A child node as its parent's attribute gives it: identity and range.\<close>

record nodeRef =
  ref_id :: nat
  ref_range :: range

text \<open>
  A node as the rule walks it upwards: its \<^verbatim>\<open>type\<close>, \<^verbatim>\<open>range\<close> and \<^verbatim>\<open>parent\<close>, and
  the child attributes the rule compares with (\<^verbatim>\<open>consequent\<close>, \<^verbatim>\<open>alternate\<close>, \<^verbatim>\<open>body\<close>,
  \<^verbatim>\<open>left\<close>: the identity of the child, \<open>None\<close> where the attribute is absent or null)
  or reads (\<^verbatim>\<open>argument\<close> of a return statement). The parent chain of a tree is finite,
  which the datatype expresses.
\<close>

datatype node = Node
  (node_id: nat) (node_type: string) (node_range: range)
  (consequent: "nat option") (alternate: "nat option") (body_ref: "nat option")
  (left: "nat option") (argument: "nodeRef option")
  (parent: "node option")

text \<open>Lexical scopes of the host's scope analysis, each with its \<^verbatim>\<open>upper\<close> scope.\<close>

datatype scope = Scope (scope_id: nat) (upper: "scope option")

record varDefinition =
  def_type :: string
  def_name :: string

record reference =
  ref_identifier :: node

record variable =
  defs :: "varDefinition list"
  references :: "reference list"
  var_scope :: scope

text \<open>An identifier reference collected during traversal.\<close>

record identifierNode =
  id_node :: nat
  id_name :: string
  id_range :: range

text \<open>
  The receiver of the call (\<^verbatim>\<open>callExpression.callee.object\<close>): its shape as far as a
  static name can be read off it, its identity and its range.
\<close>

datatype expression =
    Identifier string
  | ThisExpression
  | MemberExpression expression expression bool bool
  | OtherExpression string

record objectNode =
  obj_id :: nat
  obj_range :: range
  obj_expr :: expression

record memberExpression =
  object :: objectNode
  property :: nodeRef
  member_optional :: bool

record parameter =
  param_type :: string
  typeAnnotation :: bool
  param_range :: range

record functionBody =
  body_id :: nat
  body_type :: string
  body_range :: range
  loc_start_line :: nat
  loc_end_line :: nat
  body_statements :: "range list"

text \<open>
  An argument of the call. For a function, \<^verbatim>\<open>async\<close>, \<^verbatim>\<open>generator\<close>, \<^verbatim>\<open>params\<close> and
  \<^verbatim>\<open>body\<close> are its attributes; on another node they read as undefined (false, empty).
\<close>

record argumentNode =
  arg_id :: nat
  arg_type :: string
  arg_range :: range
  async :: bool
  generator :: bool
  params :: "parameter list"
  body :: functionBody

record callExpression =
  call_id :: nat
  call_range :: range
  call_optional :: bool
  arguments :: "argumentNode list"
  callee :: memberExpression
  call_parent :: node

text \<open>A JavaScript exception: a \<^verbatim>\<open>TypeError\<close> of the runtime, or the error \<^verbatim>\<open>assertToken\<close> throws.\<close>

datatype error = TypeError | AssertTokenError

section \<open>The host's interfaces\<close>

text \<open>
  The source-code object of the host (text slicing and token navigation), the rule
  context, and the helper modules the rule requires are not part of the rule's file; the
  rule's functions take them as parameters. Token queries are keyed by the range of the
  node or token they are asked about; helpers that inspect a node are keyed by its
  identity. \<^verbatim>\<open>getFirstToken\<close> and \<^verbatim>\<open>getLastToken\<close> of a node always give a token (a node
  spans at least one token); \<^verbatim>\<open>getTokenBefore\<close> and \<^verbatim>\<open>getTokenAfter\<close> may give null.
\<close>

record sourceCode =
  getText :: "range \<Rightarrow> string"
  getFirstToken :: "range \<Rightarrow> token"
  getLastToken :: "range \<Rightarrow> token"
  getLastTokens2 :: "range \<Rightarrow> token \<times> token"
  getTokenBefore :: "range \<Rightarrow> (token \<Rightarrow> bool) \<Rightarrow> token option"
  getTokenAfter :: "range \<Rightarrow> token option"

record ruleContext =
  getSourceCode :: sourceCode
  getDeclaredVariables :: "nat \<Rightarrow> variable list"
  getScope :: "nat \<Rightarrow> scope"

text \<open>An edit of the source text, as the host's fixer returns it.\<close>

record editOperation =
  edit_range :: range
  edit_text :: string

record modules =
  isParenthesized :: "nat \<Rightarrow> bool"
  findVariable :: "scope \<Rightarrow> identifierNode \<Rightarrow> variable option"
  needsSemicolon :: "token option \<Rightarrow> string \<Rightarrow> bool"
  shouldAddParenthesesToExpressionStatementExpression :: "nat \<Rightarrow> bool"
  getParentheses :: "nat \<Rightarrow> token list"
  isFunctionSelfUsedInside :: "nat \<Rightarrow> scope \<Rightarrow> bool"
  fixSpaceAroundKeyword :: "node \<Rightarrow> editOperation list"
  getIndentString :: "node option \<Rightarrow> string"
  indentString :: "string \<Rightarrow> string"

text \<open>The token tests of \<^verbatim>\<open>eslint-utils\<close>: a punctuator with the given value.\<close>

definition isPunctuatorTokenWithValue :: "token \<Rightarrow> string \<Rightarrow> bool" where
  "isPunctuatorTokenWithValue t v = (tok_type t = ''Punctuator'' \<and> tok_value t = v)"

definition isArrowToken :: "token \<Rightarrow> bool" where
  "isArrowToken t = isPunctuatorTokenWithValue t ''=>''"

definition isCommaToken :: "token \<Rightarrow> bool" where
  "isCommaToken t = isPunctuatorTokenWithValue t '',''"

definition isSemicolonToken :: "token \<Rightarrow> bool" where
  "isSemicolonToken t = isPunctuatorTokenWithValue t '';''"

definition isClosingParenToken :: "token \<Rightarrow> bool" where
  "isClosingParenToken t = isPunctuatorTokenWithValue t '')''"

text \<open>
  The fixer of the host: every method returns one edit. An insertion is an edit of an
  empty range at the start or the end of its target; a removal replaces by the empty text.
\<close>

definition fixer_replaceTextRange :: "range \<Rightarrow> string \<Rightarrow> editOperation" where
  "fixer_replaceTextRange r t = \<lparr>edit_range = r, edit_text = t\<rparr>"

definition fixer_replaceText :: "range \<Rightarrow> string \<Rightarrow> editOperation" where
  "fixer_replaceText r t = fixer_replaceTextRange r t"

definition fixer_remove :: "range \<Rightarrow> editOperation" where
  "fixer_remove r = \<lparr>edit_range = r, edit_text = []\<rparr>"

definition fixer_insertTextBeforeRange :: "range \<Rightarrow> string \<Rightarrow> editOperation" where
  "fixer_insertTextBeforeRange r t = \<lparr>edit_range = (fst r, fst r), edit_text = t\<rparr>"

definition fixer_insertTextAfterRange :: "range \<Rightarrow> string \<Rightarrow> editOperation" where
  "fixer_insertTextAfterRange r t = \<lparr>edit_range = (snd r, snd r), edit_text = t\<rparr>"

definition fixer_insertTextBefore :: "range \<Rightarrow> string \<Rightarrow> editOperation" where
  "fixer_insertTextBefore r t = fixer_insertTextBeforeRange r t"

definition fixer_insertTextAfter :: "range \<Rightarrow> string \<Rightarrow> editOperation" where
  "fixer_insertTextAfter r t = fixer_insertTextAfterRange r t"

section \<open>Return statements inside the callback\<close>

definition continueAbleNodeTypes :: "string list" where
  "continueAbleNodeTypes =
     [''WhileStatement'', ''DoWhileStatement'', ''ForStatement'', ''ForOfStatement'',
      ''ForInStatement'']"

text \<open>
  \<^verbatim>\<open>for (let node = returnStatement; node && node !== callbackFunction; node = node.parent)\<close>:
  the walk stops at the callback (given by its identity) or at the root.
\<close>

fun isReturnStatementInContinueAbleNodes :: "node \<Rightarrow> nat \<Rightarrow> bool" where
  "isReturnStatementInContinueAbleNodes (Node i t r c a b l arg p) callbackFunction =
     (if i = callbackFunction then False
      else if t \<in> set continueAbleNodeTypes then True
      else (case p of
              None \<Rightarrow> False
            | Some n \<Rightarrow> isReturnStatementInContinueAbleNodes n callbackFunction))"

text \<open>
  A return statement always has a parent; on a node without one the source's
  \<^verbatim>\<open>parent.type\<close> is a \<^verbatim>\<open>TypeError\<close>.
\<close>

definition shouldSwitchReturnStatementToBlockStatement :: "node \<Rightarrow> error + bool" where
  "shouldSwitchReturnStatementToBlockStatement returnStatement =
     (case parent returnStatement of
        None \<Rightarrow> Inl TypeError
      | Some p \<Rightarrow>
          if node_type p = ''IfStatement''
          then Inr (consequent p = Some (node_id returnStatement)
                    \<or> alternate p = Some (node_id returnStatement))
          else if node_type p = ''WithStatement''
          then Inr (body_ref p = Some (node_id returnStatement))
          else Inr False)"

section \<open>Scopes and parameters\<close>

text \<open>\<^verbatim>\<open>for (let scope = child; scope; scope = scope.upper) if (scope === parent) return true\<close>\<close>

fun isChildScope :: "scope \<Rightarrow> scope \<Rightarrow> bool" where
  "isChildScope (Scope i u) parentScope =
     (if i = scope_id parentScope then True
      else (case u of None \<Rightarrow> False | Some s \<Rightarrow> isChildScope s parentScope))"

text \<open>
  The inner loop of \<^verbatim>\<open>isFunctionParametersSafeToFix\<close> over all collected identifiers:
  \<open>False\<close> is the early \<^verbatim>\<open>return false\<close>.
\<close>

fun identifiersSafe ::
  "modules \<Rightarrow> scope \<Rightarrow> range \<Rightarrow> string \<Rightarrow> identifierNode list \<Rightarrow> bool" where
  "identifiersSafe m scope array variableName [] = True"
| "identifiersSafe m scope array variableName (ident # rest) =
     (if id_name ident \<noteq> variableName
         \<or> fst (id_range ident) < fst array
         \<or> snd (id_range ident) > snd array
      then identifiersSafe m scope array variableName rest
      else (case findVariable m scope ident of
              None \<Rightarrow> False
            | Some v \<Rightarrow>
                if scope_id (var_scope v) = scope_id scope \<or> isChildScope scope (var_scope v)
                then False
                else identifiersSafe m scope array variableName rest))"

text \<open>The outer loop over the variables the callback declares.\<close>

fun variablesSafe ::
  "modules \<Rightarrow> scope \<Rightarrow> range \<Rightarrow> identifierNode list \<Rightarrow> variable list \<Rightarrow> bool" where
  "variablesSafe m scope array allIdentifiers [] = True"
| "variablesSafe m scope array allIdentifiers (v # rest) =
     (case defs v of
        [d] \<Rightarrow>
          if def_type d \<noteq> ''Parameter''
          then variablesSafe m scope array allIdentifiers rest
          else if identifiersSafe m scope array (def_name d) allIdentifiers
          then variablesSafe m scope array allIdentifiers rest
          else False
      | _ \<Rightarrow> False)"

definition isFunctionParametersSafeToFix ::
  "modules \<Rightarrow> ruleContext \<Rightarrow> argumentNode \<Rightarrow> scope \<Rightarrow> range \<Rightarrow> identifierNode list \<Rightarrow> bool"
  where
  "isFunctionParametersSafeToFix m ctx callbackFunction scope array allIdentifiers =
     variablesSafe m scope array allIdentifiers
       (getDeclaredVariables ctx (arg_id callbackFunction))"

text \<open>
  \<^verbatim>\<open>variable.defs[0].type\<close> is a \<^verbatim>\<open>TypeError\<close> on a variable without a definition.
\<close>

definition isReassignment :: "reference \<Rightarrow> error + bool" where
  "isReassignment r =
     (case parent (ref_identifier r) of
        None \<Rightarrow> Inl TypeError
      | Some p \<Rightarrow>
          Inr (node_type p = ''UpdateExpression''
               \<or> (node_type p = ''AssignmentExpression''
                  \<and> left p = Some (node_id (ref_identifier r)))))"

fun someReference :: "reference list \<Rightarrow> error + bool" where
  "someReference [] = Inr False"
| "someReference (r # rest) =
     (case isReassignment r of
        Inl e \<Rightarrow> Inl e
      | Inr True \<Rightarrow> Inr True
      | Inr False \<Rightarrow> someReference rest)"

fun filterParameters :: "variable list \<Rightarrow> error + variable list" where
  "filterParameters [] = Inr []"
| "filterParameters (v # rest) =
     (case defs v of
        [] \<Rightarrow> Inl TypeError
      | d # _ \<Rightarrow>
          (case filterParameters rest of
             Inl e \<Rightarrow> Inl e
           | Inr vs \<Rightarrow> Inr (if def_type d = ''Parameter'' then v # vs else vs)))"

fun someVariable :: "variable list \<Rightarrow> error + bool" where
  "someVariable [] = Inr False"
| "someVariable (v # rest) =
     (case someReference (references v) of
        Inl e \<Rightarrow> Inl e
      | Inr True \<Rightarrow> Inr True
      | Inr False \<Rightarrow> someVariable rest)"

definition isFunctionParameterVariableReassigned ::
  "ruleContext \<Rightarrow> argumentNode \<Rightarrow> error + bool" where
  "isFunctionParameterVariableReassigned ctx callbackFunction =
     (case filterParameters (getDeclaredVariables ctx (arg_id callbackFunction)) of
        Inl e \<Rightarrow> Inl e
      | Inr vs \<Rightarrow> someVariable vs)"

section \<open>Fixability\<close>

text \<open>
  Per function, the rule keeps the return statements collected for it and the scope at
  its entry, in a map keyed by the function node.
\<close>

record functionInfoEntry =
  returnStatements :: "node list"
  info_scope :: scope

text \<open>
  \<^verbatim>\<open>isFixable(callExpression, {scope, functionInfo, allIdentifiers, context})\<close>. Destructuring
  \<^verbatim>\<open>functionInfo.get(callback)\<close> is a \<^verbatim>\<open>TypeError\<close> when the map has no entry for the
  callback. The parameter check is given the range of the whole call expression
  (\<^verbatim>\<open>array: callExpression\<close>).
\<close>

definition isFixable ::
  "modules \<Rightarrow> callExpression \<Rightarrow> scope \<Rightarrow> (nat \<rightharpoonup> functionInfoEntry) \<Rightarrow>
   identifierNode list \<Rightarrow> ruleContext \<Rightarrow> error + bool" where
  "isFixable m callExpression scope functionInfo allIdentifiers ctx =
     (if call_optional callExpression
         \<or> isParenthesized m (call_id callExpression)
         \<or> length (arguments callExpression) \<noteq> 1
      then Inr False
      else if node_type (call_parent callExpression) \<noteq> ''ExpressionStatement''
              \<and> node_type (call_parent callExpression) \<noteq> ''ChainExpression''
      then Inr False
      else (case arguments callExpression of
              [] \<Rightarrow> Inl TypeError
            | callback # _ \<Rightarrow>
                if (arg_type callback \<noteq> ''FunctionExpression''
                    \<and> arg_type callback \<noteq> ''ArrowFunctionExpression'')
                   \<or> async callback
                   \<or> generator callback
                then Inr False
                else if \<not> (length (params callback) = 1 \<or> length (params callback) = 2)
                        \<or> list_ex (\<lambda>p. param_type p = ''RestElement'' \<or> typeAnnotation p)
                             (params callback)
                        \<or> \<not> isFunctionParametersSafeToFix m ctx callback scope
                               (call_range callExpression) allIdentifiers
                then Inr False
                else (case functionInfo (arg_id callback) of
                        None \<Rightarrow> Inl TypeError
                      | Some info \<Rightarrow>
                          if list_ex
                               (\<lambda>returnStatement.
                                  isReturnStatementInContinueAbleNodes returnStatement
                                    (arg_id callback))
                               (returnStatements info)
                          then Inr False
                          else if isFunctionSelfUsedInside m (arg_id callback) (info_scope info)
                          then Inr False
                          else Inr True)))"

section \<open>The fix\<close>

text \<open>What a template literal or a string concatenation prints for a value that may be undefined.\<close>

definition js_string :: "string option \<Rightarrow> string" where
  "js_string v = (case v of None \<Rightarrow> ''undefined'' | Some s \<Rightarrow> s)"

text \<open>The \<^verbatim>\<open>name\<close> attribute of an expression node: only an identifier has one.\<close>

fun expression_name :: "expression \<Rightarrow> string option" where
  "expression_name (Identifier n) = Some n"
| "expression_name ThisExpression = None"
| "expression_name (MemberExpression obj prop computed opt) = None"
| "expression_name (OtherExpression t) = None"

definition getForOfLoopHeadText ::
  "modules \<Rightarrow> ruleContext \<Rightarrow> callExpression \<Rightarrow> argumentNode \<Rightarrow> error + string" where
  "getForOfLoopHeadText m ctx callExpression callback =
     (let sourceCode = getSourceCode ctx;
          parameters = params callback;
          array = object (callee callExpression);
          texts = map (\<lambda>parameter. getText sourceCode (param_range parameter)) parameters;
          elementText = js_string (case texts of [] \<Rightarrow> None | e # _ \<Rightarrow> Some e);
          indexText = js_string (case texts of e # i # _ \<Rightarrow> Some i | _ \<Rightarrow> None);
          useEntries = (length parameters = 2);
          arrayText = (if isParenthesized m (obj_id array)
                       then ''('' @ getText sourceCode (obj_range array) @ '')''
                       else getText sourceCode (obj_range array))
      in case isFunctionParameterVariableReassigned ctx callback of
           Inl e \<Rightarrow> Inl e
         | Inr reassigned \<Rightarrow>
             Inr (''for ('' @ (if reassigned then ''let'' else ''const'') @ '' ''
                  @ (if useEntries then ''['' @ indexText @ '', '' @ elementText @ '']''
                     else elementText)
                  @ '' of '' @ arrayText
                  @ (if useEntries then ''.entries()'' else [])
                  @ '') ''))"

definition getForOfLoopHeadRange ::
  "ruleContext \<Rightarrow> callExpression \<Rightarrow> argumentNode \<Rightarrow> error + range" where
  "getForOfLoopHeadRange ctx callExpression callback =
     (if body_type (body callback) = ''BlockStatement''
      then Inr (fst (call_range callExpression), fst (body_range (body callback)))
      else (case getTokenBefore (getSourceCode ctx) (body_range (body callback)) isArrowToken of
              None \<Rightarrow> Inl TypeError
            | Some arrowToken \<Rightarrow>
                Inr (fst (call_range callExpression), snd (tok_range arrowToken))))"

text \<open>
  \<^verbatim>\<open>replaceReturnStatement\<close>. \<^verbatim>\<open>assertToken\<close> throws unless the first token of the
  statement has the value \<^verbatim>\<open>return\<close>. \<^verbatim>\<open>nextToken.value\<close> is read only when no braces
  and no parentheses are inserted; \<^verbatim>\<open>insertTextBefore(nextToken, ...)\<close> only when there
  is text to insert.
\<close>

definition replaceReturnStatement ::
  "modules \<Rightarrow> ruleContext \<Rightarrow> node \<Rightarrow> error + editOperation list" where
  "replaceReturnStatement m ctx returnStatement =
     (let sourceCode = getSourceCode ctx;
          returnToken = getFirstToken sourceCode (node_range returnStatement)
      in if tok_value returnToken \<noteq> ''return'' then Inl AssertTokenError
         else (case argument returnStatement of
                 None \<Rightarrow> Inr [fixer_replaceText (tok_range returnToken) ''continue'']
               | Some arg \<Rightarrow>
                   (let previousToken =
                          getTokenBefore sourceCode (tok_range returnToken) (\<lambda>t. True);
                        nextToken = getTokenAfter sourceCode (tok_range returnToken);
                        shouldAddParentheses =
                          (\<not> isParenthesized m (ref_id arg)
                           \<and> shouldAddParenthesesToExpressionStatementExpression m (ref_id arg));
                        textBefore0 = (if shouldAddParentheses then ''('' else []);
                        textAfter = (if shouldAddParentheses then '')'' else [])
                    in case shouldSwitchReturnStatementToBlockStatement returnStatement of
                         Inl e \<Rightarrow> Inl e
                       | Inr insertBraces \<Rightarrow>
                           (case (if insertBraces then Inr (''{ '' @ textBefore0)
                                  else if shouldAddParentheses
                                  then Inr (if needsSemicolon m previousToken ''(''
                                            then '';'' @ textBefore0 else textBefore0)
                                  else (case nextToken of
                                          None \<Rightarrow> Inl TypeError
                                        | Some nt \<Rightarrow>
                                            Inr (if needsSemicolon m previousToken (tok_value nt)
                                                 then '';'' @ textBefore0 else textBefore0))) of
                              Inl e \<Rightarrow> Inl e
                            | Inr textBefore \<Rightarrow>
                                (case (if textBefore \<noteq> []
                                       then (case nextToken of
                                               None \<Rightarrow> Inl TypeError
                                             | Some nt \<Rightarrow>
                                                 Inr [fixer_insertTextBefore (tok_range nt)
                                                        textBefore])
                                       else Inr []) of
                                   Inl e \<Rightarrow> Inl e
                                 | Inr inserted \<Rightarrow>
                                     Inr ([fixer_remove (tok_range returnToken)]
                                          @ inserted
                                          @ (if textAfter \<noteq> []
                                             then [fixer_insertTextAfter (ref_range arg) textAfter]
                                             else [])
                                          @ (if \<not> isSemicolonToken
                                                    (getLastToken sourceCode
                                                       (node_range returnStatement))
                                             then [fixer_insertTextAfter
                                                     (node_range returnStatement) '';'']
                                             else [])
                                          @ [fixer_insertTextAfter (node_range returnStatement)
                                               '' continue;'']
                                          @ (if insertBraces
                                             then [fixer_insertTextAfter
                                                     (node_range returnStatement) '' }'']
                                             else [])))))))"

text \<open>\<^verbatim>\<open>for (const returnStatement of returnStatements) yield * replaceReturnStatement(...)\<close>\<close>

fun replaceReturnStatements ::
  "modules \<Rightarrow> ruleContext \<Rightarrow> node list \<Rightarrow> error + editOperation list" where
  "replaceReturnStatements m ctx [] = Inr []"
| "replaceReturnStatements m ctx (returnStatement # rest) =
     (case replaceReturnStatement m ctx returnStatement of
        Inl e \<Rightarrow> Inl e
      | Inr edits \<Rightarrow>
          (case replaceReturnStatements m ctx rest of
             Inl e \<Rightarrow> Inl e
           | Inr others \<Rightarrow> Inr (edits @ others)))"

definition shouldRemoveExpressionStatementLastToken ::
  "argumentNode \<Rightarrow> bool \<Rightarrow> token \<Rightarrow> bool" where
  "shouldRemoveExpressionStatementLastToken callback isOptionalChaining tok =
     (if \<not> isSemicolonToken tok then False
      else if body_type (body callback) \<noteq> ''BlockStatement'' \<and> \<not> isOptionalChaining then False
      else True)"

definition wrapInIfStatement ::
  "modules \<Rightarrow> ruleContext \<Rightarrow> callExpression \<Rightarrow> argumentNode \<Rightarrow> string \<Rightarrow> editOperation list"
  where
  "wrapInIfStatement m ctx callExpression callback indentedString =
     (let sourceCode = getSourceCode ctx;
          isBlockStatement = (body_type (body callback) = ''BlockStatement'');
          isSingleLine = (\<not> isBlockStatement
                          \<or> loc_start_line (body callback) = loc_end_line (body callback));
          indentedForOfClosingBracket = (if isSingleLine then ''}'' else indentString m ''}'');
          isMultilineBlock = (body_type (body callback) = ''BlockStatement'' \<and> \<not> isSingleLine)
      in [fixer_insertTextBefore (call_range callExpression)
            (''if ('' @ js_string (expression_name (obj_expr (object (callee callExpression))))
             @ '') {\<newline>''),
          fixer_insertTextAfter (call_range callExpression)
            (''\<newline>'' @ indentedString @ ''}'')]
         @ (if body_type (body callback) \<noteq> ''BlockStatement'' \<and> isSingleLine
            then [fixer_insertTextAfter (body_range (body callback)) '';'']
            else [])
         @ (if \<not> isMultilineBlock then []
            else fixer_replaceText
                   (tok_range (getLastToken sourceCode (body_range (body callback))))
                   indentedForOfClosingBracket
                 # map (\<lambda>expression.
                          fixer_replaceText expression (indentString m (getText sourceCode expression)))
                     (body_statements (body callback))))"

definition removeCallbackParentheses :: "modules \<Rightarrow> argumentNode \<Rightarrow> editOperation list" where
  "removeCallbackParentheses m callback =
     map (\<lambda>closingParenthesisToken. fixer_remove (tok_range closingParenthesisToken))
       (filter isClosingParenToken (getParentheses m (arg_id callback)))"

text \<open>
  Modelled from the spec: \<^verbatim>\<open>extendFixRange\<close> of \<^verbatim>\<open>./fix/index.js\<close> is not part of the
  rule's file. It widens the patch's declared range to cover the range it is given: two
  empty insertions, one at each end of that range.
\<close>

definition extendFixRange :: "range \<Rightarrow> editOperation list" where
  "extendFixRange r = [fixer_insertTextBeforeRange r [], fixer_insertTextAfterRange r []]"

text \<open>
  \<^verbatim>\<open>text.replace(/\s+$/, '')\<close>. Text is a string of 8-bit characters (the code units
  below 256); of the characters \<^verbatim>\<open>\s\<close> matches, these are the tab, the line feed, the
  vertical tab, the form feed, the carriage return, the space and the no-break space.
\<close>

definition isWhitespace :: "char \<Rightarrow> bool" where
  "isWhitespace c =
     (c \<in> set [CHR '' '', CHR 0x09, CHR 0x0A, CHR 0x0B, CHR 0x0C, CHR 0x0D, CHR 0xA0])"

definition trimTrailingWhitespace :: "string \<Rightarrow> string" where
  "trimTrailingWhitespace s = rev (dropWhile isWhitespace (rev s))"

text \<open>
  The edits the generator returned by \<^verbatim>\<open>getFixFunction\<close> yields, in the order it yields
  them, once the loop head, its range, the edits of the return statements and the
  statement whose last token is inspected have been computed.
\<close>

definition fixEdits ::
  "modules \<Rightarrow> ruleContext \<Rightarrow> callExpression \<Rightarrow> argumentNode \<Rightarrow> string \<Rightarrow> range \<Rightarrow>
   editOperation list \<Rightarrow> node \<Rightarrow> editOperation list" where
  "fixEdits m ctx callExpression callback headText headRange returnEdits statement =
     (let sourceCode = getSourceCode ctx;
          isOptionalChaining = member_optional (callee callExpression);
          isBlockStatement = (body_type (body callback) = ''BlockStatement'');
          indentedString = getIndentString m (parent (call_parent callExpression));
          indentedForOfLoopHeadText = indentedString @ indentString m headText;
          trimmedForOfLoopHeadText =
            (if isBlockStatement then indentedForOfLoopHeadText
             else trimTrailingWhitespace indentedForOfLoopHeadText);
          penultimateToken = fst (getLastTokens2 sourceCode (call_range callExpression));
          lastToken = snd (getLastTokens2 sourceCode (call_range callExpression));
          expressionStatementLastToken = getLastToken sourceCode (node_range statement)
      in [fixer_replaceTextRange headRange
            (if isOptionalChaining then trimmedForOfLoopHeadText else headText)]
         @ removeCallbackParentheses m callback
         @ (if isCommaToken penultimateToken then [fixer_remove (tok_range penultimateToken)]
            else [])
         @ [fixer_remove (tok_range lastToken)]
         @ returnEdits
         @ (if shouldRemoveExpressionStatementLastToken callback isOptionalChaining
                 expressionStatementLastToken
            then [fixer_remove (tok_range expressionStatementLastToken)]
            else [])
         @ fixSpaceAroundKeyword m (call_parent callExpression)
         @ (if isOptionalChaining
            then wrapInIfStatement m ctx callExpression callback indentedString
            else [])
         @ extendFixRange (node_range (call_parent callExpression)))"

text \<open>
  \<^verbatim>\<open>getFixFunction\<close> with the generator it returns run to its end: the edits in the order
  they are yielded, or the exception that ends the run. The last token inspected is that
  of \<^verbatim>\<open>callExpression.parent.parent\<close> for a null-safe member access and of
  \<^verbatim>\<open>callExpression.parent\<close> otherwise.
\<close>

definition getFixFunction ::
  "modules \<Rightarrow> callExpression \<Rightarrow> (nat \<rightharpoonup> functionInfoEntry) \<Rightarrow> ruleContext \<Rightarrow>
   error + editOperation list" where
  "getFixFunction m callExpression functionInfo ctx =
     (case arguments callExpression of
        [] \<Rightarrow> Inl TypeError
      | callback # _ \<Rightarrow>
          (case functionInfo (arg_id callback) of
             None \<Rightarrow> Inl TypeError
           | Some info \<Rightarrow>
               (case getForOfLoopHeadText m ctx callExpression callback of
                  Inl e \<Rightarrow> Inl e
                | Inr headText \<Rightarrow>
                    (case getForOfLoopHeadRange ctx callExpression callback of
                       Inl e \<Rightarrow> Inl e
                     | Inr headRange \<Rightarrow>
                         (case replaceReturnStatements m ctx (returnStatements info) of
                            Inl e \<Rightarrow> Inl e
                          | Inr returnEdits \<Rightarrow>
                              (case (if member_optional (callee callExpression)
                                     then parent (call_parent callExpression)
                                     else Some (call_parent callExpression)) of
                                 None \<Rightarrow> Inl TypeError
                               | Some statement \<Rightarrow>
                                   Inr (fixEdits m ctx callExpression callback headText
                                          headRange returnEdits statement)))))))"

section \<open>The rule's listeners\<close>

definition MESSAGE_ID :: string where
  "MESSAGE_ID = ''no-array-for-each''"

definition ignoredObjects :: "string list" where
  "ignoredObjects = [''React.Children'', ''Children'', ''R'', ''pIteration'']"

text \<open>
  Modelled from the spec: \<^verbatim>\<open>isNodeMatches\<close> of \<^verbatim>\<open>./utils/is-node-matches.js\<close> is not
  part of the rule's file. A call is filtered out when its receiver's static name appears
  in the allowlist. The static name of an identifier is its name; of a member access
  that is neither computed nor null-safe, with an identifier as property, the static
  name of its object, a dot, and the property's name; no other expression has one.
\<close>

fun staticName :: "expression \<Rightarrow> string option" where
  "staticName (Identifier n) = Some n"
| "staticName ThisExpression = None"
| "staticName (MemberExpression obj prop computed opt) =
     (if computed \<or> opt then None
      else (case (staticName obj, prop) of
              (Some s, Identifier p) \<Rightarrow> Some (s @ ''.'' @ p)
            | _ \<Rightarrow> None))"
| "staticName (OtherExpression t) = None"

definition isNodeMatches :: "expression \<Rightarrow> string list \<Rightarrow> bool" where
  "isNodeMatches n nameOrPaths =
     (case staticName n of None \<Rightarrow> False | Some s \<Rightarrow> s \<in> set nameOrPaths)"

record problem =
  problem_node :: nodeRef
  messageId :: string
  problem_fix :: "(error + editOperation list) option"

text \<open>
  The state \<^verbatim>\<open>create\<close> closes over. The function stack and the keys of
  \<^verbatim>\<open>functionInfo\<close> are function nodes, kept by identity.
\<close>

record ruleState =
  functionStack :: "nat list"
  callExpressions :: "(callExpression \<times> scope) list"
  allIdentifiers :: "identifierNode list"
  functionInfo :: "nat \<rightharpoonup> functionInfoEntry"

definition initialState :: ruleState where
  "initialState =
     \<lparr>functionStack = [], callExpressions = [], allIdentifiers = [], functionInfo = Map.empty\<rparr>"

text \<open>\<^verbatim>\<open>':function'(node)\<close>\<close>

definition onFunction :: "ruleContext \<Rightarrow> nat \<Rightarrow> ruleState \<Rightarrow> ruleState" where
  "onFunction ctx n st =
     st\<lparr>functionStack := functionStack st @ [n],
        functionInfo := (functionInfo st)
          (n \<mapsto> \<lparr>returnStatements = [], info_scope = getScope ctx n\<rparr>)\<rparr>"

text \<open>\<^verbatim>\<open>':function:exit'()\<close>: \<^verbatim>\<open>pop\<close> leaves an empty array empty.\<close>

definition onFunctionExit :: "ruleState \<Rightarrow> ruleState" where
  "onFunctionExit st = st\<lparr>functionStack := butlast (functionStack st)\<rparr>"

definition onReferenceIdentifier :: "identifierNode \<Rightarrow> ruleState \<Rightarrow> ruleState" where
  "onReferenceIdentifier n st = st\<lparr>allIdentifiers := allIdentifiers st @ [n]\<rparr>"

text \<open>
  \<^verbatim>\<open>':function ReturnStatement'(node)\<close>: on an empty stack \<^verbatim>\<open>currentFunction\<close> is
  undefined, the map has no entry for it, and the destructuring is a \<^verbatim>\<open>TypeError\<close>.
\<close>

definition onReturnStatement :: "node \<Rightarrow> ruleState \<Rightarrow> error + ruleState" where
  "onReturnStatement n st =
     (if functionStack st = [] then Inl TypeError
      else (let currentFunction = last (functionStack st)
            in case functionInfo st currentFunction of
                 None \<Rightarrow> Inl TypeError
               | Some info \<Rightarrow>
                   Inr (st\<lparr>functionInfo := (functionInfo st)
                          (currentFunction \<mapsto>
                             info\<lparr>returnStatements := returnStatements info @ [n]\<rparr>)\<rparr>)))"

text \<open>The listener of the \<^verbatim>\<open>forEach\<close> call selector.\<close>

definition onArrayForEachCall :: "ruleContext \<Rightarrow> callExpression \<Rightarrow> ruleState \<Rightarrow> ruleState" where
  "onArrayForEachCall ctx n st =
     (if isNodeMatches (obj_expr (object (callee n))) ignoredObjects then st
      else st\<lparr>callExpressions := callExpressions st @ [(n, getScope ctx (call_id n))]\<rparr>)"

text \<open>
  \<^verbatim>\<open>'Program:exit'\<close>: one problem per recorded call, in order. The fix is the generator
  of \<^verbatim>\<open>getFixFunction\<close>, kept here with its outcome. An exception in \<^verbatim>\<open>isFixable\<close> ends
  the listener.
\<close>

definition reportProblem ::
  "modules \<Rightarrow> ruleContext \<Rightarrow> ruleState \<Rightarrow> callExpression \<times> scope \<Rightarrow> error + problem" where
  "reportProblem m ctx st call =
     (case call of (n, scope) \<Rightarrow>
        (case isFixable m n scope (functionInfo st) (allIdentifiers st) ctx of
           Inl e \<Rightarrow> Inl e
         | Inr fixable \<Rightarrow>
             Inr \<lparr>problem_node = property (callee n),
                  messageId = MESSAGE_ID,
                  problem_fix = (if fixable
                                 then Some (getFixFunction m n (functionInfo st) ctx)
                                 else None)\<rparr>))"

fun reportProblems ::
  "modules \<Rightarrow> ruleContext \<Rightarrow> ruleState \<Rightarrow> (callExpression \<times> scope) list \<Rightarrow>
   error + problem list" where
  "reportProblems m ctx st [] = Inr []"
| "reportProblems m ctx st (call # rest) =
     (case reportProblem m ctx st call of
        Inl e \<Rightarrow> Inl e
      | Inr p \<Rightarrow>
          (case reportProblems m ctx st rest of
             Inl e \<Rightarrow> Inl e
           | Inr ps \<Rightarrow> Inr (p # ps)))"

definition programExit :: "modules \<Rightarrow> ruleContext \<Rightarrow> ruleState \<Rightarrow> error + problem list" where
  "programExit m ctx st = reportProblems m ctx st (callExpressions st)"

section \<open>Traversal\<close>

text \<open>
  Modelled from the spec: the traversal engine of the host is not part of the rule's
  file. It visits the nodes of the tree in document order, each exactly once: a node's
  entry listeners run, then its children are visited from first to last, then its exit
  listeners run. A node is given here with the selector of the rule it matches:
  \<^verbatim>\<open>:function\<close>, \<^verbatim>\<open>ReturnStatement\<close>, the reference-identifier selector, the
  \<^verbatim>\<open>forEach\<close> call selector, or none. The selector \<^verbatim>\<open>:function ReturnStatement\<close>
  matches a return statement that has a function among its ancestors.
\<close>

datatype syntaxNode =
    FunctionNode nat
  | ReturnStatementNode node
  | ReferenceIdentifierNode identifierNode
  | ArrayForEachCallNode callExpression
  | OtherNode

datatype tree = Tree syntaxNode "tree list"

fun isFunctionNode :: "syntaxNode \<Rightarrow> bool" where
  "isFunctionNode (FunctionNode f) = True"
| "isFunctionNode (ReturnStatementNode r) = False"
| "isFunctionNode (ReferenceIdentifierNode i) = False"
| "isFunctionNode (ArrayForEachCallNode c) = False"
| "isFunctionNode OtherNode = False"

fun enterNode :: "ruleContext \<Rightarrow> bool \<Rightarrow> syntaxNode \<Rightarrow> ruleState \<Rightarrow> error + ruleState" where
  "enterNode ctx insideFunction (FunctionNode f) st = Inr (onFunction ctx f st)"
| "enterNode ctx insideFunction (ReturnStatementNode r) st =
     (if insideFunction then onReturnStatement r st else Inr st)"
| "enterNode ctx insideFunction (ReferenceIdentifierNode i) st = Inr (onReferenceIdentifier i st)"
| "enterNode ctx insideFunction (ArrayForEachCallNode c) st = Inr (onArrayForEachCall ctx c st)"
| "enterNode ctx insideFunction OtherNode st = Inr st"

fun leaveNode :: "syntaxNode \<Rightarrow> ruleState \<Rightarrow> ruleState" where
  "leaveNode (FunctionNode f) st = onFunctionExit st"
| "leaveNode (ReturnStatementNode r) st = st"
| "leaveNode (ReferenceIdentifierNode i) st = st"
| "leaveNode (ArrayForEachCallNode c) st = st"
| "leaveNode OtherNode st = st"

fun traverse :: "ruleContext \<Rightarrow> bool \<Rightarrow> tree \<Rightarrow> ruleState \<Rightarrow> error + ruleState"
  and traverseAll :: "ruleContext \<Rightarrow> bool \<Rightarrow> tree list \<Rightarrow> ruleState \<Rightarrow> error + ruleState"
  where
  "traverse ctx insideFunction (Tree n children) st =
     (case enterNode ctx insideFunction n st of
        Inl e \<Rightarrow> Inl e
      | Inr st1 \<Rightarrow>
          (case traverseAll ctx (insideFunction \<or> isFunctionNode n) children st1 of
             Inl e \<Rightarrow> Inl e
           | Inr st2 \<Rightarrow> Inr (leaveNode n st2)))"
| "traverseAll ctx insideFunction [] st = Inr st"
| "traverseAll ctx insideFunction (t # ts) st =
     (case traverse ctx insideFunction t st of
        Inl e \<Rightarrow> Inl e
      | Inr st1 \<Rightarrow> traverseAll ctx insideFunction ts st1)"

text \<open>One run of the rule on a file: the traversal from the empty state, then \<^verbatim>\<open>Program:exit\<close>.\<close>

definition runRule :: "modules \<Rightarrow> ruleContext \<Rightarrow> tree \<Rightarrow> error + problem list" where
  "runRule m ctx program =
     (case traverse ctx False program initialState of
        Inl e \<Rightarrow> Inl e
      | Inr st \<Rightarrow> programExit m ctx st)"

section \<open>Notions the properties are stated with\<close>

text \<open>
  The nodes from a return statement upwards, up to and without the callback; and those
  strictly between the return statement and the callback.
\<close>

fun nodesUpTo :: "node \<Rightarrow> nat \<Rightarrow> node list" where
  "nodesUpTo (Node i t r c a b l arg p) callbackFunction =
     (if i = callbackFunction then []
      else Node i t r c a b l arg p
           # (case p of None \<Rightarrow> [] | Some n \<Rightarrow> nodesUpTo n callbackFunction))"

definition ancestorsBetween :: "node \<Rightarrow> nat \<Rightarrow> node list" where
  "ancestorsBetween returnStatement callbackFunction =
     tl (nodesUpTo returnStatement callbackFunction)"

text \<open>
  What a tree holds, in document order: the return statements not inside a function
  nested in the tree; every function with the return statements it immediately encloses;
  the reference identifiers; the matched calls.
\<close>

fun directReturns :: "tree \<Rightarrow> node list"
  and directReturnsAll :: "tree list \<Rightarrow> node list" where
  "directReturns (Tree n children) =
     (case n of
        FunctionNode f \<Rightarrow> []
      | ReturnStatementNode r \<Rightarrow> r # directReturnsAll children
      | _ \<Rightarrow> directReturnsAll children)"
| "directReturnsAll [] = []"
| "directReturnsAll (t # ts) = directReturns t @ directReturnsAll ts"

fun functionsOf :: "tree \<Rightarrow> (nat \<times> node list) list"
  and functionsOfAll :: "tree list \<Rightarrow> (nat \<times> node list) list" where
  "functionsOf (Tree n children) =
     (case n of
        FunctionNode f \<Rightarrow> (f, directReturnsAll children) # functionsOfAll children
      | _ \<Rightarrow> functionsOfAll children)"
| "functionsOfAll [] = []"
| "functionsOfAll (t # ts) = functionsOf t @ functionsOfAll ts"

fun identifiersOf :: "tree \<Rightarrow> identifierNode list"
  and identifiersOfAll :: "tree list \<Rightarrow> identifierNode list" where
  "identifiersOf (Tree n children) =
     (case n of
        ReferenceIdentifierNode i \<Rightarrow> i # identifiersOfAll children
      | _ \<Rightarrow> identifiersOfAll children)"
| "identifiersOfAll [] = []"
| "identifiersOfAll (t # ts) = identifiersOf t @ identifiersOfAll ts"

fun callsOf :: "tree \<Rightarrow> callExpression list"
  and callsOfAll :: "tree list \<Rightarrow> callExpression list" where
  "callsOf (Tree n children) =
     (case n of
        ArrayForEachCallNode c \<Rightarrow> c # callsOfAll children
      | _ \<Rightarrow> callsOfAll children)"
| "callsOfAll [] = []"
| "callsOfAll (t # ts) = callsOf t @ callsOfAll ts"

text \<open>The calls the rule records: those whose receiver is not in the allowlist, with their scope.\<close>

definition recordedCalls :: "ruleContext \<Rightarrow> callExpression list \<Rightarrow> (callExpression \<times> scope) list"
  where
  "recordedCalls ctx calls =
     map (\<lambda>c. (c, getScope ctx (call_id c)))
       (filter (\<lambda>c. \<not> isNodeMatches (obj_expr (object (callee c))) ignoredObjects) calls)"

text \<open>
  The relation between the state before and after the visit of a subtree that holds the
  functions \<open>fns\<close>, the direct return statements \<open>drs\<close>, the identifiers \<open>ids\<close> and the
  calls \<open>calls\<close>.
\<close>

definition visited ::
  "ruleContext \<Rightarrow> (nat \<times> node list) list \<Rightarrow> node list \<Rightarrow> identifierNode list \<Rightarrow>
   callExpression list \<Rightarrow> ruleState \<Rightarrow> ruleState \<Rightarrow> bool" where
  "visited ctx fns drs ids calls st st' =
     (functionStack st' = functionStack st
      \<and> allIdentifiers st' = allIdentifiers st @ ids
      \<and> callExpressions st' = callExpressions st @ recordedCalls ctx calls
      \<and> (\<forall>k. functionInfo st' k =
             (if k \<in> fst ` set fns
              then Some \<lparr>returnStatements = the (map_of fns k), info_scope = getScope ctx k\<rparr>
              else if functionStack st \<noteq> [] \<and> k = last (functionStack st)
              then map_option (\<lambda>i. i\<lparr>returnStatements := returnStatements i @ drs\<rparr>)
                     (functionInfo st k)
              else functionInfo st k)))"

text \<open>A scope with all the scopes above it.\<close>

fun scopeChain :: "scope \<Rightarrow> scope list" where
  "scopeChain (Scope i u) =
     Scope i u # (case u of None \<Rightarrow> [] | Some s \<Rightarrow> scopeChain s)"

definition withinRange :: "range \<Rightarrow> range \<Rightarrow> bool" where
  "withinRange inner outer = (fst outer \<le> fst inner \<and> snd inner \<le> snd outer)"

text \<open>
  The rejection condition in the spec's words, to be compared with
  \<^verbatim>\<open>isFunctionParametersSafeToFix\<close>: some parameter name, referenced outside the callback
  but within the range of the iterated-source expression (the receiver), resolves to a
  binding in a scope other than the callback's own scope or one of its descendants.
\<close>

definition specParameterCaptured ::
  "modules \<Rightarrow> ruleContext \<Rightarrow> callExpression \<Rightarrow> argumentNode \<Rightarrow> scope \<Rightarrow> scope \<Rightarrow>
   identifierNode list \<Rightarrow> bool" where
  "specParameterCaptured m ctx callExpression callback scope callbackScope ids =
     list_ex
       (\<lambda>v. list_ex
              (\<lambda>d. def_type d = ''Parameter''
                   \<and> list_ex
                       (\<lambda>i. id_name i = def_name d
                            \<and> \<not> withinRange (id_range i) (arg_range callback)
                            \<and> withinRange (id_range i)
                                (obj_range (object (callee callExpression)))
                            \<and> (case findVariable m scope i of
                                  None \<Rightarrow> False
                                | Some w \<Rightarrow> \<not> isChildScope (var_scope w) callbackScope))
                       ids)
              (defs v))
       (getDeclaredVariables ctx (arg_id callback))"

text \<open>
  Two edits overlap when their ranges share a position or one is an insertion strictly
  inside the other: exactly when the host, having sorted the edits of a patch by range,
  finds one that starts before its predecessor ends.
\<close>

definition rangesOverlap :: "range \<Rightarrow> range \<Rightarrow> bool" where
  "rangesOverlap a b = (fst a < snd b \<and> fst b < snd a)"

fun noOverlap :: "editOperation list \<Rightarrow> bool" where
  "noOverlap [] = True"
| "noOverlap (e # es) =
     (list_all (\<lambda>f. \<not> rangesOverlap (edit_range e) (edit_range f)) es \<and> noOverlap es)"

text \<open>The edits of a return statement wrap its replacement in a block.\<close>

definition blockWrapped :: "node \<Rightarrow> editOperation list \<Rightarrow> bool" where
  "blockWrapped returnStatement edits =
     (list_ex (\<lambda>e. take 2 (edit_text e) = ''{ '') edits
      \<and> list_ex (\<lambda>e. e = fixer_insertTextAfter (node_range returnStatement) '' }'') edits)"

text \<open>The target of an assignment or the operand of an increment or decrement.\<close>

definition reassigns :: "reference \<Rightarrow> bool" where
  "reassigns r =
     (case parent (ref_identifier r) of
        None \<Rightarrow> False
      | Some p \<Rightarrow>
          node_type p = ''UpdateExpression''
          \<or> (node_type p = ''AssignmentExpression''
              \<and> left p = Some (node_id (ref_identifier r))))"

text \<open>
  The condition in the spec's words, to be compared with
  \<^verbatim>\<open>isFunctionParameterVariableReassigned\<close>: some reference to one of the callback's
  parameters inside the callback body is the target of an assignment or the operand of an
  increment or decrement.
\<close>

definition specReassignedInBody :: "ruleContext \<Rightarrow> argumentNode \<Rightarrow> bool" where
  "specReassignedInBody ctx callback =
     list_ex
       (\<lambda>v. list_ex (\<lambda>d. def_type d = ''Parameter'') (defs v)
            \<and> list_ex
                (\<lambda>r. withinRange (node_range (ref_identifier r)) (body_range (body callback))
                     \<and> reassigns r)
                (references v))
       (getDeclaredVariables ctx (arg_id callback))"

section \<open>A host for the examples\<close>

text \<open>
  The examples below are source texts with their tokens. This is the host they run on:
  text slicing by range and token navigation over the token list, module helpers that
  answer as they do on code without redundant parentheses, at column 0, where no
  semicolon or space has to be added, and \<^verbatim>\<open>indent-string\<close> with a tab.
\<close>

definition noToken :: token where
  "noToken = \<lparr>tok_type = [], tok_value = [], tok_range = (0, 0)\<rparr>"

definition tokensWithin :: "token list \<Rightarrow> range \<Rightarrow> token list" where
  "tokensWithin toks r =
     filter (\<lambda>t. fst r \<le> fst (tok_range t) \<and> snd (tok_range t) \<le> snd r) toks"

definition sourceCodeOf :: "string \<Rightarrow> token list \<Rightarrow> sourceCode" where
  "sourceCodeOf src toks =
     \<lparr>getText = (\<lambda>r. take (snd r - fst r) (drop (fst r) src)),
      getFirstToken = (\<lambda>r. case tokensWithin toks r of [] \<Rightarrow> noToken | t # _ \<Rightarrow> t),
      getLastToken = (\<lambda>r. case rev (tokensWithin toks r) of [] \<Rightarrow> noToken | t # _ \<Rightarrow> t),
      getLastTokens2 =
        (\<lambda>r. case rev (tokensWithin toks r) of
               [] \<Rightarrow> (noToken, noToken)
             | [t] \<Rightarrow> (noToken, t)
             | t2 # t1 # _ \<Rightarrow> (t1, t2)),
      getTokenBefore =
        (\<lambda>r f. case rev (filter (\<lambda>t. snd (tok_range t) \<le> fst r \<and> f t) toks) of
                 [] \<Rightarrow> None
               | t # _ \<Rightarrow> Some t),
      getTokenAfter =
        (\<lambda>r. case filter (\<lambda>t. snd r \<le> fst (tok_range t)) toks of
               [] \<Rightarrow> None
             | t # _ \<Rightarrow> Some t)\<rparr>"

text \<open>
  \<^verbatim>\<open>indent-string\<close> with a tab: \<^verbatim>\<open>string.replace(/^(?!\s*$)/gm, '\t')\<close>. A line starts
  at the start of the text and after every line terminator (of the 8-bit characters, the
  line feed and the carriage return); the tab is inserted there unless the text from there
  to the next line terminator, or to the end, is whitespace only.
\<close>

definition isLineTerminator :: "char \<Rightarrow> bool" where
  "isLineTerminator c = (c = CHR 0x0A \<or> c = CHR 0x0D)"

fun indentLines :: "bool \<Rightarrow> string \<Rightarrow> string" where
  "indentLines lineStart [] = []"
| "indentLines lineStart (c # cs) =
     (if lineStart
         \<and> \<not> list_all isWhitespace (takeWhile (\<lambda>d. \<not> isLineTerminator d) (c # cs))
      then CHR 0x09 # c # indentLines (isLineTerminator c) cs
      else c # indentLines (isLineTerminator c) cs)"

definition indentWithTab :: "string \<Rightarrow> string" where
  "indentWithTab s = indentLines True s"

definition exampleModules :: "(scope \<Rightarrow> identifierNode \<Rightarrow> variable option) \<Rightarrow> modules" where
  "exampleModules resolve =
     \<lparr>isParenthesized = (\<lambda>n. False),
      findVariable = resolve,
      needsSemicolon = (\<lambda>t c. False),
      shouldAddParenthesesToExpressionStatementExpression = (\<lambda>n. False),
      getParentheses = (\<lambda>n. []),
      isFunctionSelfUsedInside = (\<lambda>n s. False),
      fixSpaceAroundKeyword = (\<lambda>n. []),
      getIndentString = (\<lambda>n. []),
      indentString = indentWithTab\<rparr>"

text \<open>The helper modules for a file in which no identifier resolves to a variable.\<close>

definition plainModules :: modules where
  "plainModules = exampleModules (\<lambda>s i. None)"

definition punctuator :: "string \<Rightarrow> nat \<Rightarrow> nat \<Rightarrow> token" where
  "punctuator v a b = \<lparr>tok_type = ''Punctuator'', tok_value = v, tok_range = (a, b)\<rparr>"

definition identifierToken :: "string \<Rightarrow> nat \<Rightarrow> nat \<Rightarrow> token" where
  "identifierToken v a b = \<lparr>tok_type = ''Identifier'', tok_value = v, tok_range = (a, b)\<rparr>"

definition keywordToken :: "string \<Rightarrow> nat \<Rightarrow> nat \<Rightarrow> token" where
  "keywordToken v a b = \<lparr>tok_type = ''Keyword'', tok_value = v, tok_range = (a, b)\<rparr>"

text \<open>A node without the child attributes the rule compares with.\<close>

definition plainNode :: "nat \<Rightarrow> string \<Rightarrow> range \<Rightarrow> node option \<Rightarrow> node" where
  "plainNode i t r p = Node i t r None None None None None p"

definition leaf :: "syntaxNode \<Rightarrow> tree" where
  "leaf n = Tree n []"

definition globalScope :: scope where
  "globalScope = Scope 0 None"

definition identifierParameter :: "nat \<Rightarrow> nat \<Rightarrow> parameter" where
  "identifierParameter a b =
     \<lparr>param_type = ''Identifier'', typeAnnotation = False, param_range = (a, b)\<rparr>"

section \<open>Example: a null-safe call with a return in a block over several lines\<close>

text \<open>
  \<^verbatim>\<open>foo?.forEach(x => {\<close>, a line with a tab and \<^verbatim>\<open>return;\<close>, and \<^verbatim>\<open>});\<close> on the
  third line.
\<close>

definition guardedText :: string where
  "guardedText = ''foo?.forEach(x => {'' @ [CHR 0x0A, CHR 0x09] @ ''return;'' @ [CHR 0x0A] @ ''});''"

definition guardedTokens :: "token list" where
  "guardedTokens =
     [identifierToken ''foo'' 0 3, punctuator ''?.'' 3 5,
      identifierToken ''forEach'' 5 12, punctuator ''('' 12 13,
      identifierToken ''x'' 13 14, punctuator ''=>'' 15 17, punctuator ''{'' 18 19,
      keywordToken ''return'' 21 27, punctuator '';'' 27 28, punctuator ''}'' 29 30,
      punctuator '')'' 30 31, punctuator '';'' 31 32]"

definition guardedStatement :: node where
  "guardedStatement =
     plainNode 1 ''ExpressionStatement'' (0, 32) (Some (plainNode 0 ''Program'' (0, 32) None))"

definition guardedChain :: node where
  "guardedChain = plainNode 2 ''ChainExpression'' (0, 31) (Some guardedStatement)"

definition guardedReturn :: node where
  "guardedReturn =
     plainNode 12 ''ReturnStatement'' (21, 28)
       (Some (plainNode 11 ''BlockStatement'' (18, 30)
         (Some (plainNode 9 ''ArrowFunctionExpression'' (13, 30)
           (Some (plainNode 3 ''CallExpression'' (0, 31) (Some guardedChain)))))))"

definition guardedCallback :: argumentNode where
  "guardedCallback =
     \<lparr>arg_id = 9, arg_type = ''ArrowFunctionExpression'', arg_range = (13, 30),
      async = False, generator = False,
      params = [identifierParameter 13 14],
      body = \<lparr>body_id = 11, body_type = ''BlockStatement'', body_range = (18, 30),
               loc_start_line = 1, loc_end_line = 3, body_statements = [(21, 28)]\<rparr>\<rparr>"

definition guardedCall :: callExpression where
  "guardedCall =
     \<lparr>call_id = 3, call_range = (0, 31), call_optional = False,
      arguments = [guardedCallback],
      callee = \<lparr>object = \<lparr>obj_id = 5, obj_range = (0, 3),
                           obj_expr = Identifier ''foo''\<rparr>,
                 property = \<lparr>ref_id = 8, ref_range = (5, 12)\<rparr>,
                 member_optional = True\<rparr>,
      call_parent = guardedChain\<rparr>"

definition guardedScope :: scope where
  "guardedScope = Scope 1 (Some globalScope)"

definition guardedContext :: ruleContext where
  "guardedContext =
     \<lparr>getSourceCode = sourceCodeOf guardedText guardedTokens,
      getDeclaredVariables =
        (\<lambda>n. if n = 9
              then [\<lparr>defs = [\<lparr>def_type = ''Parameter'', def_name = ''x''\<rparr>],
                     references = [], var_scope = guardedScope\<rparr>]
              else []),
      getScope = (\<lambda>n. if n = 9 then guardedScope else globalScope)\<rparr>"

definition guardedProgram :: tree where
  "guardedProgram =
     Tree OtherNode
       [Tree OtherNode
         [Tree OtherNode
           [Tree (ArrayForEachCallNode guardedCall)
             [Tree OtherNode
               [leaf (ReferenceIdentifierNode
                        \<lparr>id_node = 5, id_name = ''foo'', id_range = (0, 3)\<rparr>),
                leaf OtherNode],
              Tree (FunctionNode 9)
                [leaf OtherNode,
                 Tree OtherNode [leaf (ReturnStatementNode guardedReturn)]]]]]]"

text \<open>The edits of its fix, in the order they are yielded.\<close>

definition guardedEdits :: "editOperation list" where
  "guardedEdits =
     [\<lparr>edit_range = (0, 18), edit_text = CHR 0x09 # ''for (const x of foo) ''\<rparr>,
      \<lparr>edit_range = (30, 31), edit_text = []\<rparr>,
      \<lparr>edit_range = (21, 27), edit_text = ''continue''\<rparr>,
      \<lparr>edit_range = (31, 32), edit_text = []\<rparr>,
      \<lparr>edit_range = (0, 0), edit_text = ''if (foo) {\<newline>''\<rparr>,
      \<lparr>edit_range = (31, 31), edit_text = ''\<newline>}''\<rparr>,
      \<lparr>edit_range = (29, 30), edit_text = CHR 0x09 # ''}''\<rparr>,
      \<lparr>edit_range = (21, 28), edit_text = CHR 0x09 # ''return;''\<rparr>,
      \<lparr>edit_range = (0, 0), edit_text = []\<rparr>,
      \<lparr>edit_range = (31, 31), edit_text = []\<rparr>]"

section \<open>Example: three calls in one file\<close>

text \<open>
  \<^verbatim>\<open>list.forEach(x => { for (;;) { return; } });\<close>\<^bigskip>
  \<^verbatim>\<open>Children.forEach(y => { f(function () { return y; }); return; });\<close>\<^bigskip>
  \<^verbatim>\<open>items.forEach(z => { g(z); });\<close>
\<close>

definition sampleText :: string where
  "sampleText =
     ''list.forEach(x => { for (;;) { return; } });\<newline>''
     @ ''Children.forEach(y => { f(function () { return y; }); return; });\<newline>''
     @ ''items.forEach(z => { g(z); });''"

definition sampleTokens :: "token list" where
  "sampleTokens =
     [identifierToken ''list'' 0 4, punctuator ''.'' 4 5, identifierToken ''forEach'' 5 12,
      punctuator ''('' 12 13, identifierToken ''x'' 13 14, punctuator ''=>'' 15 17,
      punctuator ''{'' 18 19, keywordToken ''for'' 20 23, punctuator ''('' 24 25,
      punctuator '';'' 25 26, punctuator '';'' 26 27, punctuator '')'' 27 28,
      punctuator ''{'' 29 30, keywordToken ''return'' 31 37, punctuator '';'' 37 38,
      punctuator ''}'' 39 40, punctuator ''}'' 41 42, punctuator '')'' 42 43,
      punctuator '';'' 43 44,
      identifierToken ''Children'' 45 53, punctuator ''.'' 53 54,
      identifierToken ''forEach'' 54 61, punctuator ''('' 61 62, identifierToken ''y'' 62 63,
      punctuator ''=>'' 64 66, punctuator ''{'' 67 68, identifierToken ''f'' 69 70,
      punctuator ''('' 70 71, keywordToken ''function'' 71 79, punctuator ''('' 80 81,
      punctuator '')'' 81 82, punctuator ''{'' 83 84, keywordToken ''return'' 85 91,
      identifierToken ''y'' 92 93, punctuator '';'' 93 94, punctuator ''}'' 95 96,
      punctuator '')'' 96 97, punctuator '';'' 97 98, keywordToken ''return'' 99 105,
      punctuator '';'' 105 106, punctuator ''}'' 107 108, punctuator '')'' 108 109,
      punctuator '';'' 109 110,
      identifierToken ''items'' 111 116, punctuator ''.'' 116 117,
      identifierToken ''forEach'' 117 124, punctuator ''('' 124 125,
      identifierToken ''z'' 125 126, punctuator ''=>'' 127 129, punctuator ''{'' 130 131,
      identifierToken ''g'' 132 133, punctuator ''('' 133 134, identifierToken ''z'' 134 135,
      punctuator '')'' 135 136, punctuator '';'' 136 137, punctuator ''}'' 138 139,
      punctuator '')'' 139 140, punctuator '';'' 140 141]"

definition sampleRoot :: node where
  "sampleRoot = plainNode 0 ''Program'' (0, 141) None"

definition sampleStatement1 :: node where
  "sampleStatement1 = plainNode 1 ''ExpressionStatement'' (0, 44) (Some sampleRoot)"

definition sampleStatement2 :: node where
  "sampleStatement2 = plainNode 12 ''ExpressionStatement'' (45, 110) (Some sampleRoot)"

definition sampleStatement3 :: node where
  "sampleStatement3 = plainNode 28 ''ExpressionStatement'' (111, 141) (Some sampleRoot)"

definition sampleFor :: node where
  "sampleFor =
     Node 9 ''ForStatement'' (20, 40) None None (Some 10) None None
       (Some (plainNode 8 ''BlockStatement'' (18, 42)
         (Some (plainNode 6 ''ArrowFunctionExpression'' (13, 42)
           (Some (plainNode 2 ''CallExpression'' (0, 43) (Some sampleStatement1)))))))"

definition sampleLoopReturn :: node where
  "sampleLoopReturn =
     plainNode 11 ''ReturnStatement'' (31, 38)
       (Some (plainNode 10 ''BlockStatement'' (29, 40) (Some sampleFor)))"

definition sampleOuterBlock :: node where
  "sampleOuterBlock =
     plainNode 19 ''BlockStatement'' (67, 108)
       (Some (plainNode 17 ''ArrowFunctionExpression'' (62, 108)
         (Some (plainNode 13 ''CallExpression'' (45, 109) (Some sampleStatement2)))))"

definition sampleInnerReturn :: node where
  "sampleInnerReturn =
     Node 25 ''ReturnStatement'' (85, 94) None None None None
       (Some \<lparr>ref_id = 26, ref_range = (92, 93)\<rparr>)
       (Some (plainNode 24 ''BlockStatement'' (83, 96)
         (Some (plainNode 23 ''FunctionExpression'' (71, 96)
           (Some (plainNode 21 ''CallExpression'' (69, 97)
             (Some (plainNode 20 ''ExpressionStatement'' (69, 98)
               (Some sampleOuterBlock)))))))))"

definition sampleOuterReturn :: node where
  "sampleOuterReturn = plainNode 27 ''ReturnStatement'' (99, 106) (Some sampleOuterBlock)"

definition sampleScopeX :: scope where
  "sampleScopeX = Scope 1 (Some globalScope)"

definition sampleScopeY :: scope where
  "sampleScopeY = Scope 2 (Some globalScope)"

definition sampleScopeInner :: scope where
  "sampleScopeInner = Scope 3 (Some sampleScopeY)"

definition sampleScopeZ :: scope where
  "sampleScopeZ = Scope 4 (Some globalScope)"

definition sampleVariableX :: variable where
  "sampleVariableX =
     \<lparr>defs = [\<lparr>def_type = ''Parameter'', def_name = ''x''\<rparr>], references = [],
      var_scope = sampleScopeX\<rparr>"

definition sampleVariableY :: variable where
  "sampleVariableY =
     \<lparr>defs = [\<lparr>def_type = ''Parameter'', def_name = ''y''\<rparr>],
      references =
        [\<lparr>ref_identifier = plainNode 26 ''Identifier'' (92, 93) (Some sampleInnerReturn)\<rparr>],
      var_scope = sampleScopeY\<rparr>"

definition sampleVariableZ :: variable where
  "sampleVariableZ =
     \<lparr>defs = [\<lparr>def_type = ''Parameter'', def_name = ''z''\<rparr>],
      references =
        [\<lparr>ref_identifier =
            plainNode 39 ''Identifier'' (134, 135)
              (Some (plainNode 37 ''CallExpression'' (132, 136)
                (Some (plainNode 36 ''ExpressionStatement'' (132, 137)
                  (Some (plainNode 35 ''BlockStatement'' (130, 139)
                    (Some (plainNode 33 ''ArrowFunctionExpression'' (125, 139)
                      (Some (plainNode 29 ''CallExpression'' (111, 140)
                        (Some sampleStatement3)))))))))))\<rparr>],
      var_scope = sampleScopeZ\<rparr>"

definition sampleModules :: modules where
  "sampleModules =
     exampleModules
       (\<lambda>s i. if id_name i = ''y'' then Some sampleVariableY
              else if id_name i = ''z'' then Some sampleVariableZ
              else None)"

definition sampleContext :: ruleContext where
  "sampleContext =
     \<lparr>getSourceCode = sourceCodeOf sampleText sampleTokens,
      getDeclaredVariables =
        (\<lambda>n. if n = 6 then [sampleVariableX]
              else if n = 17 then [sampleVariableY]
              else if n = 33 then [sampleVariableZ]
              else []),
      getScope =
        (\<lambda>n. if n = 6 then sampleScopeX
              else if n = 17 then sampleScopeY
              else if n = 23 then sampleScopeInner
              else if n = 33 then sampleScopeZ
              else globalScope)\<rparr>"

definition sampleCallback1 :: argumentNode where
  "sampleCallback1 =
     \<lparr>arg_id = 6, arg_type = ''ArrowFunctionExpression'', arg_range = (13, 42),
      async = False, generator = False,
      params = [identifierParameter 13 14],
      body = \<lparr>body_id = 8, body_type = ''BlockStatement'', body_range = (18, 42),
               loc_start_line = 1, loc_end_line = 1, body_statements = [(20, 40)]\<rparr>\<rparr>"

definition sampleCallback2 :: argumentNode where
  "sampleCallback2 =
     \<lparr>arg_id = 17, arg_type = ''ArrowFunctionExpression'', arg_range = (62, 108),
      async = False, generator = False,
      params = [identifierParameter 62 63],
      body = \<lparr>body_id = 19, body_type = ''BlockStatement'', body_range = (67, 108),
               loc_start_line = 2, loc_end_line = 2,
               body_statements = [(69, 98), (99, 106)]\<rparr>\<rparr>"

definition sampleCallback3 :: argumentNode where
  "sampleCallback3 =
     \<lparr>arg_id = 33, arg_type = ''ArrowFunctionExpression'', arg_range = (125, 139),
      async = False, generator = False,
      params = [identifierParameter 125 126],
      body = \<lparr>body_id = 35, body_type = ''BlockStatement'', body_range = (130, 139),
               loc_start_line = 3, loc_end_line = 3, body_statements = [(132, 137)]\<rparr>\<rparr>"

definition sampleCall1 :: callExpression where
  "sampleCall1 =
     \<lparr>call_id = 2, call_range = (0, 43), call_optional = False,
      arguments = [sampleCallback1],
      callee = \<lparr>object = \<lparr>obj_id = 4, obj_range = (0, 4), obj_expr = Identifier ''list''\<rparr>,
                 property = \<lparr>ref_id = 5, ref_range = (5, 12)\<rparr>,
                 member_optional = False\<rparr>,
      call_parent = sampleStatement1\<rparr>"

definition sampleCall2 :: callExpression where
  "sampleCall2 =
     \<lparr>call_id = 13, call_range = (45, 109), call_optional = False,
      arguments = [sampleCallback2],
      callee = \<lparr>object = \<lparr>obj_id = 15, obj_range = (45, 53),
                           obj_expr = Identifier ''Children''\<rparr>,
                 property = \<lparr>ref_id = 16, ref_range = (54, 61)\<rparr>,
                 member_optional = False\<rparr>,
      call_parent = sampleStatement2\<rparr>"

definition sampleCall3 :: callExpression where
  "sampleCall3 =
     \<lparr>call_id = 29, call_range = (111, 140), call_optional = False,
      arguments = [sampleCallback3],
      callee = \<lparr>object = \<lparr>obj_id = 31, obj_range = (111, 116),
                           obj_expr = Identifier ''items''\<rparr>,
                 property = \<lparr>ref_id = 32, ref_range = (117, 124)\<rparr>,
                 member_optional = False\<rparr>,
      call_parent = sampleStatement3\<rparr>"

definition referenceTo :: "nat \<Rightarrow> string \<Rightarrow> nat \<Rightarrow> nat \<Rightarrow> tree" where
  "referenceTo i n a b =
     leaf (ReferenceIdentifierNode \<lparr>id_node = i, id_name = n, id_range = (a, b)\<rparr>)"

definition sampleProgram :: tree where
  "sampleProgram =
     Tree OtherNode
       [Tree OtherNode
         [Tree (ArrayForEachCallNode sampleCall1)
           [Tree OtherNode [referenceTo 4 ''list'' 0 4, leaf OtherNode],
            Tree (FunctionNode 6)
              [leaf OtherNode,
               Tree OtherNode
                 [Tree OtherNode
                   [Tree OtherNode [leaf (ReturnStatementNode sampleLoopReturn)]]]]]],
        Tree OtherNode
         [Tree (ArrayForEachCallNode sampleCall2)
           [Tree OtherNode [referenceTo 15 ''Children'' 45 53, leaf OtherNode],
            Tree (FunctionNode 17)
              [leaf OtherNode,
               Tree OtherNode
                 [Tree OtherNode
                   [Tree OtherNode
                     [referenceTo 22 ''f'' 69 70,
                      Tree (FunctionNode 23)
                        [Tree OtherNode
                          [Tree (ReturnStatementNode sampleInnerReturn)
                            [referenceTo 26 ''y'' 92 93]]]]],
                  leaf (ReturnStatementNode sampleOuterReturn)]]]],
        Tree OtherNode
         [Tree (ArrayForEachCallNode sampleCall3)
           [Tree OtherNode [referenceTo 31 ''items'' 111 116, leaf OtherNode],
            Tree (FunctionNode 33)
              [leaf OtherNode,
               Tree OtherNode
                 [Tree OtherNode
                   [Tree OtherNode
                     [referenceTo 38 ''g'' 132 133, referenceTo 39 ''z'' 134 135]]]]]]]"

text \<open>The problems the rule reports on it.\<close>

definition sampleProblems :: "problem list" where
  "sampleProblems =
     [\<lparr>problem_node = \<lparr>ref_id = 5, ref_range = (5, 12)\<rparr>,
       messageId = ''no-array-for-each'',
       problem_fix = None\<rparr>,
      \<lparr>problem_node = \<lparr>ref_id = 32, ref_range = (117, 124)\<rparr>,
       messageId = ''no-array-for-each'',
       problem_fix =
         Some (Inr [\<lparr>edit_range = (111, 130), edit_text = ''for (const z of items) ''\<rparr>,
                    \<lparr>edit_range = (139, 140), edit_text = []\<rparr>,
                    \<lparr>edit_range = (140, 141), edit_text = []\<rparr>,
                    \<lparr>edit_range = (111, 111), edit_text = []\<rparr>,
                    \<lparr>edit_range = (141, 141), edit_text = []\<rparr>])\<rparr>]"

section \<open>Example: the same parameter name in the receiver\<close>

text \<open>\<^verbatim>\<open>foo.map(x => x).forEach(x => {});\<close>\<close>

definition chainedScope1 :: scope where
  "chainedScope1 = Scope 1 (Some globalScope)"

definition chainedScope2 :: scope where
  "chainedScope2 = Scope 2 (Some globalScope)"

definition chainedStatement :: node where
  "chainedStatement =
     plainNode 1 ''ExpressionStatement'' (0, 33) (Some (plainNode 0 ''Program'' (0, 33) None))"

definition chainedVariable1 :: variable where
  "chainedVariable1 =
     \<lparr>defs = [\<lparr>def_type = ''Parameter'', def_name = ''x''\<rparr>],
      references =
        [\<lparr>ref_identifier =
            plainNode 10 ''Identifier'' (13, 14)
              (Some (plainNode 8 ''ArrowFunctionExpression'' (8, 14)
                (Some (plainNode 4 ''CallExpression'' (0, 15)
                  (Some (plainNode 3 ''MemberExpression'' (0, 23)
                    (Some (plainNode 2 ''CallExpression'' (0, 32)
                      (Some chainedStatement)))))))))\<rparr>],
      var_scope = chainedScope1\<rparr>"

definition chainedVariable2 :: variable where
  "chainedVariable2 =
     \<lparr>defs = [\<lparr>def_type = ''Parameter'', def_name = ''x''\<rparr>], references = [],
      var_scope = chainedScope2\<rparr>"

text \<open>An identifier resolves from the innermost scope that holds it.\<close>

definition chainedModules :: modules where
  "chainedModules =
     exampleModules
       (\<lambda>s i. if id_name i = ''x'' \<and> withinRange (id_range i) (8, 14)
              then Some chainedVariable1
              else if id_name i = ''x'' \<and> withinRange (id_range i) (24, 31)
              then Some chainedVariable2
              else None)"

definition chainedTokens :: "token list" where
  "chainedTokens =
     [identifierToken ''foo'' 0 3, punctuator ''.'' 3 4, identifierToken ''map'' 4 7,
      punctuator ''('' 7 8, identifierToken ''x'' 8 9, punctuator ''=>'' 10 12,
      identifierToken ''x'' 13 14, punctuator '')'' 14 15, punctuator ''.'' 15 16,
      identifierToken ''forEach'' 16 23, punctuator ''('' 23 24, identifierToken ''x'' 24 25,
      punctuator ''=>'' 26 28, punctuator ''{'' 29 30, punctuator ''}'' 30 31,
      punctuator '')'' 31 32, punctuator '';'' 32 33]"

definition chainedContext :: ruleContext where
  "chainedContext =
     \<lparr>getSourceCode = sourceCodeOf ''foo.map(x => x).forEach(x => {});'' chainedTokens,
      getDeclaredVariables =
        (\<lambda>n. if n = 8 then [chainedVariable1]
              else if n = 12 then [chainedVariable2]
              else []),
      getScope =
        (\<lambda>n. if n = 8 then chainedScope1 else if n = 12 then chainedScope2 else globalScope)\<rparr>"

definition chainedCallback :: argumentNode where
  "chainedCallback =
     \<lparr>arg_id = 12, arg_type = ''ArrowFunctionExpression'', arg_range = (24, 31),
      async = False, generator = False,
      params = [identifierParameter 24 25],
      body = \<lparr>body_id = 14, body_type = ''BlockStatement'', body_range = (29, 31),
               loc_start_line = 1, loc_end_line = 1, body_statements = []\<rparr>\<rparr>"

definition chainedCall :: callExpression where
  "chainedCall =
     \<lparr>call_id = 2, call_range = (0, 32), call_optional = False,
      arguments = [chainedCallback],
      callee = \<lparr>object = \<lparr>obj_id = 4, obj_range = (0, 15),
                           obj_expr = OtherExpression ''CallExpression''\<rparr>,
                 property = \<lparr>ref_id = 11, ref_range = (16, 23)\<rparr>,
                 member_optional = False\<rparr>,
      call_parent = chainedStatement\<rparr>"

definition chainedIdentifiers :: "identifierNode list" where
  "chainedIdentifiers =
     [\<lparr>id_node = 6, id_name = ''foo'', id_range = (0, 3)\<rparr>,
      \<lparr>id_node = 10, id_name = ''x'', id_range = (13, 14)\<rparr>]"

definition chainedInfo :: "nat \<rightharpoonup> functionInfoEntry" where
  "chainedInfo =
     [8 \<mapsto> \<lparr>returnStatements = [], info_scope = chainedScope1\<rparr>,
      12 \<mapsto> \<lparr>returnStatements = [], info_scope = chainedScope2\<rparr>]"

section \<open>Example: returns under a conditional\<close>

text \<open>
  \<^verbatim>\<open>list.forEach(x => { if (x) return; console.log(x); });\<close> and
  \<^verbatim>\<open>list.forEach(x => { if (x) return f(x); });\<close>
\<close>

definition conditionalContext :: ruleContext where
  "conditionalContext =
     \<lparr>getSourceCode =
        sourceCodeOf ''list.forEach(x => { if (x) return; console.log(x); });''
          [identifierToken ''list'' 0 4, punctuator ''.'' 4 5, identifierToken ''forEach'' 5 12,
           punctuator ''('' 12 13, identifierToken ''x'' 13 14, punctuator ''=>'' 15 17,
           punctuator ''{'' 18 19, keywordToken ''if'' 20 22, punctuator ''('' 23 24,
           identifierToken ''x'' 24 25, punctuator '')'' 25 26, keywordToken ''return'' 27 33,
           punctuator '';'' 33 34, identifierToken ''console'' 35 42, punctuator ''.'' 42 43,
           identifierToken ''log'' 43 46, punctuator ''('' 46 47, identifierToken ''x'' 47 48,
           punctuator '')'' 48 49, punctuator '';'' 49 50, punctuator ''}'' 51 52,
           punctuator '')'' 52 53, punctuator '';'' 53 54],
      getDeclaredVariables = (\<lambda>n. []),
      getScope = (\<lambda>n. globalScope)\<rparr>"

definition conditionalReturn :: node where
  "conditionalReturn =
     plainNode 11 ''ReturnStatement'' (27, 34)
       (Some (Node 9 ''IfStatement'' (20, 34) (Some 11) None None None None
         (Some (plainNode 8 ''BlockStatement'' (18, 52)
           (Some (plainNode 6 ''ArrowFunctionExpression'' (13, 52)
             (Some (plainNode 2 ''CallExpression'' (0, 53)
               (Some (plainNode 1 ''ExpressionStatement'' (0, 54)
                 (Some (plainNode 0 ''Program'' (0, 54) None))))))))))))"

definition valuedContext :: ruleContext where
  "valuedContext =
     \<lparr>getSourceCode =
        sourceCodeOf ''list.forEach(x => { if (x) return f(x); });''
          [identifierToken ''list'' 0 4, punctuator ''.'' 4 5, identifierToken ''forEach'' 5 12,
           punctuator ''('' 12 13, identifierToken ''x'' 13 14, punctuator ''=>'' 15 17,
           punctuator ''{'' 18 19, keywordToken ''if'' 20 22, punctuator ''('' 23 24,
           identifierToken ''x'' 24 25, punctuator '')'' 25 26, keywordToken ''return'' 27 33,
           identifierToken ''f'' 34 35, punctuator ''('' 35 36, identifierToken ''x'' 36 37,
           punctuator '')'' 37 38, punctuator '';'' 38 39, punctuator ''}'' 40 41,
           punctuator '')'' 41 42, punctuator '';'' 42 43],
      getDeclaredVariables = (\<lambda>n. []),
      getScope = (\<lambda>n. globalScope)\<rparr>"

definition valuedReturn :: node where
  "valuedReturn =
     Node 11 ''ReturnStatement'' (27, 39) None None None None
       (Some \<lparr>ref_id = 12, ref_range = (34, 38)\<rparr>)
       (Some (Node 9 ''IfStatement'' (20, 39) (Some 11) None None None None
         (Some (plainNode 8 ''BlockStatement'' (18, 41)
           (Some (plainNode 6 ''ArrowFunctionExpression'' (13, 41)
             (Some (plainNode 2 ''CallExpression'' (0, 42)
               (Some (plainNode 1 ''ExpressionStatement'' (0, 43)
                 (Some (plainNode 0 ''Program'' (0, 43) None))))))))))))"

section \<open>Example: two parameters, one reassigned\<close>

text \<open>\<^verbatim>\<open>list.forEach((x, i) => { x = i; });\<close>\<close>

definition indexedScope :: scope where
  "indexedScope = Scope 1 (Some globalScope)"

definition indexedStatement :: node where
  "indexedStatement =
     plainNode 1 ''ExpressionStatement'' (0, 35) (Some (plainNode 0 ''Program'' (0, 35) None))"

definition indexedAssignment :: node where
  "indexedAssignment =
     Node 11 ''AssignmentExpression'' (25, 30) None None None (Some 12) None
       (Some (plainNode 10 ''ExpressionStatement'' (25, 31)
         (Some (plainNode 9 ''BlockStatement'' (23, 33)
           (Some (plainNode 6 ''ArrowFunctionExpression'' (13, 33)
             (Some (plainNode 2 ''CallExpression'' (0, 34) (Some indexedStatement)))))))))"

definition indexedVariableX :: variable where
  "indexedVariableX =
     \<lparr>defs = [\<lparr>def_type = ''Parameter'', def_name = ''x''\<rparr>],
      references =
        [\<lparr>ref_identifier = plainNode 12 ''Identifier'' (25, 26) (Some indexedAssignment)\<rparr>],
      var_scope = indexedScope\<rparr>"

definition indexedVariableI :: variable where
  "indexedVariableI =
     \<lparr>defs = [\<lparr>def_type = ''Parameter'', def_name = ''i''\<rparr>],
      references =
        [\<lparr>ref_identifier = plainNode 13 ''Identifier'' (29, 30) (Some indexedAssignment)\<rparr>],
      var_scope = indexedScope\<rparr>"

definition indexedModules :: modules where
  "indexedModules =
     exampleModules
       (\<lambda>s i. if id_name i = ''x'' then Some indexedVariableX
              else if id_name i = ''i'' then Some indexedVariableI
              else None)"

definition indexedContext :: ruleContext where
  "indexedContext =
     \<lparr>getSourceCode =
        sourceCodeOf ''list.forEach((x, i) => { x = i; });''
          [identifierToken ''list'' 0 4, punctuator ''.'' 4 5, identifierToken ''forEach'' 5 12,
           punctuator ''('' 12 13, punctuator ''('' 13 14, identifierToken ''x'' 14 15,
           punctuator '','' 15 16, identifierToken ''i'' 17 18, punctuator '')'' 18 19,
           punctuator ''=>'' 20 22, punctuator ''{'' 23 24, identifierToken ''x'' 25 26,
           punctuator ''='' 27 28, identifierToken ''i'' 29 30, punctuator '';'' 30 31,
           punctuator ''}'' 32 33, punctuator '')'' 33 34, punctuator '';'' 34 35],
      getDeclaredVariables = (\<lambda>n. if n = 6 then [indexedVariableX, indexedVariableI] else []),
      getScope = (\<lambda>n. if n = 6 then indexedScope else globalScope)\<rparr>"

definition indexedCallback :: argumentNode where
  "indexedCallback =
     \<lparr>arg_id = 6, arg_type = ''ArrowFunctionExpression'', arg_range = (13, 33),
      async = False, generator = False,
      params = [identifierParameter 14 15, identifierParameter 17 18],
      body = \<lparr>body_id = 9, body_type = ''BlockStatement'', body_range = (23, 33),
               loc_start_line = 1, loc_end_line = 1, body_statements = [(25, 31)]\<rparr>\<rparr>"

definition indexedCall :: callExpression where
  "indexedCall =
     \<lparr>call_id = 2, call_range = (0, 34), call_optional = False,
      arguments = [indexedCallback],
      callee = \<lparr>object = \<lparr>obj_id = 4, obj_range = (0, 4), obj_expr = Identifier ''list''\<rparr>,
                 property = \<lparr>ref_id = 5, ref_range = (5, 12)\<rparr>,
                 member_optional = False\<rparr>,
      call_parent = indexedStatement\<rparr>"

definition indexedState :: ruleState where
  "indexedState =
     \<lparr>functionStack = [],
      callExpressions = [(indexedCall, globalScope)],
      allIdentifiers =
        [\<lparr>id_node = 4, id_name = ''list'', id_range = (0, 4)\<rparr>,
         \<lparr>id_node = 12, id_name = ''x'', id_range = (25, 26)\<rparr>,
         \<lparr>id_node = 13, id_name = ''i'', id_range = (29, 30)\<rparr>],
      functionInfo = [6 \<mapsto> \<lparr>returnStatements = [], info_scope = indexedScope\<rparr>]\<rparr>"

section \<open>Example: the receiver has the parameter's name\<close>

text \<open>\<^verbatim>\<open>x.forEach(x => {});\<close>, where the receiver \<^verbatim>\<open>x\<close> is not declared in the file.\<close>

definition shadowingScope :: scope where
  "shadowingScope = Scope 1 (Some globalScope)"

definition shadowingContext :: ruleContext where
  "shadowingContext =
     \<lparr>getSourceCode =
        sourceCodeOf ''x.forEach(x => {});''
          [identifierToken ''x'' 0 1, punctuator ''.'' 1 2, identifierToken ''forEach'' 2 9,
           punctuator ''('' 9 10, identifierToken ''x'' 10 11, punctuator ''=>'' 12 14,
           punctuator ''{'' 15 16, punctuator ''}'' 16 17, punctuator '')'' 17 18,
           punctuator '';'' 18 19],
      getDeclaredVariables =
        (\<lambda>n. if n = 6
              then [\<lparr>defs = [\<lparr>def_type = ''Parameter'', def_name = ''x''\<rparr>],
                     references = [], var_scope = shadowingScope\<rparr>]
              else []),
      getScope = (\<lambda>n. if n = 6 then shadowingScope else globalScope)\<rparr>"

definition shadowingCallback :: argumentNode where
  "shadowingCallback =
     \<lparr>arg_id = 6, arg_type = ''ArrowFunctionExpression'', arg_range = (10, 17),
      async = False, generator = False,
      params = [identifierParameter 10 11],
      body = \<lparr>body_id = 8, body_type = ''BlockStatement'', body_range = (15, 17),
               loc_start_line = 1, loc_end_line = 1, body_statements = []\<rparr>\<rparr>"

definition shadowingCall :: callExpression where
  "shadowingCall =
     \<lparr>call_id = 2, call_range = (0, 18), call_optional = False,
      arguments = [shadowingCallback],
      callee = \<lparr>object = \<lparr>obj_id = 4, obj_range = (0, 1), obj_expr = Identifier ''x''\<rparr>,
                 property = \<lparr>ref_id = 5, ref_range = (2, 9)\<rparr>,
                 member_optional = False\<rparr>,
      call_parent =
        plainNode 1 ''ExpressionStatement'' (0, 19)
          (Some (plainNode 0 ''Program'' (0, 19) None))\<rparr>"

definition shadowingIdentifiers :: "identifierNode list" where
  "shadowingIdentifiers = [\<lparr>id_node = 4, id_name = ''x'', id_range = (0, 1)\<rparr>]"

definition shadowingInfo :: "nat \<rightharpoonup> functionInfoEntry" where
  "shadowingInfo = [6 \<mapsto> \<lparr>returnStatements = [], info_scope = shadowingScope\<rparr>]"

section \<open>Example: a null-safe call on a member access, on one line\<close>

text \<open>\<^verbatim>\<open>a.b?.forEach(x => { f(x); });\<close>\<close>

definition memberScope :: scope where
  "memberScope = Scope 1 (Some globalScope)"

definition memberStatement :: node where
  "memberStatement =
     plainNode 1 ''ExpressionStatement'' (0, 29) (Some (plainNode 0 ''Program'' (0, 29) None))"

definition memberChain :: node where
  "memberChain = plainNode 2 ''ChainExpression'' (0, 28) (Some memberStatement)"

definition memberVariable :: variable where
  "memberVariable =
     \<lparr>defs = [\<lparr>def_type = ''Parameter'', def_name = ''x''\<rparr>],
      references =
        [\<lparr>ref_identifier =
            plainNode 15 ''Identifier'' (22, 23)
              (Some (plainNode 13 ''CallExpression'' (20, 24)
                (Some (plainNode 12 ''ExpressionStatement'' (20, 25)
                  (Some (plainNode 11 ''BlockStatement'' (18, 27)
                    (Some (plainNode 9 ''ArrowFunctionExpression'' (13, 27)
                      (Some (plainNode 3 ''CallExpression'' (0, 28)
                        (Some memberChain)))))))))))\<rparr>],
      var_scope = memberScope\<rparr>"

definition memberModules :: modules where
  "memberModules =
     exampleModules (\<lambda>s i. if id_name i = ''x'' then Some memberVariable else None)"

definition memberContext :: ruleContext where
  "memberContext =
     \<lparr>getSourceCode =
        sourceCodeOf ''a.b?.forEach(x => { f(x); });''
          [identifierToken ''a'' 0 1, punctuator ''.'' 1 2, identifierToken ''b'' 2 3,
           punctuator ''?.'' 3 5, identifierToken ''forEach'' 5 12, punctuator ''('' 12 13,
           identifierToken ''x'' 13 14, punctuator ''=>'' 15 17, punctuator ''{'' 18 19,
           identifierToken ''f'' 20 21, punctuator ''('' 21 22, identifierToken ''x'' 22 23,
           punctuator '')'' 23 24, punctuator '';'' 24 25, punctuator ''}'' 26 27,
           punctuator '')'' 27 28, punctuator '';'' 28 29],
      getDeclaredVariables = (\<lambda>n. if n = 9 then [memberVariable] else []),
      getScope = (\<lambda>n. if n = 9 then memberScope else globalScope)\<rparr>"

definition memberCallback :: argumentNode where
  "memberCallback =
     \<lparr>arg_id = 9, arg_type = ''ArrowFunctionExpression'', arg_range = (13, 27),
      async = False, generator = False,
      params = [identifierParameter 13 14],
      body = \<lparr>body_id = 11, body_type = ''BlockStatement'', body_range = (18, 27),
               loc_start_line = 1, loc_end_line = 1, body_statements = [(20, 25)]\<rparr>\<rparr>"

definition memberCall :: callExpression where
  "memberCall =
     \<lparr>call_id = 3, call_range = (0, 28), call_optional = False,
      arguments = [memberCallback],
      callee = \<lparr>object = \<lparr>obj_id = 5, obj_range = (0, 3),
                           obj_expr = MemberExpression (Identifier ''a'') (Identifier ''b'')
                                        False False\<rparr>,
                 property = \<lparr>ref_id = 8, ref_range = (5, 12)\<rparr>,
                 member_optional = True\<rparr>,
      call_parent = memberChain\<rparr>"

definition memberInfo :: "nat \<rightharpoonup> functionInfoEntry" where
  "memberInfo = [9 \<mapsto> \<lparr>returnStatements = [], info_scope = memberScope\<rparr>]"

definition memberProgram :: tree where
  "memberProgram =
     Tree OtherNode
       [Tree OtherNode
         [Tree OtherNode
           [Tree (ArrayForEachCallNode memberCall)
             [Tree OtherNode
               [Tree OtherNode [referenceTo 6 ''a'' 0 1, leaf OtherNode],
                leaf OtherNode],
              Tree (FunctionNode 9)
                [leaf OtherNode,
                 Tree OtherNode
                   [Tree OtherNode
                     [Tree OtherNode
                       [referenceTo 14 ''f'' 20 21, referenceTo 15 ''x'' 22 23]]]]]]]]"

text \<open>The edits of its fix, in the order they are yielded.\<close>

definition memberEdits :: "editOperation list" where
  "memberEdits =
     [\<lparr>edit_range = (0, 18), edit_text = CHR 0x09 # ''for (const x of a.b) ''\<rparr>,
      \<lparr>edit_range = (27, 28), edit_text = []\<rparr>,
      \<lparr>edit_range = (28, 29), edit_text = []\<rparr>,
      \<lparr>edit_range = (0, 0), edit_text = ''if (undefined) {\<newline>''\<rparr>,
      \<lparr>edit_range = (28, 28), edit_text = ''\<newline>}''\<rparr>,
      \<lparr>edit_range = (0, 0), edit_text = []\<rparr>,
      \<lparr>edit_range = (28, 28), edit_text = []\<rparr>]"

section \<open>Example: a return of a nested function, inside a loop of the callback\<close>

text \<open>\<^verbatim>\<open>list.forEach(x => { for (;;) { g(function () { return; }); } });\<close>\<close>

definition nestedStatement :: node where
  "nestedStatement =
     plainNode 1 ''ExpressionStatement'' (0, 64) (Some (plainNode 0 ''Program'' (0, 64) None))"

definition nestedFor :: node where
  "nestedFor =
     Node 9 ''ForStatement'' (20, 60) None None (Some 10) None None
       (Some (plainNode 8 ''BlockStatement'' (18, 62)
         (Some (plainNode 6 ''ArrowFunctionExpression'' (13, 62)
           (Some (plainNode 2 ''CallExpression'' (0, 63) (Some nestedStatement)))))))"

definition nestedReturn :: node where
  "nestedReturn =
     plainNode 16 ''ReturnStatement'' (47, 54)
       (Some (plainNode 15 ''BlockStatement'' (45, 56)
         (Some (Node 14 ''FunctionExpression'' (33, 56) None None (Some 15) None None
           (Some (plainNode 12 ''CallExpression'' (31, 57)
             (Some (plainNode 11 ''ExpressionStatement'' (31, 58)
               (Some (plainNode 10 ''BlockStatement'' (29, 60) (Some nestedFor)))))))))))"

definition nestedScope :: scope where
  "nestedScope = Scope 1 (Some globalScope)"

definition nestedInnerScope :: scope where
  "nestedInnerScope = Scope 2 (Some nestedScope)"

definition nestedContext :: ruleContext where
  "nestedContext =
     \<lparr>getSourceCode =
        sourceCodeOf ''list.forEach(x => { for (;;) { g(function () { return; }); } });''
          [identifierToken ''list'' 0 4, punctuator ''.'' 4 5, identifierToken ''forEach'' 5 12,
           punctuator ''('' 12 13, identifierToken ''x'' 13 14, punctuator ''=>'' 15 17,
           punctuator ''{'' 18 19, keywordToken ''for'' 20 23, punctuator ''('' 24 25,
           punctuator '';'' 25 26, punctuator '';'' 26 27, punctuator '')'' 27 28,
           punctuator ''{'' 29 30, identifierToken ''g'' 31 32, punctuator ''('' 32 33,
           keywordToken ''function'' 33 41, punctuator ''('' 42 43, punctuator '')'' 43 44,
           punctuator ''{'' 45 46, keywordToken ''return'' 47 53, punctuator '';'' 53 54,
           punctuator ''}'' 55 56, punctuator '')'' 56 57, punctuator '';'' 57 58,
           punctuator ''}'' 59 60, punctuator ''}'' 61 62, punctuator '')'' 62 63,
           punctuator '';'' 63 64],
      getDeclaredVariables =
        (\<lambda>n. if n = 6
              then [\<lparr>defs = [\<lparr>def_type = ''Parameter'', def_name = ''x''\<rparr>],
                     references = [], var_scope = nestedScope\<rparr>]
              else []),
      getScope =
        (\<lambda>n. if n = 6 then nestedScope
              else if n = 14 then nestedInnerScope
              else globalScope)\<rparr>"

definition nestedCallback :: argumentNode where
  "nestedCallback =
     \<lparr>arg_id = 6, arg_type = ''ArrowFunctionExpression'', arg_range = (13, 62),
      async = False, generator = False,
      params = [identifierParameter 13 14],
      body = \<lparr>body_id = 8, body_type = ''BlockStatement'', body_range = (18, 62),
               loc_start_line = 1, loc_end_line = 1, body_statements = [(20, 60)]\<rparr>\<rparr>"

definition nestedCall :: callExpression where
  "nestedCall =
     \<lparr>call_id = 2, call_range = (0, 63), call_optional = False,
      arguments = [nestedCallback],
      callee = \<lparr>object = \<lparr>obj_id = 4, obj_range = (0, 4), obj_expr = Identifier ''list''\<rparr>,
                 property = \<lparr>ref_id = 5, ref_range = (5, 12)\<rparr>,
                 member_optional = False\<rparr>,
      call_parent = nestedStatement\<rparr>"

definition nestedProgram :: tree where
  "nestedProgram =
     Tree OtherNode
       [Tree OtherNode
         [Tree (ArrayForEachCallNode nestedCall)
           [Tree OtherNode [referenceTo 4 ''list'' 0 4, leaf OtherNode],
            Tree (FunctionNode 6)
              [leaf OtherNode,
               Tree OtherNode
                 [Tree OtherNode
                   [Tree OtherNode
                     [Tree OtherNode
                       [Tree OtherNode
                         [referenceTo 13 ''g'' 31 32,
                          Tree (FunctionNode 14)
                            [Tree OtherNode
                              [leaf (ReturnStatementNode nestedReturn)]]]]]]]]]]]"

text \<open>
  What the traversal records for its two functions: no return statement for the callback,
  the return statement for the function nested in it.
\<close>

definition nestedInfo :: "nat \<rightharpoonup> functionInfoEntry" where
  "nestedInfo =
     [6 \<mapsto> \<lparr>returnStatements = [], info_scope = nestedScope\<rparr>,
      14 \<mapsto> \<lparr>returnStatements = [nestedReturn], info_scope = nestedInnerScope\<rparr>]"

text \<open>The edits of its fix, in the order they are yielded.\<close>

definition nestedEdits :: "editOperation list" where
  "nestedEdits =
     [\<lparr>edit_range = (0, 18), edit_text = ''for (const x of list) ''\<rparr>,
      \<lparr>edit_range = (62, 63), edit_text = []\<rparr>,
      \<lparr>edit_range = (63, 64), edit_text = []\<rparr>,
      \<lparr>edit_range = (0, 0), edit_text = []\<rparr>,
      \<lparr>edit_range = (64, 64), edit_text = []\<rparr>]"

section \<open>Example: a default value that increments the first parameter\<close>

text \<open>\<^verbatim>\<open>list.forEach((x, i = x++) => { f(i); });\<close>\<close>

definition defaultedScope :: scope where
  "defaultedScope = Scope 1 (Some globalScope)"

definition defaultedStatement :: node where
  "defaultedStatement =
     plainNode 1 ''ExpressionStatement'' (0, 40) (Some (plainNode 0 ''Program'' (0, 40) None))"

definition defaultedFunction :: node where
  "defaultedFunction =
     Node 6 ''ArrowFunctionExpression'' (13, 38) None None (Some 12) None None
       (Some (plainNode 2 ''CallExpression'' (0, 39) (Some defaultedStatement)))"

definition defaultedPattern :: node where
  "defaultedPattern =
     Node 8 ''AssignmentPattern'' (17, 24) None None None (Some 9) None
       (Some defaultedFunction)"

definition defaultedUpdate :: node where
  "defaultedUpdate =
     Node 10 ''UpdateExpression'' (21, 24) None None None None
       (Some \<lparr>ref_id = 11, ref_range = (21, 22)\<rparr>) (Some defaultedPattern)"

definition defaultedVariableX :: variable where
  "defaultedVariableX =
     \<lparr>defs = [\<lparr>def_type = ''Parameter'', def_name = ''x''\<rparr>],
      references =
        [\<lparr>ref_identifier = plainNode 11 ''Identifier'' (21, 22) (Some defaultedUpdate)\<rparr>],
      var_scope = defaultedScope\<rparr>"

definition defaultedVariableI :: variable where
  "defaultedVariableI =
     \<lparr>defs = [\<lparr>def_type = ''Parameter'', def_name = ''i''\<rparr>],
      references =
        [\<lparr>ref_identifier = plainNode 9 ''Identifier'' (17, 18) (Some defaultedPattern)\<rparr>,
         \<lparr>ref_identifier =
            plainNode 16 ''Identifier'' (33, 34)
              (Some (plainNode 14 ''CallExpression'' (31, 35)
                (Some (plainNode 13 ''ExpressionStatement'' (31, 36)
                  (Some (plainNode 12 ''BlockStatement'' (29, 38)
                    (Some defaultedFunction)))))))\<rparr>],
      var_scope = defaultedScope\<rparr>"

definition defaultedModules :: modules where
  "defaultedModules =
     exampleModules
       (\<lambda>s i. if id_name i = ''x'' then Some defaultedVariableX
              else if id_name i = ''i'' then Some defaultedVariableI
              else None)"

definition defaultedContext :: ruleContext where
  "defaultedContext =
     \<lparr>getSourceCode =
        sourceCodeOf ''list.forEach((x, i = x++) => { f(i); });''
          [identifierToken ''list'' 0 4, punctuator ''.'' 4 5, identifierToken ''forEach'' 5 12,
           punctuator ''('' 12 13, punctuator ''('' 13 14, identifierToken ''x'' 14 15,
           punctuator '','' 15 16, identifierToken ''i'' 17 18, punctuator ''='' 19 20,
           identifierToken ''x'' 21 22, punctuator ''++'' 22 24, punctuator '')'' 24 25,
           punctuator ''=>'' 26 28, punctuator ''{'' 29 30, identifierToken ''f'' 31 32,
           punctuator ''('' 32 33, identifierToken ''i'' 33 34, punctuator '')'' 34 35,
           punctuator '';'' 35 36, punctuator ''}'' 37 38, punctuator '')'' 38 39,
           punctuator '';'' 39 40],
      getDeclaredVariables =
        (\<lambda>n. if n = 6 then [defaultedVariableX, defaultedVariableI] else []),
      getScope = (\<lambda>n. if n = 6 then defaultedScope else globalScope)\<rparr>"

definition defaultedCallback :: argumentNode where
  "defaultedCallback =
     \<lparr>arg_id = 6, arg_type = ''ArrowFunctionExpression'', arg_range = (13, 38),
      async = False, generator = False,
      params = [identifierParameter 14 15,
                \<lparr>param_type = ''AssignmentPattern'', typeAnnotation = False,
                 param_range = (17, 24)\<rparr>],
      body = \<lparr>body_id = 12, body_type = ''BlockStatement'', body_range = (29, 38),
               loc_start_line = 1, loc_end_line = 1, body_statements = [(31, 36)]\<rparr>\<rparr>"

definition defaultedCall :: callExpression where
  "defaultedCall =
     \<lparr>call_id = 2, call_range = (0, 39), call_optional = False,
      arguments = [defaultedCallback],
      callee = \<lparr>object = \<lparr>obj_id = 4, obj_range = (0, 4), obj_expr = Identifier ''list''\<rparr>,
                 property = \<lparr>ref_id = 5, ref_range = (5, 12)\<rparr>,
                 member_optional = False\<rparr>,
      call_parent = defaultedStatement\<rparr>"

definition defaultedProgram :: tree where
  "defaultedProgram =
     Tree OtherNode
       [Tree OtherNode
         [Tree (ArrayForEachCallNode defaultedCall)
           [Tree OtherNode [referenceTo 4 ''list'' 0 4, leaf OtherNode],
            Tree (FunctionNode 6)
              [leaf OtherNode,
               Tree OtherNode [leaf OtherNode, Tree OtherNode [referenceTo 11 ''x'' 21 22]],
               Tree OtherNode
                 [Tree OtherNode
                   [Tree OtherNode
                     [referenceTo 15 ''f'' 31 32, referenceTo 16 ''i'' 33 34]]]]]]]"

definition defaultedInfo :: "nat \<rightharpoonup> functionInfoEntry" where
  "defaultedInfo = [6 \<mapsto> \<lparr>returnStatements = [], info_scope = defaultedScope\<rparr>]"

text \<open>The edits of its fix, in the order they are yielded.\<close>

definition defaultedEdits :: "editOperation list" where
  "defaultedEdits =
     [\<lparr>edit_range = (0, 29), edit_text = ''for (let [i = x++, x] of list.entries()) ''\<rparr>,
      \<lparr>edit_range = (38, 39), edit_text = []\<rparr>,
      \<lparr>edit_range = (39, 40), edit_text = []\<rparr>,
      \<lparr>edit_range = (0, 0), edit_text = []\<rparr>,
      \<lparr>edit_range = (40, 40), edit_text = []\<rparr>]"

section \<open>Example: a null-safe call on an identifier, on one line\<close>

text \<open>
  \<^verbatim>\<open>foo?.forEach(x => { f(x); });\<close>, whose nodes and tokens have the ranges of those of
  \<^verbatim>\<open>a.b?.forEach(x => { f(x); });\<close> apart from the receiver, which is one identifier.
\<close>

definition namedContext :: ruleContext where
  "namedContext =
     \<lparr>getSourceCode =
        sourceCodeOf ''foo?.forEach(x => { f(x); });''
          [identifierToken ''foo'' 0 3,
           punctuator ''?.'' 3 5, identifierToken ''forEach'' 5 12, punctuator ''('' 12 13,
           identifierToken ''x'' 13 14, punctuator ''=>'' 15 17, punctuator ''{'' 18 19,
           identifierToken ''f'' 20 21, punctuator ''('' 21 22, identifierToken ''x'' 22 23,
           punctuator '')'' 23 24, punctuator '';'' 24 25, punctuator ''}'' 26 27,
           punctuator '')'' 27 28, punctuator '';'' 28 29],
      getDeclaredVariables = (\<lambda>n. if n = 9 then [memberVariable] else []),
      getScope = (\<lambda>n. if n = 9 then memberScope else globalScope)\<rparr>"

definition namedCall :: callExpression where
  "namedCall =
     \<lparr>call_id = 3, call_range = (0, 28), call_optional = False,
      arguments = [memberCallback],
      callee = \<lparr>object = \<lparr>obj_id = 5, obj_range = (0, 3), obj_expr = Identifier ''foo''\<rparr>,
                 property = \<lparr>ref_id = 8, ref_range = (5, 12)\<rparr>,
                 member_optional = True\<rparr>,
      call_parent = memberChain\<rparr>"

definition namedIdentifiers :: "identifierNode list" where
  "namedIdentifiers =
     [\<lparr>id_node = 5, id_name = ''foo'', id_range = (0, 3)\<rparr>,
      \<lparr>id_node = 14, id_name = ''f'', id_range = (20, 21)\<rparr>,
      \<lparr>id_node = 15, id_name = ''x'', id_range = (22, 23)\<rparr>]"

text \<open>The edits of its fix, in the order they are yielded.\<close>

definition namedEdits :: "editOperation list" where
  "namedEdits =
     [\<lparr>edit_range = (0, 18), edit_text = CHR 0x09 # ''for (const x of foo) ''\<rparr>,
      \<lparr>edit_range = (27, 28), edit_text = []\<rparr>,
      \<lparr>edit_range = (28, 29), edit_text = []\<rparr>,
      \<lparr>edit_range = (0, 0), edit_text = ''if (foo) {\<newline>''\<rparr>,
      \<lparr>edit_range = (28, 28), edit_text = ''\<newline>}''\<rparr>,
      \<lparr>edit_range = (0, 0), edit_text = []\<rparr>,
      \<lparr>edit_range = (28, 28), edit_text = []\<rparr>]"

section \<open>The traversal records what the tree holds\<close>

lemma visited_nil: "visited ctx [] [] [] [] st st"
  by (auto simp: visited_def recordedCalls_def map_option_case split: option.splits)

lemma visited_append:
  assumes v1: "visited ctx fns1 drs1 ids1 calls1 st st1"
      and v2: "visited ctx fns2 drs2 ids2 calls2 st1 st2"
      and d: "distinct (map fst (fns1 @ fns2))"
      and l: "functionStack st \<noteq> [] \<Longrightarrow> last (functionStack st) \<notin> fst ` set (fns1 @ fns2)"
  shows "visited ctx (fns1 @ fns2) (drs1 @ drs2) (ids1 @ ids2) (calls1 @ calls2) st st2"
proof -
  have s1: "functionStack st1 = functionStack st" and s2: "functionStack st2 = functionStack st"
    using v1 v2 by (simp_all add: visited_def)
  have disj: "fst ` set fns1 \<inter> fst ` set fns2 = {}"
    using d by auto
  have fi: "functionInfo st2 k =
             (if k \<in> fst ` set (fns1 @ fns2)
              then Some \<lparr>returnStatements = the (map_of (fns1 @ fns2) k), info_scope = getScope ctx k\<rparr>
              else if functionStack st \<noteq> [] \<and> k = last (functionStack st)
              then map_option (\<lambda>i. i\<lparr>returnStatements := returnStatements i @ (drs1 @ drs2)\<rparr>)
                     (functionInfo st k)
              else functionInfo st k)" for k
  proof -
    have f2: "functionInfo st2 k =
             (if k \<in> fst ` set fns2
              then Some \<lparr>returnStatements = the (map_of fns2 k), info_scope = getScope ctx k\<rparr>
              else if functionStack st \<noteq> [] \<and> k = last (functionStack st)
              then map_option (\<lambda>i. i\<lparr>returnStatements := returnStatements i @ drs2\<rparr>)
                     (functionInfo st1 k)
              else functionInfo st1 k)"
      using v2 s1 by (simp add: visited_def)
    have f1: "functionInfo st1 k =
             (if k \<in> fst ` set fns1
              then Some \<lparr>returnStatements = the (map_of fns1 k), info_scope = getScope ctx k\<rparr>
              else if functionStack st \<noteq> [] \<and> k = last (functionStack st)
              then map_option (\<lambda>i. i\<lparr>returnStatements := returnStatements i @ drs1\<rparr>)
                     (functionInfo st k)
              else functionInfo st k)"
      using v1 by (simp add: visited_def)
    show ?thesis
    proof (cases "k \<in> fst ` set fns2")
      case True
      then have "k \<notin> fst ` set fns1" using disj by auto
      then have "map_of fns1 k = None" by (simp add: map_of_eq_None_iff)
      then have m: "map_of (fns1 @ fns2) k = map_of fns2 k" by (simp add: map_add_def)
      have kin: "k \<in> fst ` set (fns1 @ fns2)" using True by auto
      show ?thesis unfolding if_P[OF kin] m using f2 True by simp
    next
      case n2: False
      show ?thesis
      proof (cases "k \<in> fst ` set fns1")
        case True
        then obtain v where "map_of fns1 k = Some v"
          by (metis map_of_eq_None_iff not_Some_eq)
        then have m: "map_of (fns1 @ fns2) k = map_of fns1 k" by (simp add: map_add_def)
        have kin: "k \<in> fst ` set (fns1 @ fns2)" using True by auto
        have nl: "\<not> (functionStack st \<noteq> [] \<and> k = last (functionStack st))"
          using l kin by blast
        have "functionInfo st2 k = functionInfo st1 k"
          using f2 n2 nl by simp
        then show ?thesis unfolding if_P[OF kin] m using f1 True by simp
      next
        case False
        then have kout: "k \<notin> fst ` set (fns1 @ fns2)" using n2 by auto
        show ?thesis unfolding if_not_P[OF kout] using f1 f2 False n2
          by (auto simp: option.map_comp comp_def)
      qed
    qed
  qed
  show ?thesis
    using v1 v2 fi unfolding visited_def recordedCalls_def
    by (simp add: s1)
qed


lemma visited_function:
  assumes v: "visited ctx fns drs ids calls (onFunction ctx f st) st2"
      and nf: "f \<notin> fst ` set fns"
  shows "visited ctx ((f, drs) # fns) [] ids calls st (onFunctionExit st2)"
proof -
  have fi: "functionInfo st2 k =
             (if k \<in> fst ` set fns
              then Some \<lparr>returnStatements = the (map_of fns k), info_scope = getScope ctx k\<rparr>
              else if k = f
              then Some \<lparr>returnStatements = drs, info_scope = getScope ctx f\<rparr>
              else functionInfo st k)" for k
    using v by (simp add: visited_def onFunction_def)
  have "functionInfo (onFunctionExit st2) k =
             (if k \<in> fst ` set ((f, drs) # fns)
              then Some \<lparr>returnStatements = the (map_of ((f, drs) # fns) k),
                         info_scope = getScope ctx k\<rparr>
              else if functionStack st \<noteq> [] \<and> k = last (functionStack st)
              then map_option (\<lambda>i. i\<lparr>returnStatements := returnStatements i @ []\<rparr>)
                     (functionInfo st k)
              else functionInfo st k)" for k
    using nf by (auto simp: fi onFunctionExit_def option.map_ident)
  then show ?thesis
    using v unfolding visited_def by (simp add: onFunction_def onFunctionExit_def)
qed

lemma visited_return:
  assumes r: "onReturnStatement r st = Inr st1"
      and v: "visited ctx fns drs ids calls st1 st2"
      and l: "last (functionStack st) \<notin> fst ` set fns"
  shows "visited ctx fns (r # drs) ids calls st st2"
proof -
  from r obtain i where ne: "functionStack st \<noteq> []"
    and i: "functionInfo st (last (functionStack st)) = Some i"
    and st1: "st1 = st\<lparr>functionInfo := (functionInfo st)
                (last (functionStack st) \<mapsto> i\<lparr>returnStatements := returnStatements i @ [r]\<rparr>)\<rparr>"
    by (auto simp: onReturnStatement_def Let_def split: if_splits option.splits)
  have "functionInfo st2 k =
             (if k \<in> fst ` set fns
              then Some \<lparr>returnStatements = the (map_of fns k), info_scope = getScope ctx k\<rparr>
              else if functionStack st \<noteq> [] \<and> k = last (functionStack st)
              then map_option (\<lambda>i. i\<lparr>returnStatements := returnStatements i @ (r # drs)\<rparr>)
                     (functionInfo st k)
              else functionInfo st k)" for k
    using v ne i by (simp add: visited_def st1)
  then show ?thesis
    using v unfolding visited_def by (simp add: st1)
qed

lemma visited_return_outside:
  assumes v: "visited ctx fns drs ids calls st st2"
      and e: "functionStack st = []"
  shows "visited ctx fns (r # drs) ids calls st st2"
  using v e unfolding visited_def by simp

lemma visited_identifier:
  assumes v: "visited ctx fns drs ids calls (onReferenceIdentifier i st) st2"
  shows "visited ctx fns drs (i # ids) calls st st2"
  using v unfolding visited_def by (simp add: onReferenceIdentifier_def)

lemma visited_call:
  assumes v: "visited ctx fns drs ids calls (onArrayForEachCall ctx c st) st2"
  shows "visited ctx fns drs ids (c # calls) st st2"
  using v unfolding visited_def by (simp add: onArrayForEachCall_def recordedCalls_def)

lemma visited_dom:
  assumes "visited ctx fns drs ids calls st st2"
      and "functionStack st \<noteq> []"
      and "last (functionStack st) \<in> dom (functionInfo st)"
  shows "last (functionStack st2) \<in> dom (functionInfo st2)"
  using assms unfolding visited_def by (auto simp: dom_def)

lemma onArrayForEachCall_frame:
  "functionStack (onArrayForEachCall ctx c st) = functionStack st"
  "functionInfo (onArrayForEachCall ctx c st) = functionInfo st"
  by (simp_all add: onArrayForEachCall_def)

lemma traverse_visited:
  "insideFunction = (functionStack st \<noteq> []) \<Longrightarrow>
   (functionStack st \<noteq> [] \<Longrightarrow> last (functionStack st) \<in> dom (functionInfo st)) \<Longrightarrow>
   distinct (map fst (functionsOf t)) \<Longrightarrow>
   (functionStack st \<noteq> [] \<Longrightarrow> last (functionStack st) \<notin> fst ` set (functionsOf t)) \<Longrightarrow>
   \<exists>st'. traverse ctx insideFunction t st = Inr st'
         \<and> visited ctx (functionsOf t) (directReturns t) (identifiersOf t) (callsOf t) st st'"
  and traverseAll_visited:
  "insideFunction = (functionStack st \<noteq> []) \<Longrightarrow>
   (functionStack st \<noteq> [] \<Longrightarrow> last (functionStack st) \<in> dom (functionInfo st)) \<Longrightarrow>
   distinct (map fst (functionsOfAll ts)) \<Longrightarrow>
   (functionStack st \<noteq> [] \<Longrightarrow> last (functionStack st) \<notin> fst ` set (functionsOfAll ts)) \<Longrightarrow>
   \<exists>st'. traverseAll ctx insideFunction ts st = Inr st'
         \<and> visited ctx (functionsOfAll ts) (directReturnsAll ts) (identifiersOfAll ts)
             (callsOfAll ts) st st'"
proof (induction ctx insideFunction t st and ctx insideFunction ts st
       rule: traverse_traverseAll.induct)
  case (1 ctx insideFunction n children st)
  show ?case
  proof (cases n)
    case (FunctionNode f)
    let ?st1 = "onFunction ctx f st"
    have e: "enterNode ctx insideFunction n st = Inr ?st1" using FunctionNode by simp
    have d: "distinct (map fst (functionsOfAll children))" and nf: "f \<notin> fst ` set (functionsOfAll children)"
      using "1.prems"(3) FunctionNode by auto
    have "\<exists>st2. traverseAll ctx (insideFunction \<or> isFunctionNode n) children ?st1 = Inr st2
            \<and> visited ctx (functionsOfAll children) (directReturnsAll children)
                (identifiersOfAll children) (callsOfAll children) ?st1 st2"
      using d nf FunctionNode by (intro "1.IH"[OF e]) (auto simp: onFunction_def)
    then obtain st2 where t: "traverseAll ctx (insideFunction \<or> isFunctionNode n) children ?st1 = Inr st2"
      and v: "visited ctx (functionsOfAll children) (directReturnsAll children)
                (identifiersOfAll children) (callsOfAll children) ?st1 st2" by blast
    from visited_function[OF v nf] t e FunctionNode show ?thesis by simp
  next
    case (ReturnStatementNode r)
    show ?thesis
    proof (cases insideFunction)
      case True
      then have ne: "functionStack st \<noteq> []" using "1.prems"(1) by simp
      then obtain i where i: "functionInfo st (last (functionStack st)) = Some i"
        using "1.prems"(2) by auto
      let ?st1 = "st\<lparr>functionInfo := (functionInfo st)
                (last (functionStack st) \<mapsto> i\<lparr>returnStatements := returnStatements i @ [r]\<rparr>)\<rparr>"
      have r1: "onReturnStatement r st = Inr ?st1"
        using ne i by (simp add: onReturnStatement_def)
      have e: "enterNode ctx insideFunction n st = Inr ?st1"
        using ReturnStatementNode True r1 by simp
      have "\<exists>st2. traverseAll ctx (insideFunction \<or> isFunctionNode n) children ?st1 = Inr st2
            \<and> visited ctx (functionsOfAll children) (directReturnsAll children)
                (identifiersOfAll children) (callsOfAll children) ?st1 st2"
        using "1.prems" ReturnStatementNode ne by (intro "1.IH"[OF e]) auto
      then obtain st2 where t: "traverseAll ctx (insideFunction \<or> isFunctionNode n) children ?st1 = Inr st2"
        and v: "visited ctx (functionsOfAll children) (directReturnsAll children)
                (identifiersOfAll children) (callsOfAll children) ?st1 st2" by blast
      have l: "last (functionStack st) \<notin> fst ` set (functionsOfAll children)"
        using "1.prems"(4) ne ReturnStatementNode by simp
      from visited_return[OF r1 v l] t e ReturnStatementNode show ?thesis by simp
    next
      case False
      then have em: "functionStack st = []" using "1.prems"(1) by simp
      have e: "enterNode ctx insideFunction n st = Inr st"
        using ReturnStatementNode False by simp
      have "\<exists>st2. traverseAll ctx (insideFunction \<or> isFunctionNode n) children st = Inr st2
            \<and> visited ctx (functionsOfAll children) (directReturnsAll children)
                (identifiersOfAll children) (callsOfAll children) st st2"
        using "1.prems" ReturnStatementNode em by (intro "1.IH"[OF e]) auto
      then obtain st2 where t: "traverseAll ctx (insideFunction \<or> isFunctionNode n) children st = Inr st2"
        and v: "visited ctx (functionsOfAll children) (directReturnsAll children)
                (identifiersOfAll children) (callsOfAll children) st st2" by blast
      from visited_return_outside[OF v em] t e ReturnStatementNode show ?thesis by simp
    qed
  next
    case (ReferenceIdentifierNode i)
    let ?st1 = "onReferenceIdentifier i st"
    have e: "enterNode ctx insideFunction n st = Inr ?st1" using ReferenceIdentifierNode by simp
    have "\<exists>st2. traverseAll ctx (insideFunction \<or> isFunctionNode n) children ?st1 = Inr st2
            \<and> visited ctx (functionsOfAll children) (directReturnsAll children)
                (identifiersOfAll children) (callsOfAll children) ?st1 st2"
      using "1.prems" ReferenceIdentifierNode
      by (intro "1.IH"[OF e]) (auto simp: onReferenceIdentifier_def)
    then obtain st2 where t: "traverseAll ctx (insideFunction \<or> isFunctionNode n) children ?st1 = Inr st2"
      and v: "visited ctx (functionsOfAll children) (directReturnsAll children)
                (identifiersOfAll children) (callsOfAll children) ?st1 st2" by blast
    from visited_identifier[OF v] t e ReferenceIdentifierNode show ?thesis by simp
  next
    case (ArrayForEachCallNode c)
    let ?st1 = "onArrayForEachCall ctx c st"
    have e: "enterNode ctx insideFunction n st = Inr ?st1" using ArrayForEachCallNode by simp
    have "\<exists>st2. traverseAll ctx (insideFunction \<or> isFunctionNode n) children ?st1 = Inr st2
            \<and> visited ctx (functionsOfAll children) (directReturnsAll children)
                (identifiersOfAll children) (callsOfAll children) ?st1 st2"
      using "1.prems" ArrayForEachCallNode
      by (intro "1.IH"[OF e]) (auto simp: onArrayForEachCall_frame)
    then obtain st2 where t: "traverseAll ctx (insideFunction \<or> isFunctionNode n) children ?st1 = Inr st2"
      and v: "visited ctx (functionsOfAll children) (directReturnsAll children)
                (identifiersOfAll children) (callsOfAll children) ?st1 st2" by blast
    from visited_call[OF v] t e ArrayForEachCallNode show ?thesis by simp
  next
    case OtherNode
    have e: "enterNode ctx insideFunction n st = Inr st" using OtherNode by simp
    have "\<exists>st2. traverseAll ctx (insideFunction \<or> isFunctionNode n) children st = Inr st2
            \<and> visited ctx (functionsOfAll children) (directReturnsAll children)
                (identifiersOfAll children) (callsOfAll children) st st2"
      using "1.prems" OtherNode by (intro "1.IH"[OF e]) auto
    then show ?thesis using e OtherNode by auto
  qed
next
  case (2 ctx insideFunction st)
  show ?case using visited_nil by simp
next
  case (3 ctx insideFunction t ts st)
  have d1: "distinct (map fst (functionsOf t))" and d2: "distinct (map fst (functionsOfAll ts))"
    using "3.prems"(3) by auto
  have "\<exists>st1. traverse ctx insideFunction t st = Inr st1
         \<and> visited ctx (functionsOf t) (directReturns t) (identifiersOf t) (callsOf t) st st1"
    using "3.prems" d1 by (intro "3.IH"(1)) auto
  then obtain st1 where t1: "traverse ctx insideFunction t st = Inr st1"
    and v1: "visited ctx (functionsOf t) (directReturns t) (identifiersOf t) (callsOf t) st st1"
    by blast
  have s1: "functionStack st1 = functionStack st" using v1 by (simp add: visited_def)
  have dom1: "functionStack st1 \<noteq> [] \<Longrightarrow> last (functionStack st1) \<in> dom (functionInfo st1)"
    using visited_dom[OF v1] "3.prems"(2) s1 by simp
  have "\<exists>st2. traverseAll ctx insideFunction ts st1 = Inr st2
         \<and> visited ctx (functionsOfAll ts) (directReturnsAll ts) (identifiersOfAll ts)
             (callsOfAll ts) st1 st2"
    using "3.prems" d2 s1 dom1 by (intro "3.IH"(2)[OF t1]) auto
  then obtain st2 where t2: "traverseAll ctx insideFunction ts st1 = Inr st2"
    and v2: "visited ctx (functionsOfAll ts) (directReturnsAll ts) (identifiersOfAll ts)
             (callsOfAll ts) st1 st2" by blast
  have "visited ctx (functionsOf t @ functionsOfAll ts) (directReturns t @ directReturnsAll ts)
          (identifiersOf t @ identifiersOfAll ts) (callsOf t @ callsOfAll ts) st st2"
    using "3.prems"(3,4) by (intro visited_append[OF v1 v2]) auto
  then show ?case using t1 t2 by simp
qed

section \<open>Auxiliary facts\<close>

lemma inContinueAble_iff:
  "isReturnStatementInContinueAbleNodes n cb
   = list_ex (\<lambda>a. node_type a \<in> set continueAbleNodeTypes) (nodesUpTo n cb)"
  by (induction n cb rule: isReturnStatementInContinueAbleNodes.induct)
     (simp split: option.splits)

lemma set_tl_subset: "x \<in> set (tl xs) \<Longrightarrow> x \<in> set xs"
  by (cases xs) auto

lemma isFixable_return_in_loop:
  assumes "arguments callExpression = [callback]"
      and "fi (arg_id callback) = Some info"
      and "list_ex (\<lambda>rs. isReturnStatementInContinueAbleNodes rs (arg_id callback)) (returnStatements info)"
  shows "isFixable m callExpression scope fi idents ctx = Inr False"
  using assms by (simp add: isFixable_def)

section \<open>The example file, evaluated\<close>

lemma sample_functions:
  "functionsOf sampleProgram =
     [(6, [sampleLoopReturn]), (17, [sampleOuterReturn]), (23, [sampleInnerReturn]), (33, [])]"
  by code_simp

lemma sample_identifiers:
  "identifiersOf sampleProgram =
     [\<lparr>id_node = 4, id_name = ''list'', id_range = (0, 4)\<rparr>,
      \<lparr>id_node = 15, id_name = ''Children'', id_range = (45, 53)\<rparr>,
      \<lparr>id_node = 22, id_name = ''f'', id_range = (69, 70)\<rparr>,
      \<lparr>id_node = 26, id_name = ''y'', id_range = (92, 93)\<rparr>,
      \<lparr>id_node = 31, id_name = ''items'', id_range = (111, 116)\<rparr>,
      \<lparr>id_node = 38, id_name = ''g'', id_range = (132, 133)\<rparr>,
      \<lparr>id_node = 39, id_name = ''z'', id_range = (134, 135)\<rparr>]"
  by code_simp

lemma sample_calls: "callsOf sampleProgram = [sampleCall1, sampleCall2, sampleCall3]"
  by code_simp

lemma sample_run: "runRule sampleModules sampleContext sampleProgram = Inr sampleProblems"
  by code_simp

lemma sample_traverse_info:
  "(case traverse sampleContext False sampleProgram initialState of
      Inl e \<Rightarrow> None
    | Inr st \<Rightarrow> functionInfo st 6)
   = Some \<lparr>returnStatements = [sampleLoopReturn], info_scope = sampleScopeX\<rparr>"
  by code_simp

lemma sample_between: "sampleFor \<in> set (ancestorsBetween sampleLoopReturn 6)"
  by code_simp

section \<open>Reporting\<close>

lemma ex_if_Inr:
  "(\<exists>b. (if A then Inr x else z) = Inr b) \<longleftrightarrow> (A \<or> (\<exists>b. z = (Inr b :: error + bool)))"
  by auto

lemma ex_bool: "\<exists>b. \<not> b" "\<exists>b::bool. b"
  by auto

lemma isFixable_defined:
  assumes "\<And>cb. arguments c = [cb] \<Longrightarrow>
             arg_type cb = ''FunctionExpression'' \<or> arg_type cb = ''ArrowFunctionExpression'' \<Longrightarrow>
             fi (arg_id cb) \<noteq> None"
  shows "\<exists>b. isFixable m c s fi ids ctx = Inr b"
proof (cases "arguments c")
  case Nil
  then show ?thesis by (simp add: isFixable_def ex_if_Inr ex_bool split del: if_split)
next
  case (Cons cb rest)
  show ?thesis
  proof (cases "rest = []")
    case True
    with Cons have a: "arguments c = [cb]" by simp
    show ?thesis
    proof (cases "arg_type cb = ''FunctionExpression'' \<or> arg_type cb = ''ArrowFunctionExpression''")
      case True
      from assms[OF a True] obtain info where "fi (arg_id cb) = Some info" by auto
      then show ?thesis using a by (simp add: isFixable_def ex_if_Inr ex_bool split del: if_split)
    next
      case False
      then show ?thesis using a by (simp add: isFixable_def ex_if_Inr ex_bool split del: if_split)
    qed
  next
    case False
    with Cons have "length (arguments c) \<noteq> 1" by simp
    then show ?thesis by (simp add: isFixable_def ex_if_Inr ex_bool split del: if_split)
  qed
qed

lemma reportProblems_map:
  assumes "\<And>c s. (c, s) \<in> set calls \<Longrightarrow>
             \<exists>b. isFixable m c s (functionInfo st) (allIdentifiers st) ctx = Inr b"
  shows "reportProblems m ctx st calls =
           Inr (map (\<lambda>(c, s).
                  \<lparr>problem_node = property (callee c), messageId = MESSAGE_ID,
                   problem_fix =
                     (if isFixable m c s (functionInfo st) (allIdentifiers st) ctx = Inr True
                      then Some (getFixFunction m c (functionInfo st) ctx) else None)\<rparr>)
                calls)"
  using assms
proof (induction calls)
  case Nil
  then show ?case by simp
next
  case (Cons call rest)
  obtain c s where cs: "call = (c, s)" by (cases call)
  from Cons.prems[of c s] cs obtain b
    where b: "isFixable m c s (functionInfo st) (allIdentifiers st) ctx = Inr b" by auto
  have "reportProblems m ctx st rest =
           Inr (map (\<lambda>(c, s).
                  \<lparr>problem_node = property (callee c), messageId = MESSAGE_ID,
                   problem_fix =
                     (if isFixable m c s (functionInfo st) (allIdentifiers st) ctx = Inr True
                      then Some (getFixFunction m c (functionInfo st) ctx) else None)\<rparr>)
                rest)"
    using Cons.prems by (intro Cons.IH) auto
  then show ?case using b cs by (simp add: reportProblem_def)
qed

lemma sample_ignored:
  "filter (\<lambda>c. \<not> isNodeMatches (obj_expr (object (callee c))) ignoredObjects)
     [sampleCall1, sampleCall2, sampleCall3] = [sampleCall1, sampleCall3]"
  by code_simp

section \<open>The parameter check, loop by loop\<close>

lemma isChildScope_iff:
  "isChildScope child parentScope = (scope_id parentScope \<in> scope_id ` set (scopeChain child))"
  by (induction child parentScope rule: isChildScope.induct)
     (auto split: option.splits)

lemma scope_in_chain: "scope_id s \<in> scope_id ` set (scopeChain s)"
  by (cases s) simp

lemma identifiersSafe_iff:
  "identifiersSafe m scope array name ids =
     (\<not> (\<exists>i \<in> set ids.
            id_name i = name \<and> withinRange (id_range i) array
            \<and> (case findVariable m scope i of
                  None \<Rightarrow> True
                | Some w \<Rightarrow> scope_id (var_scope w) \<in> scope_id ` set (scopeChain scope))))"
proof (induction ids)
  case Nil
  then show ?case by simp
next
  case (Cons i ids)
  show ?case
  proof (cases "id_name i \<noteq> name \<or> fst (id_range i) < fst array \<or> snd (id_range i) > snd array")
    case True
    then have "\<not> (id_name i = name \<and> withinRange (id_range i) array)"
      by (auto simp: withinRange_def)
    with True Cons show ?thesis by auto
  next
    case False
    then have w: "id_name i = name \<and> withinRange (id_range i) array"
      by (auto simp: withinRange_def)
    show ?thesis
    proof (cases "findVariable m scope i")
      case None
      with False w show ?thesis by auto
    next
      case (Some v)
      have "(scope_id (var_scope v) = scope_id scope \<or> isChildScope scope (var_scope v))
            = (scope_id (var_scope v) \<in> scope_id ` set (scopeChain scope))"
        using scope_in_chain[of scope] by (auto simp: isChildScope_iff)
      with Some False w Cons show ?thesis by auto
    qed
  qed
qed

lemma variablesSafe_iff:
  "variablesSafe m scope array ids vs =
     (\<not> (\<exists>v \<in> set vs.
            length (defs v) \<noteq> 1
            \<or> (def_type (hd (defs v)) = ''Parameter''
                \<and> \<not> identifiersSafe m scope array (def_name (hd (defs v))) ids)))"
proof (induction vs)
  case Nil
  then show ?case by simp
next
  case (Cons v vs)
  show ?case
  proof (cases "defs v")
    case Nil
    then show ?thesis by simp
  next
    case (Cons d ds)
    then show ?thesis using Cons.IH by (cases ds) auto
  qed
qed

lemma identifiersSafe_filter:
  "identifiersSafe m scope array name (filter (\<lambda>i. withinRange (id_range i) array) ids)
   = identifiersSafe m scope array name ids"
  unfolding identifiersSafe_iff by auto

lemma isFixable_unsafe:
  assumes "arguments ce = [callback]"
      and "\<not> isFunctionParametersSafeToFix m ctx callback scope (call_range ce) ids"
  shows "isFixable m ce scope fi ids ctx = Inr False"
  using assms by (simp add: isFixable_def)

section \<open>Reassigned parameters\<close>

lemma filterParameters_ok:
  "\<forall>v \<in> set vs. defs v \<noteq> [] \<Longrightarrow>
   filterParameters vs = Inr (filter (\<lambda>v. def_type (hd (defs v)) = ''Parameter'') vs)"
  by (induction vs) (auto split: list.splits)

lemma someReference_ok:
  "\<forall>r \<in> set rs. parent (ref_identifier r) \<noteq> None \<Longrightarrow>
   someReference rs = Inr (\<exists>r \<in> set rs. reassigns r)"
  by (induction rs) (auto simp: isReassignment_def reassigns_def split: option.splits bool.splits)

lemma someVariable_ok:
  "\<forall>v \<in> set vs. \<forall>r \<in> set (references v). parent (ref_identifier r) \<noteq> None \<Longrightarrow>
   someVariable vs = Inr (\<exists>v \<in> set vs. \<exists>r \<in> set (references v). reassigns r)"
proof (induction vs)
  case Nil
  then show ?case by simp
next
  case (Cons v vs)
  have "someReference (references v) = Inr (\<exists>r \<in> set (references v). reassigns r)"
    using Cons.prems by (intro someReference_ok) simp
  moreover have "someVariable vs = Inr (\<exists>v \<in> set vs. \<exists>r \<in> set (references v). reassigns r)"
    using Cons.prems by (intro Cons.IH) simp
  ultimately show ?case by (auto split: bool.splits)
qed

lemma reassigned_ok:
  assumes "\<forall>v \<in> set (getDeclaredVariables ctx (arg_id callback)). defs v \<noteq> []"
      and "\<forall>v \<in> set (getDeclaredVariables ctx (arg_id callback)).
             \<forall>r \<in> set (references v). parent (ref_identifier r) \<noteq> None"
  shows "isFunctionParameterVariableReassigned ctx callback =
           Inr (\<exists>v \<in> set (getDeclaredVariables ctx (arg_id callback)).
                  def_type (hd (defs v)) = ''Parameter''
                  \<and> (\<exists>r \<in> set (references v). reassigns r))"
proof -
  let ?vs = "getDeclaredVariables ctx (arg_id callback)"
  have "someVariable (filter (\<lambda>v. def_type (hd (defs v)) = ''Parameter'') ?vs)
        = Inr (\<exists>v \<in> set (filter (\<lambda>v. def_type (hd (defs v)) = ''Parameter'') ?vs).
                 \<exists>r \<in> set (references v). reassigns r)"
    using assms(2) by (intro someVariable_ok) auto
  then show ?thesis
    using filterParameters_ok[OF assms(1)]
    by (auto simp: isFunctionParameterVariableReassigned_def)
qed

lemma isFixable_True_safe:
  assumes "isFixable m ce scope fi ids ctx = Inr True" and "arguments ce = [callback]"
  shows "isFunctionParametersSafeToFix m ctx callback scope (call_range ce) ids"
proof (rule ccontr)
  assume "\<not> isFunctionParametersSafeToFix m ctx callback scope (call_range ce) ids"
  then have "isFixable m ce scope fi ids ctx = Inr False"
    using assms(2) by (simp add: isFixable_def)
  with assms(1) show False by simp
qed

lemma isFixable_True_params:
  assumes "isFixable m ce scope fi ids ctx = Inr True" and "arguments ce = [callback]"
  shows "length (params callback) = 1 \<or> length (params callback) = 2"
proof (rule ccontr)
  assume "\<not> (length (params callback) = 1 \<or> length (params callback) = 2)"
  then have "isFixable m ce scope fi ids ctx = Inr False"
    using assms(2) by (simp add: isFixable_def)
  with assms(1) show False by simp
qed

lemma safe_defs:
  assumes "isFunctionParametersSafeToFix m ctx callback scope array ids"
  shows "\<forall>v \<in> set (getDeclaredVariables ctx (arg_id callback)). defs v \<noteq> []"
  using assms unfolding isFunctionParametersSafeToFix_def variablesSafe_iff by auto

lemma fixable_reassigned:
  assumes "isFixable m ce scope fi ids ctx = Inr True" and "arguments ce = [callback]"
      and "\<forall>v \<in> set (getDeclaredVariables ctx (arg_id callback)).
             \<forall>r \<in> set (references v). parent (ref_identifier r) \<noteq> None"
  shows "isFunctionParameterVariableReassigned ctx callback =
           Inr (\<exists>v \<in> set (getDeclaredVariables ctx (arg_id callback)).
                  def_type (hd (defs v)) = ''Parameter''
                  \<and> (\<exists>r \<in> set (references v). reassigns r))"
  using safe_defs[OF isFixable_True_safe[OF assms(1,2)]] assms(3) by (rule reassigned_ok)

lemma indexed_fixable:
  "isFixable indexedModules indexedCall globalScope (functionInfo indexedState)
     (allIdentifiers indexedState) indexedContext = Inr True"
  by code_simp

lemma indexed_head:
  "getForOfLoopHeadText indexedModules indexedContext indexedCall indexedCallback
   = Inr ''for (let [i, x] of list.entries()) ''"
  by code_simp

lemma indexed_parents:
  "\<forall>v \<in> set (getDeclaredVariables indexedContext (arg_id indexedCallback)).
     \<forall>r \<in> set (references v). parent (ref_identifier r) \<noteq> None"
  by (simp add: indexedContext_def indexedCallback_def indexedVariableX_def
        indexedVariableI_def plainNode_def)

lemma sample_fixable:
  "isFixable sampleModules sampleCall3 globalScope
     [33 \<mapsto> \<lparr>returnStatements = [], info_scope = sampleScopeZ\<rparr>]
     (identifiersOf sampleProgram) sampleContext = Inr True"
  by code_simp

lemma sample_head:
  "getForOfLoopHeadText sampleModules sampleContext sampleCall3 sampleCallback3
   = Inr ''for (const z of items) ''"
  by code_simp

lemma sample_parents:
  "\<forall>v \<in> set (getDeclaredVariables sampleContext (arg_id sampleCallback3)).
     \<forall>r \<in> set (references v). parent (ref_identifier r) \<noteq> None"
  by (simp add: sampleContext_def sampleCallback3_def sampleVariableZ_def plainNode_def)

section \<open>The edits of a return statement\<close>

lemma shouldSwitch_parent:
  "parent rs = Some p \<Longrightarrow>
   shouldSwitchReturnStatementToBlockStatement rs =
     Inr ((node_type p = ''IfStatement''
           \<and> (consequent p = Some (node_id rs) \<or> alternate p = Some (node_id rs)))
          \<or> (node_type p = ''WithStatement'' \<and> body_ref p = Some (node_id rs)))"
  by (simp add: shouldSwitchReturnStatementToBlockStatement_def)

lemma replaceReturnStatement_valued:
  assumes "tok_value (getFirstToken (getSourceCode ctx) (node_range rs)) = ''return''"
      and "argument rs = Some arg"
      and "getTokenAfter (getSourceCode ctx)
             (tok_range (getFirstToken (getSourceCode ctx) (node_range rs))) = Some nt"
      and "shouldSwitchReturnStatementToBlockStatement rs = Inr B"
      and "(\<not> isParenthesized m (ref_id arg)
            \<and> shouldAddParenthesesToExpressionStatementExpression m (ref_id arg)) = P"
  shows "replaceReturnStatement m ctx rs =
           Inr ([fixer_remove (tok_range (getFirstToken (getSourceCode ctx) (node_range rs)))]
                @ (if (if B then ''{ ''
                       else if needsSemicolon m
                                 (getTokenBefore (getSourceCode ctx)
                                    (tok_range (getFirstToken (getSourceCode ctx) (node_range rs)))
                                    (\<lambda>t. True))
                                 (if P then ''('' else tok_value nt)
                       then '';'' else [])
                      @ (if P then ''('' else []) \<noteq> []
                   then [fixer_insertTextBefore (tok_range nt)
                           ((if B then ''{ ''
                             else if needsSemicolon m
                                       (getTokenBefore (getSourceCode ctx)
                                          (tok_range (getFirstToken (getSourceCode ctx)
                                                        (node_range rs)))
                                          (\<lambda>t. True))
                                       (if P then ''('' else tok_value nt)
                             then '';'' else [])
                            @ (if P then ''('' else []))]
                   else [])
                @ (if P then [fixer_insertTextAfter (ref_range arg) '')''] else [])
                @ (if \<not> isSemicolonToken (getLastToken (getSourceCode ctx) (node_range rs))
                   then [fixer_insertTextAfter (node_range rs) '';'']
                   else [])
                @ [fixer_insertTextAfter (node_range rs) '' continue;'']
                @ (if B then [fixer_insertTextAfter (node_range rs) '' }''] else []))"
  using assms
  by (cases B; cases P;
      cases "needsSemicolon m
               (getTokenBefore (getSourceCode ctx)
                  (tok_range (getFirstToken (getSourceCode ctx) (node_range rs))) (\<lambda>t. True))
               (if P then ''('' else tok_value nt)")
     (auto simp add: replaceReturnStatement_def Let_def)

lemma valued_range: "node_range valuedReturn = (27, 39)"
  by (simp add: valuedReturn_def)

lemma valued_tokens:
  "getFirstToken (getSourceCode valuedContext) (27, 39) = keywordToken ''return'' 27 33"
  "getTokenAfter (getSourceCode valuedContext) (27, 33) = Some (identifierToken ''f'' 34 35)"
  "getLastToken (getSourceCode valuedContext) (27, 39) = punctuator '';'' 38 39"
  by code_simp+

lemma conditional_range: "node_range conditionalReturn = (27, 34)"
  by (simp add: conditionalReturn_def plainNode_def)

lemma conditional_token:
  "getFirstToken (getSourceCode conditionalContext) (27, 34) = keywordToken ''return'' 27 33"
  by code_simp

section \<open>The guard around the loop\<close>

lemma member_fix: "getFixFunction memberModules memberCall memberInfo memberContext = Inr memberEdits"
  by code_simp

lemma wrapInIfStatement_hd:
  "hd (wrapInIfStatement m ctx callExpression callback indentedString)
   = fixer_insertTextBefore (call_range callExpression)
       (''if ('' @ js_string (expression_name (obj_expr (object (callee callExpression))))
        @ '') {\<newline>'')"
  by (simp add: wrapInIfStatement_def Let_def)

lemma wrapInIfStatement_nonempty:
  "wrapInIfStatement m ctx callExpression callback indentedString \<noteq> []"
  by (simp add: wrapInIfStatement_def Let_def)

lemma expression_name_other:
  "(\<forall>n. e \<noteq> Identifier n) \<Longrightarrow> expression_name e = None"
  by (cases e) auto

lemma getFixFunction_wraps:
  assumes "getFixFunction m callExpression fi ctx = Inr edits"
      and "member_optional (callee callExpression)"
      and "arguments callExpression = callback # rest"
  shows "set (wrapInIfStatement m ctx callExpression callback
                (getIndentString m (parent (call_parent callExpression)))) \<subseteq> set edits"
  using assms
  by (auto simp: getFixFunction_def fixEdits_def Let_def split: option.splits sum.splits)

section \<open>References inside the callback body\<close>

lemma safe_single_def:
  assumes "isFunctionParametersSafeToFix m ctx callback scope array ids"
      and "v \<in> set (getDeclaredVariables ctx (arg_id callback))"
  shows "length (defs v) = 1"
  using assms unfolding isFunctionParametersSafeToFix_def variablesSafe_iff by auto

lemma single_def_parameter:
  assumes "length (defs v) = 1"
  shows "list_ex (\<lambda>d. def_type d = ''Parameter'') (defs v)
         = (def_type (hd (defs v)) = ''Parameter'')"
proof -
  obtain d where "defs v = [d]"
    using assms by (cases "defs v") auto
  then show ?thesis by simp
qed

lemma reassigned_in_body:
  assumes "isFixable m ce scope fi ids ctx = Inr True" and "arguments ce = [callback]"
      and "specReassignedInBody ctx callback"
  shows "\<exists>v \<in> set (getDeclaredVariables ctx (arg_id callback)).
           def_type (hd (defs v)) = ''Parameter''
           \<and> (\<exists>r \<in> set (references v). reassigns r)"
proof -
  from assms(3) obtain v r where
      v: "v \<in> set (getDeclaredVariables ctx (arg_id callback))"
    and d: "list_ex (\<lambda>d. def_type d = ''Parameter'') (defs v)"
    and r: "r \<in> set (references v)" "reassigns r"
    unfolding specReassignedInBody_def list_ex_iff by blast
  have "length (defs v) = 1"
    using isFixable_True_safe[OF assms(1,2)] v by (rule safe_single_def)
  then have "def_type (hd (defs v)) = ''Parameter''"
    using d by (simp add: single_def_parameter)
  then show ?thesis using v r by blast
qed

section \<open>The examples with a default value and with an identifier receiver\<close>

lemma defaulted_fixable:
  "isFixable defaultedModules defaultedCall globalScope defaultedInfo
     (identifiersOf defaultedProgram) defaultedContext = Inr True"
  by code_simp

lemma named_fixable:
  "isFixable memberModules namedCall globalScope memberInfo namedIdentifiers namedContext
   = Inr True"
  by code_simp

lemma named_fix: "getFixFunction memberModules namedCall memberInfo namedContext = Inr namedEdits"
  by code_simp

lemma defaulted_parents:
  "\<forall>v \<in> set (getDeclaredVariables defaultedContext (arg_id defaultedCallback)).
     \<forall>r \<in> set (references v). parent (ref_identifier r) \<noteq> None"
  by (simp add: defaultedContext_def defaultedCallback_def defaultedVariableX_def
        defaultedVariableI_def plainNode_def)

lemma wrapInIfStatement_identifier:
  "obj_expr (object (callee callExpression)) = Identifier n \<Longrightarrow>
   hd (wrapInIfStatement m ctx callExpression callback indentedString)
   = fixer_insertTextBefore (call_range callExpression) (''if ('' @ n @ '') {\<newline>'')"
  by (simp add: wrapInIfStatement_hd js_string_def)

lemma wrapInIfStatement_other:
  "\<forall>n. obj_expr (object (callee callExpression)) \<noteq> Identifier n \<Longrightarrow>
   hd (wrapInIfStatement m ctx callExpression callback indentedString)
   = fixer_insertTextBefore (call_range callExpression) ''if (undefined) {\<newline>''"
  by (simp add: wrapInIfStatement_hd expression_name_other js_string_def)

lemma getFixFunction_guard:
  assumes "getFixFunction m callExpression fi ctx = Inr edits"
      and "member_optional (callee callExpression)"
  shows "\<exists>callback.
           hd (wrapInIfStatement m ctx callExpression callback
                 (getIndentString m (parent (call_parent callExpression)))) \<in> set edits"
proof -
  obtain cb rest where a: "arguments callExpression = cb # rest"
    using assms(1) by (cases "arguments callExpression") (auto simp: getFixFunction_def)
  let ?w = "wrapInIfStatement m ctx callExpression cb
              (getIndentString m (parent (call_parent callExpression)))"
  have "hd ?w \<in> set ?w" using wrapInIfStatement_nonempty by simp
  moreover have "set ?w \<subseteq> set edits" using getFixFunction_wraps assms a by blast
  ultimately show ?thesis by blast
qed

section \<open>C1: one diagnostic per call that is not allowlisted\<close>

text \<open>
  Claim C1. For every \<^verbatim>\<open>forEach\<close> call matched in a file whose receiver's static name is
  not in the allowlist, exactly one diagnostic is emitted, located at the method-name
  token (\<^verbatim>\<open>callee.property\<close>); a patch is attached if and only if the fixability
  analysis accepts the call site; a call whose receiver is in the allowlist produces no
  diagnostic. Stated for one run of the rule on a tree whose function nodes are distinct
  and in which a function passed as the only argument of a matched call is a function
  node of the tree: the run ends without an exception, and its diagnostics are, in
  document order, one for each matched call that is not allowlisted.
\<close>

theorem rule_reports_each_call:
  assumes "distinct (map fst (functionsOf program))"
      and "\<forall>c \<in> set (callsOf program). \<forall>cb.
             arguments c = [cb] \<longrightarrow>
             arg_type cb = ''FunctionExpression'' \<or> arg_type cb = ''ArrowFunctionExpression'' \<longrightarrow>
             arg_id cb \<in> fst ` set (functionsOf program)"
  shows "\<exists>st. traverse ctx False program initialState = Inr st
           \<and> runRule m ctx program =
               Inr (map (\<lambda>c.
                      \<lparr>problem_node = property (callee c), messageId = MESSAGE_ID,
                       problem_fix =
                         (if isFixable m c (getScope ctx (call_id c)) (functionInfo st)
                               (allIdentifiers st) ctx = Inr True
                          then Some (getFixFunction m c (functionInfo st) ctx)
                          else None)\<rparr>)
                    (filter (\<lambda>c. \<not> isNodeMatches (obj_expr (object (callee c))) ignoredObjects)
                       (callsOf program)))"
proof -
  have "\<exists>st. traverse ctx False program initialState = Inr st
          \<and> visited ctx (functionsOf program) (directReturns program) (identifiersOf program)
              (callsOf program) initialState st"
    using assms(1) by (intro traverse_visited) (simp_all add: initialState_def)
  then obtain st where t: "traverse ctx False program initialState = Inr st"
    and v: "visited ctx (functionsOf program) (directReturns program) (identifiersOf program)
              (callsOf program) initialState st" by blast
  have calls: "callExpressions st = recordedCalls ctx (callsOf program)"
    using v by (simp add: visited_def initialState_def)
  have fi: "k \<in> fst ` set (functionsOf program) \<Longrightarrow> functionInfo st k \<noteq> None" for k
    using v by (simp add: visited_def initialState_def)
  have "\<exists>b. isFixable m c s (functionInfo st) (allIdentifiers st) ctx = Inr b"
    if "(c, s) \<in> set (callExpressions st)" for c s
  proof -
    have "c \<in> set (callsOf program)" using that calls by (auto simp: recordedCalls_def)
    then show ?thesis using assms(2) fi by (intro isFixable_defined) blast
  qed
  then have "reportProblems m ctx st (callExpressions st) =
           Inr (map (\<lambda>(c, s).
                  \<lparr>problem_node = property (callee c), messageId = MESSAGE_ID,
                   problem_fix =
                     (if isFixable m c s (functionInfo st) (allIdentifiers st) ctx = Inr True
                      then Some (getFixFunction m c (functionInfo st) ctx) else None)\<rparr>)
                (callExpressions st))"
    by (rule reportProblems_map)
  then have "runRule m ctx program =
               Inr (map (\<lambda>c.
                      \<lparr>problem_node = property (callee c), messageId = MESSAGE_ID,
                       problem_fix =
                         (if isFixable m c (getScope ctx (call_id c)) (functionInfo st)
                               (allIdentifiers st) ctx = Inr True
                          then Some (getFixFunction m c (functionInfo st) ctx)
                          else None)\<rparr>)
                    (filter (\<lambda>c. \<not> isNodeMatches (obj_expr (object (callee c))) ignoredObjects)
                       (callsOf program)))"
    using t by (simp add: runRule_def programExit_def calls recordedCalls_def comp_def)
  then show ?thesis using t by blast
qed

text \<open>
  On the example file: three matched calls, the second on an allowlisted receiver; two
  diagnostics, the first without a patch (a return inside a loop), the second with one.
\<close>

theorem rule_reports_each_call_witness:
  "runRule sampleModules sampleContext sampleProgram = Inr sampleProblems
   \<and> callsOf sampleProgram = [sampleCall1, sampleCall2, sampleCall3]
   \<and> isNodeMatches (obj_expr (object (callee sampleCall2))) ignoredObjects
   \<and> (\<exists>ps. runRule sampleModules sampleContext sampleProgram = Inr ps
           \<and> map problem_node ps = [property (callee sampleCall1), property (callee sampleCall3)])"
proof -
  have d: "distinct (map fst (functionsOf sampleProgram))"
    by (simp add: sample_functions)
  have r: "\<forall>c \<in> set (callsOf sampleProgram). \<forall>cb.
             arguments c = [cb] \<longrightarrow>
             arg_type cb = ''FunctionExpression'' \<or> arg_type cb = ''ArrowFunctionExpression'' \<longrightarrow>
             arg_id cb \<in> fst ` set (functionsOf sampleProgram)"
    by (auto simp: sample_calls sample_functions sampleCall1_def sampleCall2_def sampleCall3_def
          sampleCallback1_def sampleCallback2_def sampleCallback3_def)
  have i: "isNodeMatches (obj_expr (object (callee sampleCall2))) ignoredObjects"
    by code_simp
  from rule_reports_each_call[OF d r, of sampleContext sampleModules]
  have "\<exists>ps. runRule sampleModules sampleContext sampleProgram = Inr ps
           \<and> map problem_node ps = [property (callee sampleCall1), property (callee sampleCall3)]"
    unfolding sample_calls sample_ignored by (auto simp: comp_def)
  then show ?thesis using sample_run sample_calls i by simp
qed

section \<open>C2: what the parameter check rejects\<close>

text \<open>
  Claim C2 says that the fixability analysis rejects a call site exactly when some callback
  parameter name, referenced outside the callback but within the range of the
  iterated-source expression, resolves to a binding in a scope other than the callback's
  own scope or one of its descendants. In \<^verbatim>\<open>foo.map(x => x).forEach(x => {})\<close> the
  \<^verbatim>\<open>x\<close> in the receiver is such a reference (it resolves to the parameter of the first
  arrow function), and yet the parameter check passes and the call site is fixable: the
  check looks for bindings in the scope of the call or above it.
\<close>

theorem parameter_capture_counterexample:
  "specParameterCaptured chainedModules chainedContext chainedCall chainedCallback globalScope
     chainedScope2 chainedIdentifiers
   \<and> isFunctionParametersSafeToFix chainedModules chainedContext chainedCallback globalScope
       (call_range chainedCall) chainedIdentifiers
   \<and> isFixable chainedModules chainedCall globalScope chainedInfo chainedIdentifiers
       chainedContext = Inr True"
  by code_simp

text \<open>
  Claim C2, amended. The parameter check fails exactly when some variable the callback
  declares has not exactly one definition, or some collected identifier that bears the
  name of a callback parameter and lies within the range it is given is unresolved or
  resolves to a binding whose scope is the scope of the call or one of the scopes above
  it. Collected identifiers outside that range do not affect the decision. The fixability
  analysis gives the check the range of the whole call expression, and rejects the call
  site whenever the check fails.
\<close>

theorem parameter_safety_characterised:
  "(isFunctionParametersSafeToFix m ctx callback scope array ids
      \<longleftrightarrow> \<not> (\<exists>v \<in> set (getDeclaredVariables ctx (arg_id callback)).
                length (defs v) \<noteq> 1
                \<or> (def_type (hd (defs v)) = ''Parameter''
                    \<and> (\<exists>i \<in> set ids.
                          id_name i = def_name (hd (defs v))
                          \<and> withinRange (id_range i) array
                          \<and> (case findVariable m scope i of
                                None \<Rightarrow> True
                              | Some w \<Rightarrow>
                                  scope_id (var_scope w) \<in> scope_id ` set (scopeChain scope))))))
   \<and> (filter (\<lambda>i. withinRange (id_range i) array) ids
        = filter (\<lambda>i. withinRange (id_range i) array) ids'
       \<longrightarrow> isFunctionParametersSafeToFix m ctx callback scope array ids
           = isFunctionParametersSafeToFix m ctx callback scope array ids')
   \<and> (arguments callExpression = [callback]
        \<and> \<not> isFunctionParametersSafeToFix m ctx callback scope (call_range callExpression) ids
       \<longrightarrow> isFixable m callExpression scope fi ids ctx = Inr False)"
proof (intro conjI impI)
  show "isFunctionParametersSafeToFix m ctx callback scope array ids
      \<longleftrightarrow> \<not> (\<exists>v \<in> set (getDeclaredVariables ctx (arg_id callback)).
                length (defs v) \<noteq> 1
                \<or> (def_type (hd (defs v)) = ''Parameter''
                    \<and> (\<exists>i \<in> set ids.
                          id_name i = def_name (hd (defs v))
                          \<and> withinRange (id_range i) array
                          \<and> (case findVariable m scope i of
                                None \<Rightarrow> True
                              | Some w \<Rightarrow>
                                  scope_id (var_scope w) \<in> scope_id ` set (scopeChain scope)))))"
    unfolding isFunctionParametersSafeToFix_def variablesSafe_iff identifiersSafe_iff by auto
next
  assume f: "filter (\<lambda>i. withinRange (id_range i) array) ids
        = filter (\<lambda>i. withinRange (id_range i) array) ids'"
  have "identifiersSafe m scope array name ids = identifiersSafe m scope array name ids'" for name
    using identifiersSafe_filter[of m scope array name ids]
          identifiersSafe_filter[of m scope array name ids'] f by simp
  then show "isFunctionParametersSafeToFix m ctx callback scope array ids
           = isFunctionParametersSafeToFix m ctx callback scope array ids'"
    unfolding isFunctionParametersSafeToFix_def variablesSafe_iff by simp
next
  assume "arguments callExpression = [callback]
        \<and> \<not> isFunctionParametersSafeToFix m ctx callback scope (call_range callExpression) ids"
  then show "isFixable m callExpression scope fi ids ctx = Inr False"
    using isFixable_unsafe by blast
qed

text \<open>
  On \<^verbatim>\<open>x.forEach(x => {})\<close> with an undeclared receiver: the check fails and the call
  site is rejected, and an identifier \<^verbatim>\<open>x\<close> outside the call changes nothing.
\<close>

theorem parameter_safety_characterised_witness:
  "\<not> isFunctionParametersSafeToFix plainModules shadowingContext
       shadowingCallback globalScope (call_range shadowingCall) shadowingIdentifiers
   \<and> isFixable plainModules shadowingCall globalScope shadowingInfo
       shadowingIdentifiers shadowingContext = Inr False
   \<and> isFunctionParametersSafeToFix plainModules shadowingContext
       shadowingCallback globalScope (call_range shadowingCall)
       (\<lparr>id_node = 9, id_name = ''x'', id_range = (30, 31)\<rparr> # shadowingIdentifiers)
     = isFunctionParametersSafeToFix plainModules shadowingContext
       shadowingCallback globalScope (call_range shadowingCall) shadowingIdentifiers"
proof -
  have u: "\<not> isFunctionParametersSafeToFix plainModules shadowingContext
       shadowingCallback globalScope (call_range shadowingCall) shadowingIdentifiers"
    by code_simp
  have a: "arguments shadowingCall = [shadowingCallback]" by (simp add: shadowingCall_def)
  have f: "filter (\<lambda>i. withinRange (id_range i) (call_range shadowingCall))
             (\<lparr>id_node = 9, id_name = ''x'', id_range = (30, 31)\<rparr> # shadowingIdentifiers)
           = filter (\<lambda>i. withinRange (id_range i) (call_range shadowingCall)) shadowingIdentifiers"
    by (simp add: shadowingCall_def withinRange_def)
  from parameter_safety_characterised[of plainModules shadowingContext
         shadowingCallback globalScope "call_range shadowingCall"
         "\<lparr>id_node = 9, id_name = ''x'', id_range = (30, 31)\<rparr> # shadowingIdentifiers"
         shadowingIdentifiers shadowingCall shadowingInfo]
       parameter_safety_characterised[of plainModules shadowingContext
         shadowingCallback globalScope "call_range shadowingCall" shadowingIdentifiers
         shadowingIdentifiers shadowingCall shadowingInfo]
  show ?thesis using u a f by blast
qed

section \<open>C3: the guard of a null-safe call\<close>

text \<open>
  Claim C3. For every fixable call site using the null-safe form, the fix wraps the loop
  in a guard that checks the receiver for non-null and non-undefined and skips the loop
  when the receiver is absent. The rule's code does not do so for a receiver that is not
  an identifier: on \<^verbatim>\<open>a.b?.forEach(x => { f(x); });\<close> the rule reports the call with a
  fix whose guard is \<^verbatim>\<open>if (undefined) {\<close>, where the receiver's text is \<^verbatim>\<open>a.b\<close>; the
  rewritten loop never runs.
\<close>

theorem guard_ignores_member_receiver:
  "runRule memberModules memberContext memberProgram
     = Inr [\<lparr>problem_node = \<lparr>ref_id = 8, ref_range = (5, 12)\<rparr>,
             messageId = ''no-array-for-each'',
             problem_fix = Some (Inr memberEdits)\<rparr>]
   \<and> memberEdits ! 3 = \<lparr>edit_range = (0, 0), edit_text = ''if (undefined) {\<newline>''\<rparr>
   \<and> getText (getSourceCode memberContext) (obj_range (object (callee memberCall))) = ''a.b''"
  by code_simp

section \<open>C4: the shape of the loop head\<close>

text \<open>
  Claim C4. For every fixable call site (the callback being its only argument, and every
  reference to a variable it declares having a parent node), the callback has one or two
  parameters and the loop head is computed without an exception. With one parameter it
  binds that parameter's text; with two it binds the destructured pair of the second
  (index) and then the first (element) parameter's text, and the iterated expression gains
  \<^verbatim>\<open>.entries()\<close>. The receiver's source text is reproduced as it is, wrapped in
  parentheses exactly when it was parenthesized.
\<close>

theorem loop_head_shape:
  assumes "isFixable m callExpression scope fi ids ctx = Inr True"
      and "arguments callExpression = [callback]"
      and "\<forall>v \<in> set (getDeclaredVariables ctx (arg_id callback)).
             \<forall>r \<in> set (references v). parent (ref_identifier r) \<noteq> None"
  shows "(length (params callback) = 1 \<or> length (params callback) = 2)
       \<and> (\<exists>reassigned.
             isFunctionParameterVariableReassigned ctx callback = Inr reassigned
             \<and> (\<forall>element. params callback = [element] \<longrightarrow>
                   getForOfLoopHeadText m ctx callExpression callback =
                     Inr (''for ('' @ (if reassigned then ''let'' else ''const'') @ '' ''
                          @ getText (getSourceCode ctx) (param_range element)
                          @ '' of ''
                          @ (if isParenthesized m (obj_id (object (callee callExpression)))
                             then ''('' @ getText (getSourceCode ctx)
                                           (obj_range (object (callee callExpression))) @ '')''
                             else getText (getSourceCode ctx)
                                    (obj_range (object (callee callExpression))))
                          @ '') ''))
             \<and> (\<forall>element index. params callback = [element, index] \<longrightarrow>
                   getForOfLoopHeadText m ctx callExpression callback =
                     Inr (''for ('' @ (if reassigned then ''let'' else ''const'') @ '' ''
                          @ ''['' @ getText (getSourceCode ctx) (param_range index) @ '', ''
                          @ getText (getSourceCode ctx) (param_range element) @ '']''
                          @ '' of ''
                          @ (if isParenthesized m (obj_id (object (callee callExpression)))
                             then ''('' @ getText (getSourceCode ctx)
                                           (obj_range (object (callee callExpression))) @ '')''
                             else getText (getSourceCode ctx)
                                    (obj_range (object (callee callExpression))))
                          @ ''.entries()'' @ '') '')))"
proof -
  obtain reassigned where r: "isFunctionParameterVariableReassigned ctx callback = Inr reassigned"
    using fixable_reassigned[OF assms] by blast
  have one: "getForOfLoopHeadText m ctx callExpression callback =
                     Inr (''for ('' @ (if reassigned then ''let'' else ''const'') @ '' ''
                          @ getText (getSourceCode ctx) (param_range element)
                          @ '' of ''
                          @ (if isParenthesized m (obj_id (object (callee callExpression)))
                             then ''('' @ getText (getSourceCode ctx)
                                           (obj_range (object (callee callExpression))) @ '')''
                             else getText (getSourceCode ctx)
                                    (obj_range (object (callee callExpression))))
                          @ '') '')"
    if "params callback = [element]" for element
    using that r by (simp add: getForOfLoopHeadText_def js_string_def Let_def)
  have two: "getForOfLoopHeadText m ctx callExpression callback =
                     Inr (''for ('' @ (if reassigned then ''let'' else ''const'') @ '' ''
                          @ ''['' @ getText (getSourceCode ctx) (param_range index) @ '', ''
                          @ getText (getSourceCode ctx) (param_range element) @ '']''
                          @ '' of ''
                          @ (if isParenthesized m (obj_id (object (callee callExpression)))
                             then ''('' @ getText (getSourceCode ctx)
                                           (obj_range (object (callee callExpression))) @ '')''
                             else getText (getSourceCode ctx)
                                    (obj_range (object (callee callExpression))))
                          @ ''.entries()'' @ '') '')"
    if "params callback = [element, index]" for element index
    using that r by (simp add: getForOfLoopHeadText_def js_string_def Let_def)
  show ?thesis
    using isFixable_True_params[OF assms(1,2)] r one two by blast
qed

text \<open>
  On \<^verbatim>\<open>list.forEach((x, i) => { x = i; })\<close> and on
  \<^verbatim>\<open>items.forEach(z => { g(z); })\<close>.
\<close>

theorem loop_head_shape_witness:
  "params indexedCallback = [identifierParameter 14 15, identifierParameter 17 18]
   \<and> getText (getSourceCode indexedContext) (14, 15) = ''x''
   \<and> getText (getSourceCode indexedContext) (17, 18) = ''i''
   \<and> getText (getSourceCode indexedContext) (obj_range (object (callee indexedCall))) = ''list''
   \<and> getForOfLoopHeadText indexedModules indexedContext indexedCall indexedCallback
       = Inr ''for (let [i, x] of list.entries()) ''
   \<and> (\<exists>reassigned.
         isFunctionParameterVariableReassigned indexedContext indexedCallback = Inr reassigned
         \<and> getForOfLoopHeadText indexedModules indexedContext indexedCall indexedCallback
             = Inr (''for ('' @ (if reassigned then ''let'' else ''const'') @ '' ''
                    @ ''['' @ getText (getSourceCode indexedContext) (17, 18) @ '', ''
                    @ getText (getSourceCode indexedContext) (14, 15) @ '']''
                    @ '' of ''
                    @ getText (getSourceCode indexedContext)
                        (obj_range (object (callee indexedCall)))
                    @ ''.entries()'' @ '') ''))
   \<and> params sampleCallback3 = [identifierParameter 125 126]
   \<and> getForOfLoopHeadText sampleModules sampleContext sampleCall3 sampleCallback3
       = Inr ''for (const z of items) ''
   \<and> (\<exists>reassigned.
         isFunctionParameterVariableReassigned sampleContext sampleCallback3 = Inr reassigned
         \<and> getForOfLoopHeadText sampleModules sampleContext sampleCall3 sampleCallback3
             = Inr (''for ('' @ (if reassigned then ''let'' else ''const'') @ '' ''
                    @ getText (getSourceCode sampleContext) (125, 126)
                    @ '' of ''
                    @ getText (getSourceCode sampleContext)
                        (obj_range (object (callee sampleCall3)))
                    @ '') ''))"
proof -
  have sa: "arguments sampleCall3 = [sampleCallback3]" by (simp add: sampleCall3_def)
  have sp: "params sampleCallback3 = [identifierParameter 125 126]"
    by (simp add: sampleCallback3_def)
  have snp: "\<not> isParenthesized sampleModules (obj_id (object (callee sampleCall3)))"
    by (simp add: sampleModules_def exampleModules_def)
  from loop_head_shape[OF sample_fixable sa sample_parents]
  have one: "\<exists>reassigned.
         isFunctionParameterVariableReassigned sampleContext sampleCallback3 = Inr reassigned
         \<and> getForOfLoopHeadText sampleModules sampleContext sampleCall3 sampleCallback3
             = Inr (''for ('' @ (if reassigned then ''let'' else ''const'') @ '' ''
                    @ getText (getSourceCode sampleContext) (125, 126)
                    @ '' of ''
                    @ getText (getSourceCode sampleContext)
                        (obj_range (object (callee sampleCall3)))
                    @ '') '')"
    using sp snp by (auto simp: identifierParameter_def)
  have a: "arguments indexedCall = [indexedCallback]" by (simp add: indexedCall_def)
  have p: "params indexedCallback = [identifierParameter 14 15, identifierParameter 17 18]"
    by (simp add: indexedCallback_def)
  have np: "\<not> isParenthesized indexedModules (obj_id (object (callee indexedCall)))"
    by (simp add: indexedModules_def exampleModules_def)
  have t: "getText (getSourceCode indexedContext) (14, 15) = ''x''"
      "getText (getSourceCode indexedContext) (17, 18) = ''i''"
      "getText (getSourceCode indexedContext) (obj_range (object (callee indexedCall))) = ''list''"
    by code_simp+
  from loop_head_shape[OF indexed_fixable a indexed_parents]
  have two: "\<exists>reassigned.
         isFunctionParameterVariableReassigned indexedContext indexedCallback = Inr reassigned
         \<and> getForOfLoopHeadText indexedModules indexedContext indexedCall indexedCallback
             = Inr (''for ('' @ (if reassigned then ''let'' else ''const'') @ '' ''
                    @ ''['' @ getText (getSourceCode indexedContext) (17, 18) @ '', ''
                    @ getText (getSourceCode indexedContext) (14, 15) @ '']''
                    @ '' of ''
                    @ getText (getSourceCode indexedContext)
                        (obj_range (object (callee indexedCall)))
                    @ ''.entries()'' @ '') '')"
    using p np by (auto simp: identifierParameter_def)
  show ?thesis using p t indexed_head two sp sample_head one by blast
qed

section \<open>C5: the edits of a return statement\<close>

text \<open>
  Claim C5 says, among other things, that when the return is the sole statement-form
  branch of an \<^verbatim>\<open>if\<close> or the body of a \<^verbatim>\<open>with\<close> statement, the replacement is
  additionally wrapped in a block. In
  \<^verbatim>\<open>list.forEach(x => { if (x) return; console.log(x); })\<close> the value-less return is
  the consequent of the \<^verbatim>\<open>if\<close>, and its only edit replaces the keyword by
  \<^verbatim>\<open>continue\<close>: no block is opened or closed.
\<close>

theorem valueless_return_counterexample:
  "shouldSwitchReturnStatementToBlockStatement conditionalReturn = Inr True
   \<and> argument conditionalReturn = None
   \<and> replaceReturnStatement plainModules conditionalContext conditionalReturn
       = Inr [\<lparr>edit_range = (27, 33), edit_text = ''continue''\<rparr>]
   \<and> \<not> blockWrapped conditionalReturn [\<lparr>edit_range = (27, 33), edit_text = ''continue''\<rparr>]"
  by code_simp

text \<open>
  Claim C5, amended. For a return statement whose first token is the keyword: a value-less
  return is replaced by \<^verbatim>\<open>continue\<close>, and nothing else is edited. A value-bearing
  return (with a parent and a token after the keyword) has the keyword removed; the
  expression wrapped in parentheses exactly when it is not parenthesized and the helper
  asks for them; before the expression a block is opened when the return is the
  consequent or alternate of an \<^verbatim>\<open>if\<close> or the body of a \<^verbatim>\<open>with\<close>, and otherwise a
  semicolon is inserted when the helper requires one; a semicolon is appended when the
  statement did not end with one; \<^verbatim>\<open>continue;\<close> is appended; and the block, when
  opened, is closed.
\<close>

theorem return_statement_edits:
  assumes "tok_value (getFirstToken (getSourceCode ctx) (node_range returnStatement)) = ''return''"
  shows "(argument returnStatement = None \<longrightarrow>
            replaceReturnStatement m ctx returnStatement =
              Inr [fixer_replaceText
                     (tok_range (getFirstToken (getSourceCode ctx) (node_range returnStatement)))
                     ''continue''])
       \<and> (\<forall>arg nextToken p.
             argument returnStatement = Some arg
             \<and> getTokenAfter (getSourceCode ctx)
                  (tok_range (getFirstToken (getSourceCode ctx) (node_range returnStatement)))
                = Some nextToken
             \<and> parent returnStatement = Some p \<longrightarrow>
             (let returnToken = getFirstToken (getSourceCode ctx) (node_range returnStatement);
                  previousToken =
                    getTokenBefore (getSourceCode ctx) (tok_range returnToken) (\<lambda>t. True);
                  parentheses =
                    (\<not> isParenthesized m (ref_id arg)
                     \<and> shouldAddParenthesesToExpressionStatementExpression m (ref_id arg));
                  braces =
                    ((node_type p = ''IfStatement''
                      \<and> (consequent p = Some (node_id returnStatement)
                          \<or> alternate p = Some (node_id returnStatement)))
                     \<or> (node_type p = ''WithStatement''
                         \<and> body_ref p = Some (node_id returnStatement)));
                  textBefore =
                    (if braces then ''{ ''
                     else if needsSemicolon m previousToken
                               (if parentheses then ''('' else tok_value nextToken)
                     then '';'' else [])
                    @ (if parentheses then ''('' else [])
              in replaceReturnStatement m ctx returnStatement =
                   Inr ([fixer_remove (tok_range returnToken)]
                        @ (if textBefore \<noteq> []
                           then [fixer_insertTextBefore (tok_range nextToken) textBefore]
                           else [])
                        @ (if parentheses then [fixer_insertTextAfter (ref_range arg) '')'']
                           else [])
                        @ (if \<not> isSemicolonToken
                                  (getLastToken (getSourceCode ctx) (node_range returnStatement))
                           then [fixer_insertTextAfter (node_range returnStatement) '';'']
                           else [])
                        @ [fixer_insertTextAfter (node_range returnStatement) '' continue;'']
                        @ (if braces
                           then [fixer_insertTextAfter (node_range returnStatement) '' }'']
                           else []))))"
proof (intro conjI allI impI)
  assume "argument returnStatement = None"
  then show "replaceReturnStatement m ctx returnStatement =
              Inr [fixer_replaceText
                     (tok_range (getFirstToken (getSourceCode ctx) (node_range returnStatement)))
                     ''continue'']"
    using assms by (simp add: replaceReturnStatement_def Let_def)
next
  fix arg nextToken p
  assume h: "argument returnStatement = Some arg
             \<and> getTokenAfter (getSourceCode ctx)
                  (tok_range (getFirstToken (getSourceCode ctx) (node_range returnStatement)))
                = Some nextToken
             \<and> parent returnStatement = Some p"
  then have sw: "shouldSwitchReturnStatementToBlockStatement returnStatement =
     Inr ((node_type p = ''IfStatement''
           \<and> (consequent p = Some (node_id returnStatement)
                \<or> alternate p = Some (node_id returnStatement)))
          \<or> (node_type p = ''WithStatement'' \<and> body_ref p = Some (node_id returnStatement)))"
    by (simp add: shouldSwitch_parent)
  show "(let returnToken = getFirstToken (getSourceCode ctx) (node_range returnStatement);
                  previousToken =
                    getTokenBefore (getSourceCode ctx) (tok_range returnToken) (\<lambda>t. True);
                  parentheses =
                    (\<not> isParenthesized m (ref_id arg)
                     \<and> shouldAddParenthesesToExpressionStatementExpression m (ref_id arg));
                  braces =
                    ((node_type p = ''IfStatement''
                      \<and> (consequent p = Some (node_id returnStatement)
                          \<or> alternate p = Some (node_id returnStatement)))
                     \<or> (node_type p = ''WithStatement''
                         \<and> body_ref p = Some (node_id returnStatement)));
                  textBefore =
                    (if braces then ''{ ''
                     else if needsSemicolon m previousToken
                               (if parentheses then ''('' else tok_value nextToken)
                     then '';'' else [])
                    @ (if parentheses then ''('' else [])
              in replaceReturnStatement m ctx returnStatement =
                   Inr ([fixer_remove (tok_range returnToken)]
                        @ (if textBefore \<noteq> []
                           then [fixer_insertTextBefore (tok_range nextToken) textBefore]
                           else [])
                        @ (if parentheses then [fixer_insertTextAfter (ref_range arg) '')'']
                           else [])
                        @ (if \<not> isSemicolonToken
                                  (getLastToken (getSourceCode ctx) (node_range returnStatement))
                           then [fixer_insertTextAfter (node_range returnStatement) '';'']
                           else [])
                        @ [fixer_insertTextAfter (node_range returnStatement) '' continue;'']
                        @ (if braces
                           then [fixer_insertTextAfter (node_range returnStatement) '' }'']
                           else [])))"
    unfolding Let_def
    using replaceReturnStatement_valued[OF assms _ _ sw refl, of arg nextToken m] h
    by simp
qed

text \<open>
  On \<^verbatim>\<open>list.forEach(x => { if (x) return f(x); })\<close> and on
  \<^verbatim>\<open>list.forEach(x => { if (x) return; console.log(x); })\<close>.
\<close>

theorem return_statement_edits_witness:
  "tok_value (getFirstToken (getSourceCode valuedContext) (node_range valuedReturn)) = ''return''
   \<and> argument valuedReturn = Some \<lparr>ref_id = 12, ref_range = (34, 38)\<rparr>
   \<and> map_option node_type (parent valuedReturn) = Some ''IfStatement''
   \<and> replaceReturnStatement plainModules valuedContext valuedReturn
       = Inr [\<lparr>edit_range = (27, 33), edit_text = []\<rparr>,
              \<lparr>edit_range = (34, 34), edit_text = ''{ ''\<rparr>,
              \<lparr>edit_range = (39, 39), edit_text = '' continue;''\<rparr>,
              \<lparr>edit_range = (39, 39), edit_text = '' }''\<rparr>]
   \<and> argument conditionalReturn = None
   \<and> replaceReturnStatement plainModules conditionalContext conditionalReturn
       = Inr [\<lparr>edit_range = (27, 33), edit_text = ''continue''\<rparr>]"
proof -
  have cr: "tok_value (getFirstToken (getSourceCode conditionalContext)
                        (node_range conditionalReturn)) = ''return''"
    by (simp add: conditional_range conditional_token keywordToken_def)
  have ca: "argument conditionalReturn = None"
    by (simp add: conditionalReturn_def plainNode_def)
  from return_statement_edits[OF cr, of plainModules] ca
  have "replaceReturnStatement plainModules conditionalContext conditionalReturn
        = Inr [fixer_replaceText
                 (tok_range (getFirstToken (getSourceCode conditionalContext)
                               (node_range conditionalReturn)))
                 ''continue'']"
    by blast
  then have c: "replaceReturnStatement plainModules conditionalContext conditionalReturn
       = Inr [\<lparr>edit_range = (27, 33), edit_text = ''continue''\<rparr>]"
    by (simp add: conditional_range conditional_token keywordToken_def fixer_replaceText_def
          fixer_replaceTextRange_def)
  have r: "tok_value (getFirstToken (getSourceCode valuedContext) (node_range valuedReturn))
           = ''return''"
    by (simp add: valued_range valued_tokens keywordToken_def)
  have a: "argument valuedReturn = Some \<lparr>ref_id = 12, ref_range = (34, 38)\<rparr>"
    by (simp add: valuedReturn_def)
  have n: "getTokenAfter (getSourceCode valuedContext)
             (tok_range (getFirstToken (getSourceCode valuedContext) (node_range valuedReturn)))
           = Some (identifierToken ''f'' 34 35)"
    by (simp add: valued_range valued_tokens keywordToken_def)
  obtain p where p: "parent valuedReturn = Some p" and pt: "node_type p = ''IfStatement''"
    and pc: "consequent p = Some (node_id valuedReturn)"
    by (simp add: valuedReturn_def)
  have ni: "node_id valuedReturn = 11" by (simp add: valuedReturn_def)
  from return_statement_edits[OF r, of plainModules] a n p
  have "(let returnToken = getFirstToken (getSourceCode valuedContext) (node_range valuedReturn);
             previousToken =
               getTokenBefore (getSourceCode valuedContext) (tok_range returnToken) (\<lambda>t. True);
             parentheses =
               (\<not> isParenthesized plainModules (ref_id \<lparr>ref_id = 12, ref_range = (34, 38)\<rparr>)
                \<and> shouldAddParenthesesToExpressionStatementExpression plainModules
                     (ref_id \<lparr>ref_id = 12, ref_range = (34, 38)\<rparr>));
             braces =
               ((node_type p = ''IfStatement''
                 \<and> (consequent p = Some (node_id valuedReturn)
                     \<or> alternate p = Some (node_id valuedReturn)))
                \<or> (node_type p = ''WithStatement'' \<and> body_ref p = Some (node_id valuedReturn)));
             textBefore =
               (if braces then ''{ ''
                else if needsSemicolon plainModules previousToken
                          (if parentheses then ''('' else tok_value (identifierToken ''f'' 34 35))
                then '';'' else [])
               @ (if parentheses then ''('' else [])
         in replaceReturnStatement plainModules valuedContext valuedReturn =
              Inr ([fixer_remove (tok_range returnToken)]
                   @ (if textBefore \<noteq> []
                      then [fixer_insertTextBefore (tok_range (identifierToken ''f'' 34 35))
                              textBefore]
                      else [])
                   @ (if parentheses
                      then [fixer_insertTextAfter
                              (ref_range \<lparr>ref_id = 12, ref_range = (34, 38)\<rparr>) '')'']
                      else [])
                   @ (if \<not> isSemicolonToken
                             (getLastToken (getSourceCode valuedContext)
                                (node_range valuedReturn))
                      then [fixer_insertTextAfter (node_range valuedReturn) '';'']
                      else [])
                   @ [fixer_insertTextAfter (node_range valuedReturn) '' continue;'']
                   @ (if braces
                      then [fixer_insertTextAfter (node_range valuedReturn) '' }'']
                      else [])))"
    by blast
  then have "replaceReturnStatement plainModules valuedContext valuedReturn
       = Inr [\<lparr>edit_range = (27, 33), edit_text = []\<rparr>,
              \<lparr>edit_range = (34, 34), edit_text = ''{ ''\<rparr>,
              \<lparr>edit_range = (39, 39), edit_text = '' continue;''\<rparr>,
              \<lparr>edit_range = (39, 39), edit_text = '' }''\<rparr>]"
    using pt pc
    by (simp add: Let_def valued_range valued_tokens plainModules_def exampleModules_def keywordToken_def
          identifierToken_def punctuator_def isSemicolonToken_def isPunctuatorTokenWithValue_def
          fixer_remove_def fixer_insertTextBefore_def fixer_insertTextBeforeRange_def
          fixer_insertTextAfter_def fixer_insertTextAfterRange_def)
  then show ?thesis using r a p pt ca c by simp
qed

section \<open>C6: a return inside a loop makes the call site unfixable\<close>

text \<open>
  Claim C6 says that if any return statement inside the callback has, strictly between
  itself and the callback function, an ancestor that is a \<^verbatim>\<open>while\<close>, \<^verbatim>\<open>do-while\<close>,
  \<^verbatim>\<open>for\<close>, \<^verbatim>\<open>for-of\<close> or \<^verbatim>\<open>for-in\<close> statement, then the call site is classified
  unfixable and is reported with a diagnostic that carries no patch. In
  \<^verbatim>\<open>list.forEach(x => { for (;;) { g(function () { return; }); } });\<close> the return
  statement lies inside the callback, with the \<^verbatim>\<open>for\<close> statement strictly between itself
  and the callback; it is the return of a function nested in the callback, the traversal
  records it for that function, and the call site is fixable and reported with a patch.
\<close>

theorem nested_return_counterexample:
  "nestedFor \<in> set (ancestorsBetween nestedReturn (arg_id nestedCallback))
   \<and> node_type nestedFor = ''ForStatement''
   \<and> withinRange (node_range nestedReturn) (body_range (body nestedCallback))
   \<and> isFixable plainModules nestedCall globalScope nestedInfo (identifiersOf nestedProgram)
        nestedContext = Inr True
   \<and> runRule plainModules nestedContext nestedProgram
       = Inr [\<lparr>problem_node = \<lparr>ref_id = 5, ref_range = (5, 12)\<rparr>,
               messageId = ''no-array-for-each'',
               problem_fix = Some (Inr nestedEdits)\<rparr>]"
  by code_simp

text \<open>
  Claim C6, amended. If a return statement collected for the callback (a return statement
  whose immediately enclosing function is the callback, and not one of a function nested in
  it) has, strictly between itself and the callback function, an ancestor that is a
  \<^verbatim>\<open>while\<close>, \<^verbatim>\<open>do-while\<close>, \<^verbatim>\<open>for\<close>, \<^verbatim>\<open>for-of\<close> or \<^verbatim>\<open>for-in\<close> statement, then the
  call site is classified unfixable and is reported with a diagnostic that carries no
  patch.
\<close>

theorem return_in_loop_unfixable:
  assumes "arguments callExpression = [callback]"
      and "functionInfo st (arg_id callback) = Some info"
      and "returnStatement \<in> set (returnStatements info)"
      and "ancestor \<in> set (ancestorsBetween returnStatement (arg_id callback))"
      and "node_type ancestor \<in> {''WhileStatement'', ''DoWhileStatement'', ''ForStatement'',
             ''ForOfStatement'', ''ForInStatement''}"
  shows "isFixable m callExpression scope (functionInfo st) (allIdentifiers st) ctx = Inr False
         \<and> reportProblem m ctx st (callExpression, scope)
             = Inr \<lparr>problem_node = property (callee callExpression), messageId = MESSAGE_ID,
                    problem_fix = None\<rparr>"
proof -
  have "ancestor \<in> set (nodesUpTo returnStatement (arg_id callback))"
    using assms(4) by (simp add: ancestorsBetween_def set_tl_subset)
  moreover have "node_type ancestor \<in> set continueAbleNodeTypes"
    using assms(5) by (simp add: continueAbleNodeTypes_def)
  ultimately have "isReturnStatementInContinueAbleNodes returnStatement (arg_id callback)"
    unfolding inContinueAble_iff list_ex_iff by blast
  then have "list_ex (\<lambda>rs. isReturnStatementInContinueAbleNodes rs (arg_id callback))
               (returnStatements info)"
    using assms(3) unfolding list_ex_iff by blast
  then have fx: "isFixable m callExpression scope (functionInfo st) (allIdentifiers st) ctx
                 = Inr False"
    using assms(1,2) by (rule isFixable_return_in_loop[rotated 2])
  then show ?thesis by (simp add: reportProblem_def)
qed

text \<open>On the example file: the first call, whose callback returns inside a \<^verbatim>\<open>for\<close> loop.\<close>

theorem return_in_loop_unfixable_witness:
  "sampleFor \<in> set (ancestorsBetween sampleLoopReturn (arg_id sampleCallback1))
   \<and> node_type sampleFor = ''ForStatement''
   \<and> (\<exists>st. traverse sampleContext False sampleProgram initialState = Inr st
          \<and> sampleLoopReturn \<in> set (returnStatements (the (functionInfo st 6)))
          \<and> isFixable sampleModules sampleCall1 globalScope (functionInfo st)
               (allIdentifiers st) sampleContext = Inr False
          \<and> reportProblem sampleModules sampleContext st (sampleCall1, globalScope)
              = Inr \<lparr>problem_node = \<lparr>ref_id = 5, ref_range = (5, 12)\<rparr>,
                     messageId = ''no-array-for-each'', problem_fix = None\<rparr>)"
proof -
  obtain st where st: "traverse sampleContext False sampleProgram initialState = Inr st"
    and i6: "functionInfo st 6
             = Some \<lparr>returnStatements = [sampleLoopReturn], info_scope = sampleScopeX\<rparr>"
    using sample_traverse_info
    by (cases "traverse sampleContext False sampleProgram initialState") auto
  have a: "arguments sampleCall1 = [sampleCallback1]" by (simp add: sampleCall1_def)
  have i: "functionInfo st (arg_id sampleCallback1)
           = Some \<lparr>returnStatements = [sampleLoopReturn], info_scope = sampleScopeX\<rparr>"
    using i6 by (simp add: sampleCallback1_def)
  have b: "sampleFor \<in> set (ancestorsBetween sampleLoopReturn (arg_id sampleCallback1))"
    using sample_between by (simp add: sampleCallback1_def)
  have t: "node_type sampleFor = ''ForStatement''" by (simp add: sampleFor_def)
  have "isFixable sampleModules sampleCall1 globalScope (functionInfo st)
               (allIdentifiers st) sampleContext = Inr False
          \<and> reportProblem sampleModules sampleContext st (sampleCall1, globalScope)
              = Inr \<lparr>problem_node = property (callee sampleCall1), messageId = MESSAGE_ID,
                     problem_fix = None\<rparr>"
    using t by (intro return_in_loop_unfixable[OF a i _ b]) simp_all
  then show ?thesis using b t st i6 by (auto simp: sampleCall1_def MESSAGE_ID_def)
qed

section \<open>C7: the binding keyword of the loop head\<close>

text \<open>
  Claim C7 says that for every fixable call site the loop head uses \<^verbatim>\<open>let\<close> if and only
  if some reference to one of the callback's parameters inside the callback body is the
  direct target of an assignment expression or the operand of an increment or decrement
  expression. In \<^verbatim>\<open>list.forEach((x, i = x++) => { f(i); });\<close> the only such reference
  is the \<^verbatim>\<open>x\<close> of \<^verbatim>\<open>x++\<close>, which lies in the parameter list and not in the body; the
  call site is fixable, and the loop head of its patch uses \<^verbatim>\<open>let\<close>.
\<close>

theorem default_value_counterexample:
  "isFixable defaultedModules defaultedCall globalScope defaultedInfo
     (identifiersOf defaultedProgram) defaultedContext = Inr True
   \<and> runRule defaultedModules defaultedContext defaultedProgram
       = Inr [\<lparr>problem_node = \<lparr>ref_id = 5, ref_range = (5, 12)\<rparr>,
               messageId = ''no-array-for-each'',
               problem_fix = Some (Inr defaultedEdits)\<rparr>]
   \<and> hd defaultedEdits
       = \<lparr>edit_range = (0, 29), edit_text = ''for (let [i = x++, x] of list.entries()) ''\<rparr>
   \<and> getForOfLoopHeadText defaultedModules defaultedContext defaultedCall defaultedCallback
       = Inr ''for (let [i = x++, x] of list.entries()) ''
   \<and> \<not> specReassignedInBody defaultedContext defaultedCallback"
  by code_simp

text \<open>
  Claim C7, amended. For every fixable call site (the callback being its only argument, and
  every reference to a variable it declares having a parent node), the loop head uses
  \<^verbatim>\<open>let\<close> if and only if some reference to one of the callback's parameters, in the
  callback body or in its parameter list, is the direct target of an assignment expression
  or the operand of an increment or decrement expression; otherwise it uses \<^verbatim>\<open>const\<close>.
  The references are those the scope analysis attaches to the variables the callback
  declares with a parameter definition. In particular, such a reference inside the callback
  body gives \<^verbatim>\<open>let\<close>.
\<close>

theorem loop_head_keyword:
  assumes "isFixable m callExpression scope fi ids ctx = Inr True"
      and "arguments callExpression = [callback]"
      and "\<forall>v \<in> set (getDeclaredVariables ctx (arg_id callback)).
             \<forall>r \<in> set (references v). parent (ref_identifier r) \<noteq> None"
  shows "(\<exists>rest. getForOfLoopHeadText m ctx callExpression callback =
           Inr (''for (''
                @ (if \<exists>v \<in> set (getDeclaredVariables ctx (arg_id callback)).
                         def_type (hd (defs v)) = ''Parameter''
                         \<and> (\<exists>r \<in> set (references v). reassigns r)
                   then ''let'' else ''const'')
                @ '' '' @ rest))
       \<and> (specReassignedInBody ctx callback \<longrightarrow>
            (\<exists>rest. getForOfLoopHeadText m ctx callExpression callback =
               Inr (''for (let '' @ rest)))"
proof (intro conjI impI)
  show h: "\<exists>rest. getForOfLoopHeadText m ctx callExpression callback =
           Inr (''for (''
                @ (if \<exists>v \<in> set (getDeclaredVariables ctx (arg_id callback)).
                         def_type (hd (defs v)) = ''Parameter''
                         \<and> (\<exists>r \<in> set (references v). reassigns r)
                   then ''let'' else ''const'')
                @ '' '' @ rest)"
    using fixable_reassigned[OF assms]
    by (simp add: getForOfLoopHeadText_def Let_def)
  assume "specReassignedInBody ctx callback"
  then have "\<exists>v \<in> set (getDeclaredVariables ctx (arg_id callback)).
               def_type (hd (defs v)) = ''Parameter''
               \<and> (\<exists>r \<in> set (references v). reassigns r)"
    using assms(1,2) reassigned_in_body by blast
  with h show "\<exists>rest. getForOfLoopHeadText m ctx callExpression callback =
               Inr (''for (let '' @ rest)"
    by simp
qed

text \<open>
  On \<^verbatim>\<open>list.forEach((x, i) => { x = i; })\<close>, where \<^verbatim>\<open>x\<close> is assigned to in the body;
  on \<^verbatim>\<open>items.forEach(z => { g(z); })\<close>, where \<^verbatim>\<open>z\<close> is only read; and on
  \<^verbatim>\<open>list.forEach((x, i = x++) => { f(i); })\<close>, where \<^verbatim>\<open>x\<close> is incremented in the
  parameter list.
\<close>

theorem loop_head_keyword_witness:
  "reassigns (hd (references indexedVariableX))
   \<and> specReassignedInBody indexedContext indexedCallback
   \<and> getForOfLoopHeadText indexedModules indexedContext indexedCall indexedCallback
       = Inr ''for (let [i, x] of list.entries()) ''
   \<and> (\<exists>rest. getForOfLoopHeadText indexedModules indexedContext indexedCall indexedCallback
               = Inr (''for (let '' @ rest))
   \<and> \<not> reassigns (hd (references sampleVariableZ))
   \<and> (\<exists>rest. getForOfLoopHeadText sampleModules sampleContext sampleCall3 sampleCallback3
               = Inr (''for (const '' @ rest))
   \<and> reassigns (hd (references defaultedVariableX))
   \<and> (\<exists>rest. getForOfLoopHeadText defaultedModules defaultedContext defaultedCall
                 defaultedCallback
               = Inr (''for (let '' @ rest))"
proof -
  have sa: "arguments sampleCall3 = [sampleCallback3]" by (simp add: sampleCall3_def)
  have sr: "\<not> reassigns (hd (references sampleVariableZ))" by code_simp
  then have "\<not> (\<exists>v \<in> set (getDeclaredVariables sampleContext (arg_id sampleCallback3)).
                def_type (hd (defs v)) = ''Parameter''
                \<and> (\<exists>r \<in> set (references v). reassigns r))"
    by (simp add: sampleContext_def sampleCallback3_def sampleVariableZ_def)
  with loop_head_keyword[OF sample_fixable sa sample_parents]
  have sc: "\<exists>rest. getForOfLoopHeadText sampleModules sampleContext sampleCall3 sampleCallback3
               = Inr (''for (const '' @ rest)"
    by simp
  have a: "arguments indexedCall = [indexedCallback]" by (simp add: indexedCall_def)
  have r: "reassigns (hd (references indexedVariableX))" by code_simp
  have b: "specReassignedInBody indexedContext indexedCallback" by code_simp
  with loop_head_keyword[OF indexed_fixable a indexed_parents]
  have ic: "\<exists>rest. getForOfLoopHeadText indexedModules indexedContext indexedCall indexedCallback
               = Inr (''for (let '' @ rest)"
    by simp
  have da: "arguments defaultedCall = [defaultedCallback]" by (simp add: defaultedCall_def)
  have dr: "reassigns (hd (references defaultedVariableX))" by code_simp
  then have "\<exists>v \<in> set (getDeclaredVariables defaultedContext (arg_id defaultedCallback)).
                def_type (hd (defs v)) = ''Parameter''
                \<and> (\<exists>r \<in> set (references v). reassigns r)"
    by (simp add: defaultedContext_def defaultedCallback_def defaultedVariableX_def)
  with loop_head_keyword[OF defaulted_fixable da defaulted_parents]
  have dc: "\<exists>rest. getForOfLoopHeadText defaultedModules defaultedContext defaultedCall
                 defaultedCallback
               = Inr (''for (let '' @ rest)"
    by simp
  show ?thesis using r b indexed_head ic sr sc dr dc by simp
qed

section \<open>C8: the edits of a patch do not overlap\<close>

text \<open>
  Claim C8. For every generated patch, the edit ranges within the patch do not overlap,
  and the patch's declared range is widened to cover the enclosing statement. The rule's
  code does not keep the first part for a null-safe call whose callback has a block body
  over several lines with a return statement in it: on \<^verbatim>\<open>foo?.forEach(x => {\<close>, a
  line with \<^verbatim>\<open>return;\<close>, and \<^verbatim>\<open>});\<close>, the rule reports the call with a fix in which the edit that replaces the \<^verbatim>\<open>return\<close>
  keyword and the edit that re-indents the whole return statement overlap.
\<close>

theorem guarded_fix_overlaps:
  "runRule plainModules guardedContext guardedProgram
     = Inr [\<lparr>problem_node = \<lparr>ref_id = 8, ref_range = (5, 12)\<rparr>,
             messageId = ''no-array-for-each'',
             problem_fix = Some (Inr guardedEdits)\<rparr>]
   \<and> guardedEdits ! 2 = \<lparr>edit_range = (21, 27), edit_text = ''continue''\<rparr>
   \<and> guardedEdits ! 7 = \<lparr>edit_range = (21, 28), edit_text = CHR 0x09 # ''return;''\<rparr>
   \<and> rangesOverlap (21, 27) (21, 28)
   \<and> \<not> noOverlap guardedEdits"
  by code_simp

section \<open>C9: return statements are attributed to the function that immediately encloses them\<close>

text \<open>
  Claim C9. During traversal, the function stack guarantees that every return statement
  visited is recorded with its immediately enclosing function and never with an outer one,
  each node being visited exactly once in document order. On a tree whose function nodes
  are distinct, the traversal from the empty state ends without an exception and with an
  empty stack; the map then holds exactly the functions of the tree, each with the return
  statements it immediately encloses, in document order, and with the scope at its entry;
  and the collected identifiers are the tree's reference identifiers in document order.
\<close>

theorem traversal_attributes_returns:
  assumes "distinct (map fst (functionsOf program))"
  shows "\<exists>st. traverse ctx False program initialState = Inr st
           \<and> functionStack st = []
           \<and> allIdentifiers st = identifiersOf program
           \<and> dom (functionInfo st) = fst ` set (functionsOf program)
           \<and> (\<forall>(f, rs) \<in> set (functionsOf program).
                 functionInfo st f = Some \<lparr>returnStatements = rs, info_scope = getScope ctx f\<rparr>)"
proof -
  have "\<exists>st. traverse ctx False program initialState = Inr st
          \<and> visited ctx (functionsOf program) (directReturns program) (identifiersOf program)
              (callsOf program) initialState st"
    using assms by (intro traverse_visited) (simp_all add: initialState_def)
  then obtain st where t: "traverse ctx False program initialState = Inr st"
    and v: "visited ctx (functionsOf program) (directReturns program) (identifiersOf program)
              (callsOf program) initialState st" by blast
  have fi: "functionInfo st k =
              (if k \<in> fst ` set (functionsOf program)
               then Some \<lparr>returnStatements = the (map_of (functionsOf program) k),
                          info_scope = getScope ctx k\<rparr>
               else None)" for k
    using v by (simp add: visited_def initialState_def)
  have "functionInfo st f = Some \<lparr>returnStatements = rs, info_scope = getScope ctx f\<rparr>"
    if "(f, rs) \<in> set (functionsOf program)" for f rs
  proof -
    have "map_of (functionsOf program) f = Some rs"
      using assms that by simp
    moreover have "f \<in> fst ` set (functionsOf program)" using that by force
    ultimately show ?thesis by (simp add: fi)
  qed
  moreover have "dom (functionInfo st) = fst ` set (functionsOf program)"
    by (auto simp: fi dom_def split: if_splits)
  moreover have "functionStack st = []" "allIdentifiers st = identifiersOf program"
    using v by (simp_all add: visited_def initialState_def)
  ultimately show ?thesis using t by auto
qed

text \<open>
  On the example file: the return in the loop belongs to the first callback, the return
  of the nested function to that function and not to the second callback around it.
\<close>

theorem traversal_attributes_returns_witness:
  "\<exists>st. traverse sampleContext False sampleProgram initialState = Inr st
      \<and> map_option returnStatements (functionInfo st 6) = Some [sampleLoopReturn]
      \<and> map_option returnStatements (functionInfo st 17) = Some [sampleOuterReturn]
      \<and> map_option returnStatements (functionInfo st 23) = Some [sampleInnerReturn]
      \<and> map_option returnStatements (functionInfo st 33) = Some []
      \<and> dom (functionInfo st) = {6, 17, 23, 33}
      \<and> map id_name (allIdentifiers st)
          = [''list'', ''Children'', ''f'', ''y'', ''items'', ''g'', ''z'']"
  using traversal_attributes_returns[of sampleProgram sampleContext]
  unfolding sample_functions sample_identifiers by auto

section \<open>C10: the guard's condition is the receiver's name attribute\<close>

text \<open>
  Claim C10. The guard that wraps the loop of a null-safe call takes its condition from
  the receiver node's \<^verbatim>\<open>name\<close> attribute. The first edit of the wrapping is an insertion
  before the call: of \<^verbatim>\<open>if (n) {\<close> and a line break for a receiver that is the identifier
  \<^verbatim>\<open>n\<close>, and of \<^verbatim>\<open>if (undefined) {\<close> and a line break for a receiver that is not an
  identifier, which has no such attribute. Every fix generated for a null-safe call
  contains that insertion.
\<close>

theorem guard_condition_is_name:
  "(\<forall>n. obj_expr (object (callee callExpression)) = Identifier n \<longrightarrow>
        hd (wrapInIfStatement m ctx callExpression callback indentedString)
        = fixer_insertTextBefore (call_range callExpression) (''if ('' @ n @ '') {\<newline>''))
   \<and> ((\<forall>n. obj_expr (object (callee callExpression)) \<noteq> Identifier n) \<longrightarrow>
        hd (wrapInIfStatement m ctx callExpression callback indentedString)
        = fixer_insertTextBefore (call_range callExpression) ''if (undefined) {\<newline>'')
   \<and> (member_optional (callee callExpression)
        \<and> getFixFunction m callExpression fi ctx = Inr edits \<longrightarrow>
        (\<forall>n. obj_expr (object (callee callExpression)) = Identifier n \<longrightarrow>
           fixer_insertTextBefore (call_range callExpression) (''if ('' @ n @ '') {\<newline>'')
           \<in> set edits)
        \<and> ((\<forall>n. obj_expr (object (callee callExpression)) \<noteq> Identifier n) \<longrightarrow>
           fixer_insertTextBefore (call_range callExpression) ''if (undefined) {\<newline>''
           \<in> set edits))"
proof (intro conjI impI allI)
  fix n
  assume "obj_expr (object (callee callExpression)) = Identifier n"
  then show "hd (wrapInIfStatement m ctx callExpression callback indentedString)
        = fixer_insertTextBefore (call_range callExpression) (''if ('' @ n @ '') {\<newline>'')"
    by (rule wrapInIfStatement_identifier)
next
  assume "\<forall>n. obj_expr (object (callee callExpression)) \<noteq> Identifier n"
  then show "hd (wrapInIfStatement m ctx callExpression callback indentedString)
        = fixer_insertTextBefore (call_range callExpression) ''if (undefined) {\<newline>''"
    by (rule wrapInIfStatement_other)
next
  fix n
  assume h: "member_optional (callee callExpression)
        \<and> getFixFunction m callExpression fi ctx = Inr edits"
    and i: "obj_expr (object (callee callExpression)) = Identifier n"
  from h obtain cb where
    "hd (wrapInIfStatement m ctx callExpression cb
           (getIndentString m (parent (call_parent callExpression)))) \<in> set edits"
    using getFixFunction_guard by blast
  then show "fixer_insertTextBefore (call_range callExpression) (''if ('' @ n @ '') {\<newline>'')
           \<in> set edits"
    using i by (simp add: wrapInIfStatement_identifier)
next
  assume h: "member_optional (callee callExpression)
        \<and> getFixFunction m callExpression fi ctx = Inr edits"
    and o: "\<forall>n. obj_expr (object (callee callExpression)) \<noteq> Identifier n"
  from h obtain cb where
    "hd (wrapInIfStatement m ctx callExpression cb
           (getIndentString m (parent (call_parent callExpression)))) \<in> set edits"
    using getFixFunction_guard by blast
  then show "fixer_insertTextBefore (call_range callExpression) ''if (undefined) {\<newline>''
           \<in> set edits"
    using o by (simp add: wrapInIfStatement_other)
qed

text \<open>
  On \<^verbatim>\<open>foo?.forEach(x => { f(x); });\<close> and on \<^verbatim>\<open>a.b?.forEach(x => { f(x); });\<close>, both
  fixable.
\<close>

theorem guard_condition_is_name_witness:
  "member_optional (callee namedCall)
   \<and> obj_expr (object (callee namedCall)) = Identifier ''foo''
   \<and> isFixable memberModules namedCall globalScope memberInfo namedIdentifiers namedContext
       = Inr True
   \<and> getFixFunction memberModules namedCall memberInfo namedContext = Inr namedEdits
   \<and> \<lparr>edit_range = (0, 0), edit_text = ''if (foo) {\<newline>''\<rparr> \<in> set namedEdits
   \<and> member_optional (callee memberCall)
   \<and> obj_expr (object (callee memberCall))
       = MemberExpression (Identifier ''a'') (Identifier ''b'') False False
   \<and> isFixable memberModules memberCall globalScope memberInfo
        (identifiersOf memberProgram) memberContext = Inr True
   \<and> getFixFunction memberModules memberCall memberInfo memberContext = Inr memberEdits
   \<and> \<lparr>edit_range = (0, 0), edit_text = ''if (undefined) {\<newline>''\<rparr> \<in> set memberEdits"
proof -
  have no: "member_optional (callee namedCall)" by (simp add: namedCall_def)
  have ne: "obj_expr (object (callee namedCall)) = Identifier ''foo''"
    by (simp add: namedCall_def)
  from guard_condition_is_name[of namedCall memberModules namedContext memberCallback "[]"
         memberInfo namedEdits] no ne named_fix
  have "fixer_insertTextBefore (call_range namedCall) ''if (foo) {\<newline>'' \<in> set namedEdits"
    by simp
  then have n: "\<lparr>edit_range = (0, 0), edit_text = ''if (foo) {\<newline>''\<rparr> \<in> set namedEdits"
    by (simp add: namedCall_def fixer_insertTextBefore_def fixer_insertTextBeforeRange_def)
  have o: "member_optional (callee memberCall)" by (simp add: memberCall_def)
  have e: "obj_expr (object (callee memberCall))
           = MemberExpression (Identifier ''a'') (Identifier ''b'') False False"
    by (simp add: memberCall_def)
  have f: "isFixable memberModules memberCall globalScope memberInfo
        (identifiersOf memberProgram) memberContext = Inr True"
    by code_simp
  from guard_condition_is_name[of memberCall memberModules memberContext memberCallback "[]"
         memberInfo memberEdits] o e member_fix
  have "fixer_insertTextBefore (call_range memberCall) ''if (undefined) {\<newline>''
        \<in> set memberEdits" by simp
  then have "\<lparr>edit_range = (0, 0), edit_text = ''if (undefined) {\<newline>''\<rparr> \<in> set memberEdits"
    by (simp add: memberCall_def fixer_insertTextBefore_def fixer_insertTextBeforeRange_def)
  then show ?thesis using no ne named_fixable named_fix n o e f member_fix by simp
qed

end
